theory Spec2Isabelle
  imports Main "HOL-Library.Word"
begin

unbundle bit_operations_syntax

section \<open>Data model of the TDP MMU (arch/x86/kvm/mmu/tdp_mmu.c)\<close>

text \<open>
  The model follows \<^verbatim>\<open>tdp_mmu.c\<close> function by function. A page-table page is named by
  the address of its array of entries (\<^verbatim>\<open>sp->spt\<close>); a pointer to an entry
  (\<^verbatim>\<open>tdp_ptep_t\<close>) is the page together with the index of the entry. Mutation is
  explicit state passing over the record \<open>kvm\<close>. \<^verbatim>\<open>WARN_ON\<close> only logs and
  is left out; \<^verbatim>\<open>KVM_BUG_ON\<close> marks the guest as bugged and execution goes on;
  \<^verbatim>\<open>BUG()\<close> stops the host and is the error value \<open>HOST_BUG\<close>. A result is
  \<open>Inr\<close> of what the function returns, or \<open>Inl\<close> of the reason why it does not
  return: \<open>HOST_BUG\<close>, the use of a null pointer (\<open>NULL_DEREF\<close>), a loop that
  spins for ever (\<open>SPINS\<close>), or fuel that ran out
  (\<open>OUT_OF_FUEL\<close>). A C name that starts with two underscores is written with the
  prefix \<open>raw_\<close>.
\<close>

type_synonym u64 = "64 word"
type_synonym gfn_t = u64
type_synonym kvm_pfn_t = u64
type_synonym spt_t = u64
type_synonym tdp_ptep_t = "spt_t \<times> nat"

text \<open>\<^verbatim>\<open>union kvm_mmu_page_role\<close>: equality of two roles is equality of \<^verbatim>\<open>role.word\<close>.\<close>

record kvm_mmu_page_role =
  role_level :: nat
  role_is_private :: bool
  role_invalid :: bool
  role_smm :: bool
  role_guest_mode :: bool
  role_rest :: nat

text \<open>\<^verbatim>\<open>struct kvm_mmu_page\<close>, the fields \<^verbatim>\<open>tdp_mmu.c\<close> reads and writes.\<close>

record kvm_mmu_page =
  role :: kvm_mmu_page_role
  sp_gfn :: gfn_t
  spt :: spt_t
  ptep :: "tdp_ptep_t option"
  private_spt :: "u64 option"
  nx_huge_page_disallowed :: bool
  tdp_mmu_page :: bool
  tdp_mmu_root_count :: int

text \<open>Calls into the secure-resource manager (\<^verbatim>\<open>static_call(kvm_x86_...)\<close>).\<close>

datatype srm_call =
    Link_private_spt gfn_t nat "u64 option"
  | Free_private_spt gfn_t nat "u64 option"
  | Split_private_spt gfn_t nat "u64 option"
  | Merge_private_spt gfn_t nat "u64 option"
  | Set_private_spte gfn_t nat kvm_pfn_t
  | Remove_private_spte gfn_t nat kvm_pfn_t
  | Zap_private_spte gfn_t nat
  | Unzap_private_spte gfn_t nat
  | Write_block_private_pages "gfn_t list"

datatype tlb_flush =
    Flush_remote_tlbs
  | Flush_remote_tlbs_gfn gfn_t nat
  | Flush_remote_tlbs_range gfn_t u64

text \<open>
  \<^verbatim>\<open>struct kvm\<close>: the root list (head first), the shadow pages found through
  \<^verbatim>\<open>sptep_to_sp\<close>, the contents of the page-table pages, the counters, and logs of
  what was handed to the collaborators (RCU, the zap workqueue, TLB flushes, the
  secure-resource manager, the page-frame dirty/accessed callbacks).
\<close>

record kvm =
  tdp_mmu_roots :: "spt_t list"
  sp_of :: "spt_t \<Rightarrow> kvm_mmu_page"
  spte_mem :: "spt_t \<Rightarrow> nat \<Rightarrow> u64"
  tdp_mmu_pages :: int
  tdp_private_mmu_pages :: int
  pgtable_pages :: int
  page_stats :: "nat \<Rightarrow> int"
  vm_bugged :: bool
  gfn_shared_mask :: gfn_t
  rcu_free_queue :: "spt_t list"
  freed_sps :: "spt_t list"
  zap_work :: "spt_t list"
  nx_untracked :: "spt_t list"
  tlb_flushes :: "tlb_flush list"
  srm_calls :: "srm_call list"
  pfn_dirty :: "kvm_pfn_t list"
  pfn_accessed :: "kvm_pfn_t list"
  sched_queries :: nat
  yields :: "bool list"
  split_allocs :: nat
  nx_tracked :: "spt_t list"

datatype error = HOST_BUG | NULL_DEREF | OUT_OF_FUEL | SPINS

text \<open>
  \<^verbatim>\<open>struct tdp_iter\<close> (tdp_iter.h): the walker's cursor. The fields \<^verbatim>\<open>sptep\<close>,
  \<^verbatim>\<open>gfn\<close>, \<^verbatim>\<open>level\<close>, \<^verbatim>\<open>as_id\<close> and \<^verbatim>\<open>old_spte\<close> carry the prefix \<open>iter_\<close>,
  since the functions use the bare names for their parameters.
\<close>

record tdp_iter =
  next_last_level_gfn :: gfn_t
  yielded_gfn :: gfn_t
  pt_path :: "nat \<Rightarrow> spt_t"
  iter_sptep :: tdp_ptep_t
  iter_gfn :: gfn_t
  root_level :: nat
  min_level :: nat
  iter_level :: nat
  iter_as_id :: nat
  iter_old_spte :: u64
  valid :: bool
  yielded :: bool

text \<open>
  What the vCPU contributes: the role of its MMU's root and the memory caches that
  \<^verbatim>\<open>tdp_mmu_alloc_sp\<close> takes pages from, and the two root pointers of its MMU.
\<close>

record kvm_vcpu =
  root_role :: kvm_mmu_page_role
  mmu_page_header_cache :: "u64 list"
  mmu_shadow_page_cache :: "spt_t list"
  mmu_private_spt_cache :: "u64 list"
  root_hpa :: spt_t
  private_root_hpa :: spt_t
  pf_mmio_spte_created :: nat

text \<open>\<^verbatim>\<open>struct kvm_page_fault\<close> and \<^verbatim>\<open>struct kvm_gfn_range\<close>, fields prefixed.\<close>

record kvm_page_fault =
  fault_addr :: u64
  fault_gfn :: gfn_t
  fault_pfn :: kvm_pfn_t
  fault_slot :: bool
  fault_is_private :: bool
  fault_nonleaf :: bool
  fault_goal_level :: nat
  fault_req_level :: nat
  fault_max_level :: nat
  fault_prefetch :: bool
  fault_map_writable :: bool
  fault_write :: bool
  fault_exec :: bool
  fault_huge_page_disallowed :: bool
  fault_nx_huge_page_workaround_enabled :: bool

record kvm_gfn_range =
  range_start :: gfn_t
  range_end :: gfn_t
  range_as_id :: nat
  range_only_private :: bool
  range_only_shared :: bool
  range_attributes_private :: bool
  range_may_block :: bool
  range_pte_write :: bool
  range_pte_pfn :: kvm_pfn_t

datatype tdp_zap_private = ZAP_PRIVATE_SKIP | ZAP_PRIVATE_BLOCK | ZAP_PRIVATE_REMOVE

text \<open>
  The parts of the program that are not among the sources (spte.h, tdp_iter.h, mmu.h,
  the scheduler and the secure-resource manager) are parameters of the model: the
  entry codec with its constants, the constructors of entry values, the answers of the
  scheduler to the \<open>n\<close>-th query, the outcome of the \<open>n\<close>-th allocation of a page for
  a split (with or without \<^verbatim>\<open>GFP_NOWAIT\<close>), the fault-path helpers of mmu.c, and the
  status the secure-resource manager returns for a call after a given history of calls.
\<close>

record env =
  SPTE_ENT_PER_PAGE :: nat
  PAGE_SHIFT :: nat
  REMOVED_SPTE :: u64
  SHADOW_NONPRESENT_VALUE :: u64
  SPTE_PRIVATE_ZAPPED :: u64
  PT_PAGE_SIZE_MASK :: u64
  PT_WRITABLE_MASK :: u64
  shadow_accessed_mask :: u64
  is_shadow_present_pte :: "u64 \<Rightarrow> bool"
  is_last_spte :: "u64 \<Rightarrow> nat \<Rightarrow> bool"
  is_large_pte :: "u64 \<Rightarrow> bool"
  is_removed_spte :: "u64 \<Rightarrow> bool"
  is_private_zapped_spte :: "u64 \<Rightarrow> bool"
  is_mmio_spte :: "u64 \<Rightarrow> bool"
  is_dirty_spte :: "u64 \<Rightarrow> bool"
  is_accessed_spte :: "u64 \<Rightarrow> bool"
  is_writable_pte :: "u64 \<Rightarrow> bool"
  spte_ad_enabled :: "u64 \<Rightarrow> bool"
  spte_has_volatile_bits :: "u64 \<Rightarrow> bool"
  spte_to_pfn :: "u64 \<Rightarrow> kvm_pfn_t"
  make_nonleaf_spte :: "spt_t \<Rightarrow> u64"
  make_huge_page_split_spte :: "u64 \<Rightarrow> kvm_mmu_page_role \<Rightarrow> nat \<Rightarrow> u64"
  mark_spte_for_access_track :: "u64 \<Rightarrow> u64"
  make_spte :: "kvm_mmu_page \<Rightarrow> nat \<Rightarrow> gfn_t \<Rightarrow> kvm_pfn_t \<Rightarrow> u64 \<Rightarrow> bool \<Rightarrow> bool \<Rightarrow> bool
                \<Rightarrow> bool \<times> u64"
  make_mmio_spte :: "gfn_t \<Rightarrow> nat \<Rightarrow> u64"
  kvm_mmu_changed_pte_notifier_make_spte :: "u64 \<Rightarrow> kvm_pfn_t \<Rightarrow> u64"
  kvm_mmu_max_gfn :: gfn_t
  kvm_hugepage_test_mixed :: "gfn_t \<Rightarrow> nat \<Rightarrow> bool"
  kvm_mmu_hugepage_adjust :: "kvm_page_fault \<Rightarrow> kvm_page_fault"
  disallowed_hugepage_adjust :: "kvm_page_fault \<Rightarrow> u64 \<Rightarrow> nat \<Rightarrow> kvm_page_fault"
  is_error_noslot_pfn :: "kvm_pfn_t \<Rightarrow> bool"
  kvm_pfn_to_refcounted_page :: "kvm_pfn_t \<Rightarrow> bool"
  kmem_cache_alloc :: "nat \<Rightarrow> bool \<Rightarrow> bool"
  get_free_page :: "nat \<Rightarrow> bool \<Rightarrow> spt_t option"
  kvm_alloc_private_spt_for_split :: "nat \<Rightarrow> bool \<Rightarrow> bool \<Rightarrow> u64 option"
  need_resched :: "nat \<Rightarrow> bool"
  rwlock_needbreak :: "nat \<Rightarrow> bool"
  srm :: "srm_call list \<Rightarrow> srm_call \<Rightarrow> int"

text \<open>\<^verbatim>\<open>KVM_BUG_ON(cond, kvm)\<close>: mark the guest as bugged when the condition holds.\<close>

definition KVM_BUG_ON :: "bool \<Rightarrow> kvm \<Rightarrow> kvm" where
  "KVM_BUG_ON cond k = (if cond then k\<lparr>vm_bugged := True\<rparr> else k)"

definition is_private_sp :: "kvm_mmu_page \<Rightarrow> bool" where
  "is_private_sp sp = role_is_private (role sp)"

definition kvm_mmu_role_as_id :: "kvm_mmu_page_role \<Rightarrow> nat" where
  "kvm_mmu_role_as_id r = (if role_smm r then 1 else 0)"

definition kvm_mmu_page_as_id :: "kvm_mmu_page \<Rightarrow> nat" where
  "kvm_mmu_page_as_id sp = kvm_mmu_role_as_id (role sp)"

definition is_tdp_mmu_page :: "kvm_mmu_page \<Rightarrow> bool" where
  "is_tdp_mmu_page sp = tdp_mmu_page sp"

section \<open>Root/lifecycle manager\<close>

text \<open>
  Modelled from the spec: \<^verbatim>\<open>refcount_t\<close> is not among the sources. The spec speaks of
  incrementing and decrementing a reference count and of the count reaching zero; the
  count is an unbounded integer here (the saturation of the kernel's counters on
  overflow is not modelled). \<open>refcount_dec_and_test\<close> returns the new count and whether
  it is zero; \<open>refcount_inc_not_zero\<close> leaves a zero count alone and reports failure.
\<close>

definition refcount_dec_and_test :: "int \<Rightarrow> int \<times> bool" where
  "refcount_dec_and_test r = (r - 1, r - 1 = 0)"

definition refcount_inc_not_zero :: "int \<Rightarrow> int \<times> bool" where
  "refcount_inc_not_zero r = (if r = 0 then (r, False) else (r + 1, True))"

definition set_root_count :: "spt_t \<Rightarrow> int \<Rightarrow> kvm \<Rightarrow> kvm" where
  "set_root_count root c k =
     k\<lparr>sp_of := (sp_of k)(root := (sp_of k root)\<lparr>tdp_mmu_root_count := c\<rparr>)\<rparr>"

text \<open>\<^verbatim>\<open>kvm_tdp_mmu_get_root\<close> (tdp_mmu.h): the new state and whether a reference was taken.\<close>

definition kvm_tdp_mmu_get_root :: "kvm \<Rightarrow> spt_t \<Rightarrow> kvm \<times> bool" where
  "kvm_tdp_mmu_get_root k root =
     (case refcount_inc_not_zero (tdp_mmu_root_count (sp_of k root)) of
        (c, ok) \<Rightarrow> (set_root_count root c k, ok))"

text \<open>\<^verbatim>\<open>list_del_rcu\<close> on the root list, and \<^verbatim>\<open>call_rcu(.., tdp_mmu_free_sp_rcu_callback)\<close>.\<close>

definition list_del_rcu :: "spt_t \<Rightarrow> kvm \<Rightarrow> kvm" where
  "list_del_rcu root k = k\<lparr>tdp_mmu_roots := remove1 root (tdp_mmu_roots k)\<rparr>"

definition call_rcu :: "spt_t \<Rightarrow> kvm \<Rightarrow> kvm" where
  "call_rcu sp k = k\<lparr>rcu_free_queue := rcu_free_queue k @ [sp]\<rparr>"

definition kvm_tdp_mmu_put_root :: "kvm \<Rightarrow> spt_t \<Rightarrow> bool \<Rightarrow> kvm" where
  "kvm_tdp_mmu_put_root k root shared =
     (case refcount_dec_and_test (tdp_mmu_root_count (sp_of k root)) of
        (c, zero) \<Rightarrow>
          let k1 = set_root_count root c k in
          if \<not> zero then k1
          else
            let k2 = KVM_BUG_ON (\<not> is_tdp_mmu_page (sp_of k1 root)
                                 \<or> \<not> role_invalid (role (sp_of k1 root))) k1;
                k3 = list_del_rcu root k2
            in call_rcu root k3)"

text \<open>
  Modelled from the spec: \<^verbatim>\<open>kvm_mmu_memory_cache_alloc\<close> is not among the sources. The
  caches are topped up before the MMU lock is taken; taking from an empty cache is the
  kernel's \<^verbatim>\<open>BUG_ON(!p)\<close>.
\<close>

definition kvm_mmu_memory_cache_alloc :: "u64 list \<Rightarrow> error + (u64 \<times> u64 list)" where
  "kvm_mmu_memory_cache_alloc mc = (case mc of [] \<Rightarrow> Inl HOST_BUG | p # ps \<Rightarrow> Inr (p, ps))"

definition kvm_mmu_page_role_set_private :: "kvm_mmu_page_role \<Rightarrow> kvm_mmu_page_role" where
  "kvm_mmu_page_role_set_private r = r\<lparr>role_is_private := True\<rparr>"

definition kvm_mmu_page_role_is_private :: "kvm_mmu_page_role \<Rightarrow> bool" where
  "kvm_mmu_page_role_is_private r = role_is_private r"

text \<open>
  \<^verbatim>\<open>tdp_mmu_alloc_sp\<close>: a zeroed header from the header cache
  (\<^verbatim>\<open>mmu_page_header_cache\<close>), then its page of entries from the shadow-page cache, and
  for a private role the secure page from the private cache
  (\<^verbatim>\<open>kvm_mmu_alloc_private_spt\<close>). The model finds a header through its page of entries
  (\<open>sp_of\<close>), so the object taken from the header cache is only consumed.
\<close>

definition tdp_mmu_alloc_sp ::
  "kvm_vcpu \<Rightarrow> kvm_mmu_page_role \<Rightarrow> error + (kvm_mmu_page \<times> kvm_vcpu)" where
  "tdp_mmu_alloc_sp vcpu r =
     (case kvm_mmu_memory_cache_alloc (mmu_page_header_cache vcpu) of
        Inl e \<Rightarrow> Inl e
      | Inr (h, hs) \<Rightarrow>
          let vcpu0 = vcpu\<lparr>mmu_page_header_cache := hs\<rparr> in
          (case kvm_mmu_memory_cache_alloc (mmu_shadow_page_cache vcpu0) of
             Inl e \<Rightarrow> Inl e
           | Inr (p, ps) \<Rightarrow>
               let sp = \<lparr>role = r, sp_gfn = 0, spt = p, ptep = None, private_spt = None,
                           nx_huge_page_disallowed = False, tdp_mmu_page = False,
                           tdp_mmu_root_count = 0\<rparr>;
                   vcpu1 = vcpu0\<lparr>mmu_shadow_page_cache := ps\<rparr>
               in if kvm_mmu_page_role_is_private r then
                    (case kvm_mmu_memory_cache_alloc (mmu_private_spt_cache vcpu1) of
                       Inl e \<Rightarrow> Inl e
                     | Inr (q, qs) \<Rightarrow>
                         Inr (sp\<lparr>private_spt := Some q\<rparr>,
                              vcpu1\<lparr>mmu_private_spt_cache := qs\<rparr>))
                  else Inr (sp, vcpu1)))"

text \<open>
  \<^verbatim>\<open>tdp_mmu_init_sp\<close>: \<^verbatim>\<open>set_page_private\<close> makes the header the one found from
  its page of entries.
\<close>

definition tdp_mmu_init_sp :: "kvm \<Rightarrow> kvm_mmu_page \<Rightarrow> tdp_ptep_t option \<Rightarrow> gfn_t \<Rightarrow> kvm" where
  "tdp_mmu_init_sp k sp parent_ptep g =
     k\<lparr>sp_of := (sp_of k)(spt sp := sp\<lparr>sp_gfn := g, ptep := parent_ptep, tdp_mmu_page := True\<rparr>)\<rparr>"

text \<open>
  The loop of \<^verbatim>\<open>kvm_tdp_mmu_get_vcpu_root_no_alloc\<close> over
  \<^verbatim>\<open>for_each_tdp_mmu_root(kvm, root, kvm_mmu_role_as_id(role))\<close>.
\<close>

fun get_vcpu_root_no_alloc_loop ::
  "kvm \<Rightarrow> kvm_mmu_page_role \<Rightarrow> spt_t list \<Rightarrow> kvm \<times> spt_t option" where
  "get_vcpu_root_no_alloc_loop k r [] = (k, None)"
| "get_vcpu_root_no_alloc_loop k r (root # rest) =
     (if kvm_mmu_page_as_id (sp_of k root) \<noteq> kvm_mmu_role_as_id r
      then get_vcpu_root_no_alloc_loop k r rest
      else if role (sp_of k root) = r
      then (case kvm_tdp_mmu_get_root k root of
              (k1, got) \<Rightarrow>
                if got then (k1, Some root) else get_vcpu_root_no_alloc_loop k1 r rest)
      else get_vcpu_root_no_alloc_loop k r rest)"

definition kvm_tdp_mmu_get_vcpu_root_no_alloc ::
  "kvm \<Rightarrow> kvm_mmu_page_role \<Rightarrow> kvm \<times> spt_t option" where
  "kvm_tdp_mmu_get_vcpu_root_no_alloc k r = get_vcpu_root_no_alloc_loop k r (tdp_mmu_roots k)"

definition list_add_rcu :: "spt_t \<Rightarrow> kvm \<Rightarrow> kvm" where
  "list_add_rcu root k = k\<lparr>tdp_mmu_roots := root # tdp_mmu_roots k\<rparr>"

definition kvm_tdp_mmu_get_vcpu_root ::
  "kvm \<Rightarrow> kvm_vcpu \<Rightarrow> bool \<Rightarrow> error + (kvm \<times> kvm_vcpu \<times> spt_t)" where
  "kvm_tdp_mmu_get_vcpu_root k vcpu private =
     (let r0 = root_role vcpu;
          r = (if private then kvm_mmu_page_role_set_private r0 else r0)
      in case kvm_tdp_mmu_get_vcpu_root_no_alloc k r of
           (k1, Some root) \<Rightarrow> Inr (k1, vcpu, root)
         | (k1, None) \<Rightarrow>
             (case tdp_mmu_alloc_sp vcpu r of
                Inl e \<Rightarrow> Inl e
              | Inr (sp, vcpu1) \<Rightarrow>
                  let k2 = tdp_mmu_init_sp k1 sp None 0;
                      root = spt sp;
                      k3 = set_root_count root 2 k2;
                      k4 = list_add_rcu root k3
                  in Inr (k4, vcpu1, root)))"

section \<open>Yield checkpoint\<close>

definition kvm_flush_remote_tlbs :: "kvm \<Rightarrow> kvm" where
  "kvm_flush_remote_tlbs k = k\<lparr>tlb_flushes := tlb_flushes k @ [Flush_remote_tlbs]\<rparr>"

text \<open>
  \<^verbatim>\<open>tdp_mmu_iter_cond_resched\<close>. \<^verbatim>\<open>need_resched() || rwlock_needbreak()\<close> is the
  scheduler's answer to the next query; \<^verbatim>\<open>cond_resched_rwlock_read/write\<close> is recorded
  in \<open>yields\<close> with the lock mode.
\<close>

definition tdp_mmu_iter_cond_resched ::
  "env \<Rightarrow> kvm \<Rightarrow> tdp_iter \<Rightarrow> bool \<Rightarrow> bool \<Rightarrow> kvm \<times> tdp_iter \<times> bool" where
  "tdp_mmu_iter_cond_resched E k iter flush shared =
     (if next_last_level_gfn iter = yielded_gfn iter then (k, iter, False)
      else
        let q = sched_queries k;
            k1 = k\<lparr>sched_queries := q + 1\<rparr>
        in if need_resched E q \<or> rwlock_needbreak E q then
             let k2 = (if flush then kvm_flush_remote_tlbs k1 else k1);
                 k3 = k2\<lparr>yields := yields k2 @ [shared]\<rparr>;
                 iter1 = iter\<lparr>yielded := True\<rparr>
             in (k3, iter1, yielded iter1)
           else (k1, iter, yielded iter))"


section \<open>Entries, memory and accounting\<close>

text \<open>
  Error numbers (\<^verbatim>\<open>errno-base.h\<close>) and page-table levels (\<^verbatim>\<open>PG_LEVEL_4K\<close>, ...).
\<close>

definition EPERM :: int where "EPERM = 1"
definition EIO :: int where "EIO = 5"
definition EAGAIN :: int where "EAGAIN = 11"
definition ENOMEM :: int where "ENOMEM = 12"
definition EFAULT :: int where "EFAULT = 14"
definition EBUSY :: int where "EBUSY = 16"

definition PG_LEVEL_4K :: nat where "PG_LEVEL_4K = 1"
definition PG_LEVEL_2M :: nat where "PG_LEVEL_2M = 2"
definition PG_LEVEL_1G :: nat where "PG_LEVEL_1G = 3"

text \<open>
  Modelled from the spec: the macros \<^verbatim>\<open>KVM_PAGES_PER_HPAGE\<close>, \<^verbatim>\<open>gfn_to_gpa\<close>,
  \<^verbatim>\<open>gpa_to_gfn\<close> and the helpers \<^verbatim>\<open>kvm_is_private_gpa\<close>, \<^verbatim>\<open>is_private_sptep\<close>,
  \<^verbatim>\<open>spte_to_child_pt\<close> are not among the sources. An entry at level \<open>l\<close> covers
  \<open>N ^ (l - 1)\<close> frames for \<open>N\<close> entries per table; a frame is private when the
  guest has a shared mask and the frame does not carry it; a present entry that is not
  a leaf holds the address of its child table.
\<close>

definition KVM_PAGES_PER_HPAGE :: "env \<Rightarrow> nat \<Rightarrow> u64" where
  "KVM_PAGES_PER_HPAGE E l = of_nat (SPTE_ENT_PER_PAGE E ^ (l - 1))"

definition gfn_to_gpa :: "env \<Rightarrow> gfn_t \<Rightarrow> u64" where
  "gfn_to_gpa E g = push_bit (PAGE_SHIFT E) g"

definition gpa_to_gfn :: "env \<Rightarrow> u64 \<Rightarrow> gfn_t" where
  "gpa_to_gfn E a = drop_bit (PAGE_SHIFT E) a"

definition kvm_gfn_shared_mask :: "kvm \<Rightarrow> gfn_t" where
  "kvm_gfn_shared_mask k = gfn_shared_mask k"

definition kvm_is_private_gpa :: "env \<Rightarrow> kvm \<Rightarrow> u64 \<Rightarrow> bool" where
  "kvm_is_private_gpa E k gpa =
     (kvm_gfn_shared_mask k \<noteq> 0 \<and> gpa_to_gfn E gpa AND kvm_gfn_shared_mask k = 0)"

definition sptep_to_sp :: "kvm \<Rightarrow> tdp_ptep_t \<Rightarrow> kvm_mmu_page" where
  "sptep_to_sp k p = sp_of k (fst p)"

definition is_private_sptep :: "kvm \<Rightarrow> tdp_ptep_t \<Rightarrow> bool" where
  "is_private_sptep k p = is_private_sp (sptep_to_sp k p)"

definition spte_to_child_pt :: "env \<Rightarrow> u64 \<Rightarrow> nat \<Rightarrow> spt_t option" where
  "spte_to_child_pt E spte l =
     (if \<not> is_shadow_present_pte E spte \<or> is_last_spte E spte l then None
      else Some (push_bit (PAGE_SHIFT E) (spte_to_pfn E spte)))"

definition kvm_mmu_private_spt :: "kvm_mmu_page \<Rightarrow> u64 option" where
  "kvm_mmu_private_spt sp = private_spt sp"

text \<open>
  Modelled from the spec: the accessors of tdp_iter.h are not among the sources. They
  read an entry, write it, exchange it, and compare-and-exchange it;
  \<^verbatim>\<open>kvm_tdp_mmu_write_spte\<close> returns the value it replaced, read from memory when the
  entry is a present leaf with volatile bits and taken from the caller otherwise.
\<close>

definition kvm_tdp_mmu_read_spte :: "kvm \<Rightarrow> tdp_ptep_t \<Rightarrow> u64" where
  "kvm_tdp_mmu_read_spte k p = spte_mem k (fst p) (snd p)"

definition raw_kvm_tdp_mmu_write_spte :: "tdp_ptep_t \<Rightarrow> u64 \<Rightarrow> kvm \<Rightarrow> kvm" where
  "raw_kvm_tdp_mmu_write_spte p v k =
     k\<lparr>spte_mem := (spte_mem k)(fst p := (spte_mem k (fst p))(snd p := v))\<rparr>"

definition kvm_tdp_mmu_write_spte_atomic :: "kvm \<Rightarrow> tdp_ptep_t \<Rightarrow> u64 \<Rightarrow> kvm \<times> u64" where
  "kvm_tdp_mmu_write_spte_atomic k p v =
     (raw_kvm_tdp_mmu_write_spte p v k, kvm_tdp_mmu_read_spte k p)"

definition kvm_tdp_mmu_spte_need_atomic_write :: "env \<Rightarrow> u64 \<Rightarrow> nat \<Rightarrow> bool" where
  "kvm_tdp_mmu_spte_need_atomic_write E old l =
     (is_shadow_present_pte E old \<and> is_last_spte E old l \<and> spte_has_volatile_bits E old)"

definition kvm_tdp_mmu_write_spte ::
  "env \<Rightarrow> kvm \<Rightarrow> tdp_ptep_t \<Rightarrow> u64 \<Rightarrow> u64 \<Rightarrow> nat \<Rightarrow> kvm \<times> u64" where
  "kvm_tdp_mmu_write_spte E k p old new l =
     (if kvm_tdp_mmu_spte_need_atomic_write E old l
      then kvm_tdp_mmu_write_spte_atomic k p new
      else (raw_kvm_tdp_mmu_write_spte p new k, old))"

definition tdp_mmu_clear_spte_bits ::
  "env \<Rightarrow> kvm \<Rightarrow> tdp_ptep_t \<Rightarrow> u64 \<Rightarrow> u64 \<Rightarrow> nat \<Rightarrow> kvm \<times> u64" where
  "tdp_mmu_clear_spte_bits E k p old bits l =
     (if kvm_tdp_mmu_spte_need_atomic_write E old l
      then (raw_kvm_tdp_mmu_write_spte p (kvm_tdp_mmu_read_spte k p AND NOT bits) k,
            kvm_tdp_mmu_read_spte k p)
      else (raw_kvm_tdp_mmu_write_spte p (old AND NOT bits) k, old))"

text \<open>
  \<^verbatim>\<open>try_cmpxchg64(ptr, &old, new)\<close>: the new state, the value left in \<^verbatim>\<open>old\<close>
  (refreshed from memory on failure) and whether the exchange happened.
\<close>

definition try_cmpxchg64 :: "kvm \<Rightarrow> tdp_ptep_t \<Rightarrow> u64 \<Rightarrow> u64 \<Rightarrow> kvm \<times> u64 \<times> bool" where
  "try_cmpxchg64 k p old new =
     (if kvm_tdp_mmu_read_spte k p = old
      then (raw_kvm_tdp_mmu_write_spte p new k, old, True)
      else (k, kvm_tdp_mmu_read_spte k p, False))"

text \<open>A call of the secure-resource manager: the call is logged and its status returned.\<close>

definition static_call :: "env \<Rightarrow> srm_call \<Rightarrow> kvm \<Rightarrow> kvm \<times> int" where
  "static_call E c k = (k\<lparr>srm_calls := srm_calls k @ [c]\<rparr>, srm E (srm_calls k) c)"

definition kvm_set_pfn_dirty :: "kvm_pfn_t \<Rightarrow> kvm \<Rightarrow> kvm" where
  "kvm_set_pfn_dirty pfn k = k\<lparr>pfn_dirty := pfn_dirty k @ [pfn]\<rparr>"

definition kvm_set_pfn_accessed :: "kvm_pfn_t \<Rightarrow> kvm \<Rightarrow> kvm" where
  "kvm_set_pfn_accessed pfn k = k\<lparr>pfn_accessed := pfn_accessed k @ [pfn]\<rparr>"

definition kvm_update_page_stats :: "nat \<Rightarrow> int \<Rightarrow> kvm \<Rightarrow> kvm" where
  "kvm_update_page_stats l n k =
     k\<lparr>page_stats := (page_stats k)(l - 1 := page_stats k (l - 1) + n)\<rparr>"

definition kvm_account_pgtable_pages :: "int \<Rightarrow> kvm \<Rightarrow> kvm" where
  "kvm_account_pgtable_pages n k = k\<lparr>pgtable_pages := pgtable_pages k + n\<rparr>"

definition kvm_flush_remote_tlbs_gfn :: "gfn_t \<Rightarrow> nat \<Rightarrow> kvm \<Rightarrow> kvm" where
  "kvm_flush_remote_tlbs_gfn g l k = k\<lparr>tlb_flushes := tlb_flushes k @ [Flush_remote_tlbs_gfn g l]\<rparr>"

definition kvm_flush_remote_tlbs_range :: "gfn_t \<Rightarrow> u64 \<Rightarrow> kvm \<Rightarrow> kvm" where
  "kvm_flush_remote_tlbs_range g n k =
     k\<lparr>tlb_flushes := tlb_flushes k @ [Flush_remote_tlbs_range g n]\<rparr>"

definition tdp_account_mmu_page :: "kvm \<Rightarrow> spt_t \<Rightarrow> kvm" where
  "tdp_account_mmu_page k sp =
     (let k1 = kvm_account_pgtable_pages 1 k in
      if is_private_sp (sp_of k1 sp)
      then k1\<lparr>tdp_private_mmu_pages := tdp_private_mmu_pages k1 + 1\<rparr>
      else k1\<lparr>tdp_mmu_pages := tdp_mmu_pages k1 + 1\<rparr>)"

definition tdp_unaccount_mmu_page :: "kvm \<Rightarrow> spt_t \<Rightarrow> kvm" where
  "tdp_unaccount_mmu_page k sp =
     (let k1 = kvm_account_pgtable_pages (- 1) k in
      if is_private_sp (sp_of k1 sp)
      then k1\<lparr>tdp_private_mmu_pages := tdp_private_mmu_pages k1 - 1\<rparr>
      else k1\<lparr>tdp_mmu_pages := tdp_mmu_pages k1 - 1\<rparr>)"

text \<open>\<^verbatim>\<open>tdp_mmu_free_sp\<close>: the page is freed at once.\<close>

definition tdp_mmu_free_sp :: "spt_t \<Rightarrow> kvm \<Rightarrow> kvm" where
  "tdp_mmu_free_sp sp k = k\<lparr>freed_sps := freed_sps k @ [sp]\<rparr>"

definition tdp_mmu_unlink_sp :: "kvm \<Rightarrow> spt_t \<Rightarrow> bool \<Rightarrow> kvm" where
  "tdp_mmu_unlink_sp k sp shared =
     (let k1 = tdp_unaccount_mmu_page k sp in
      if \<not> nx_huge_page_disallowed (sp_of k1 sp) then k1
      else k1\<lparr>sp_of := (sp_of k1)(sp := (sp_of k1 sp)\<lparr>nx_huge_page_disallowed := False\<rparr>),
              nx_untracked := nx_untracked k1 @ [sp]\<rparr>)"

section \<open>Mutation core: change bookkeeping\<close>

definition handle_private_zapped_spte ::
  "env \<Rightarrow> kvm \<Rightarrow> gfn_t \<Rightarrow> u64 \<Rightarrow> u64 \<Rightarrow> nat \<Rightarrow> kvm" where
  "handle_private_zapped_spte E k g old_spte new_spte l =
     (let was_private_zapped = is_private_zapped_spte E old_spte;
          is_private_zapped = is_private_zapped_spte E new_spte;
          was_present = is_shadow_present_pte E old_spte;
          is_present = is_shadow_present_pte E new_spte;
          old_pfn = spte_to_pfn E old_spte;
          k1 = KVM_BUG_ON (\<not> is_last_spte E old_spte l) k;
          k2 = KVM_BUG_ON is_private_zapped k1;
          k3 = KVM_BUG_ON was_present k2;
          k4 = KVM_BUG_ON (\<not> was_private_zapped) k3;
          k5 = KVM_BUG_ON is_present k4
      in case static_call E (Remove_private_spte g l old_pfn) k5 of
           (k6, ret) \<Rightarrow> KVM_BUG_ON (ret \<noteq> 0) k6)"

definition handle_removed_private_spte ::
  "env \<Rightarrow> kvm \<Rightarrow> gfn_t \<Rightarrow> u64 \<Rightarrow> u64 \<Rightarrow> nat \<Rightarrow> kvm" where
  "handle_removed_private_spte E k g old_spte new_spte l =
     (let was_present = is_shadow_present_pte E old_spte;
          is_present = is_shadow_present_pte E new_spte;
          was_leaf = (was_present \<and> is_last_spte E old_spte l);
          is_leaf = (is_present \<and> is_last_spte E new_spte l);
          was_private_zapped = is_private_zapped_spte E old_spte;
          is_private_zapped = is_private_zapped_spte E new_spte;
          old_pfn = spte_to_pfn E old_spte;
          new_pfn = spte_to_pfn E new_spte
      in if was_leaf = is_leaf \<and> was_present = is_present
            \<and> was_private_zapped = is_private_zapped
         then k
         else
           let k1 = KVM_BUG_ON (was_private_zapped \<and> is_private_zapped) k in
           if \<not> was_leaf then k1
           else
             case static_call E (Zap_private_spte g l) k1 of
               (k2, ret) \<Rightarrow>
                 if is_private_zapped then KVM_BUG_ON (new_pfn \<noteq> old_pfn) k2
                 else if ret \<noteq> 0 then KVM_BUG_ON True k2
                 else
                   let k3 = KVM_BUG_ON (\<not> was_present) k2;
                       k4 = KVM_BUG_ON (new_pfn \<noteq> 0) k3
                   in case static_call E (Remove_private_spte g l old_pfn) k4 of
                        (k5, ret2) \<Rightarrow> KVM_BUG_ON (ret2 \<noteq> 0) k5)"

text \<open>
  \<^verbatim>\<open>handle_changed_spte\<close> and \<^verbatim>\<open>handle_removed_pt\<close> call each other through the page
  tables in memory. The recursion takes fuel, one unit for each level of tables torn
  down, and is tied in \<open>handle_removed_pt\<close>: the bodies of the two functions are
  written first with the function they call as the parameter \<open>removed_pt\<close>
  (\<open>changed_spte\<close>). Of \<^verbatim>\<open>handle_changed_spte\<close>, the two statements before the
  call of \<^verbatim>\<open>handle_removed_pt\<close> (page statistics, dirty frame) are
  \<open>handle_changed_spte_stats\<close> and the two after it (the private hook, accessed
  frame) are \<open>handle_changed_spte_private_hook\<close>.

  \<open>handle_removed_pt_loop\<close> is the \<^verbatim>\<open>for (i = 0; i < SPTE_ENT_PER_PAGE; i++)\<close> of
  \<^verbatim>\<open>handle_removed_pt\<close>, at index \<open>i\<close> with \<open>n\<close> entries to go. In shared mode the
  loop exchanges the entry with \<^verbatim>\<open>REMOVED_SPTE\<close> until the value it replaced is not the
  removed one; with no other thread to change the entry, an entry that is already
  removed makes it spin: the error value \<open>SPINS\<close>.
\<close>

definition handle_changed_spte_stats :: "env \<Rightarrow> kvm \<Rightarrow> u64 \<Rightarrow> u64 \<Rightarrow> nat \<Rightarrow> kvm" where
  "handle_changed_spte_stats E k old_spte new_spte l =
     (let was_present = is_shadow_present_pte E old_spte;
          is_present = is_shadow_present_pte E new_spte;
          was_leaf = (was_present \<and> is_last_spte E old_spte l);
          is_leaf = (is_present \<and> is_last_spte E new_spte l);
          old_pfn = spte_to_pfn E old_spte;
          pfn_changed = (old_pfn \<noteq> spte_to_pfn E new_spte);
          k3 = (if is_leaf \<noteq> was_leaf
                then kvm_update_page_stats l (if is_leaf then 1 else - 1) k else k)
      in if was_leaf \<and> is_dirty_spte E old_spte \<and>
            (\<not> is_present \<or> \<not> is_dirty_spte E new_spte \<or> pfn_changed)
         then kvm_set_pfn_dirty old_pfn k3 else k3)"

definition handle_changed_spte_private_hook ::
  "env \<Rightarrow> kvm \<Rightarrow> gfn_t \<Rightarrow> u64 \<Rightarrow> u64 \<Rightarrow> kvm_mmu_page_role \<Rightarrow> bool \<Rightarrow> kvm" where
  "handle_changed_spte_private_hook E k g old_spte new_spte r shared =
     (let is_private = kvm_mmu_page_role_is_private r;
          l = role_level r;
          was_present = is_shadow_present_pte E old_spte;
          is_present = is_shadow_present_pte E new_spte;
          was_leaf = (was_present \<and> is_last_spte E old_spte l);
          is_leaf = (is_present \<and> is_last_spte E new_spte l);
          pfn_changed = (spte_to_pfn E old_spte \<noteq> spte_to_pfn E new_spte);
          k6 = (if is_private \<and> \<not> is_present
                then handle_removed_private_spte E
                       (KVM_BUG_ON (\<not> shared \<and> is_leaf \<and>
                                    \<not> is_private_zapped_spte E new_spte) k)
                       g old_spte new_spte (role_level r)
                else k)
      in if was_leaf \<and> is_accessed_spte E old_spte \<and>
            (\<not> is_present \<or> \<not> is_accessed_spte E new_spte \<or> pfn_changed)
         then kvm_set_pfn_accessed (spte_to_pfn E old_spte) k6 else k6)"

definition handle_changed_spte_body ::
    "env \<Rightarrow> (kvm \<Rightarrow> spt_t \<Rightarrow> bool \<Rightarrow> error + kvm) \<Rightarrow>
     kvm \<Rightarrow> nat \<Rightarrow> gfn_t \<Rightarrow> u64 \<Rightarrow> u64 \<Rightarrow> kvm_mmu_page_role \<Rightarrow> bool \<Rightarrow> error + kvm" where
  "handle_changed_spte_body E removed_pt k asid g old_spte new_spte r shared =
     (let is_private = kvm_mmu_page_role_is_private r;
          l = role_level r;
          was_present = is_shadow_present_pte E old_spte;
          is_present = is_shadow_present_pte E new_spte;
          was_last = is_last_spte E old_spte l;
          was_leaf = (was_present \<and> was_last);
          is_leaf = (is_present \<and> is_last_spte E new_spte l);
          old_pfn = spte_to_pfn E old_spte;
          new_pfn = spte_to_pfn E new_spte;
          pfn_changed = (old_pfn \<noteq> new_pfn);
          was_private_zapped = is_private_zapped_spte E old_spte;
          k1 = KVM_BUG_ON (was_private_zapped \<and> \<not> is_private) k;
          k2 = KVM_BUG_ON (kvm_is_private_gpa E k1 (gfn_to_gpa E g) \<noteq> is_private) k1
      in if was_leaf \<and> is_leaf \<and> pfn_changed then Inl HOST_BUG
         else if old_spte = new_spte then Inr k2
         else if was_private_zapped \<and> \<not> is_present
         then Inr (handle_private_zapped_spte E k2 g old_spte new_spte l)
         else if \<not> was_present \<and> \<not> is_present then Inr k2
         else
           let k4 = handle_changed_spte_stats E k2 old_spte new_spte l
           in case (if was_present \<and> \<not> was_last \<and> (is_leaf \<or> \<not> is_present \<or> pfn_changed)
                    then (case spte_to_child_pt E old_spte l of
                            None \<Rightarrow> Inr k4
                          | Some pt \<Rightarrow>
                              removed_pt
                                (KVM_BUG_ON (is_private \<noteq> is_private_sptep k4 (pt, 0)) k4)
                                pt shared)
                    else Inr k4) of
                Inl e \<Rightarrow> Inl e
              | Inr k5 \<Rightarrow>
                  Inr (handle_changed_spte_private_hook E k5 g old_spte new_spte r shared))"

primrec handle_removed_pt_loop ::
    "env \<Rightarrow> (kvm \<Rightarrow> nat \<Rightarrow> gfn_t \<Rightarrow> u64 \<Rightarrow> u64 \<Rightarrow> kvm_mmu_page_role \<Rightarrow> bool \<Rightarrow> error + kvm) \<Rightarrow>
     spt_t \<Rightarrow> bool \<Rightarrow> nat \<Rightarrow> gfn_t \<Rightarrow> nat \<Rightarrow> nat \<Rightarrow> kvm \<Rightarrow> error + kvm" where
  "handle_removed_pt_loop E changed_spte pt shared l base_gfn i 0 = (\<lambda>k. Inr k)"
| "handle_removed_pt_loop E changed_spte pt shared l base_gfn i (Suc n) = (\<lambda>k.
     let sptep = (pt, i);
         g = base_gfn + of_nat i * KVM_PAGES_PER_HPAGE E l
     in if shared then
          (case kvm_tdp_mmu_write_spte_atomic k sptep (REMOVED_SPTE E) of
             (k1, old_spte) \<Rightarrow>
               if is_removed_spte E old_spte then Inl SPINS
               else
                 (case changed_spte k1 (kvm_mmu_page_as_id (sp_of k1 pt)) g
                         old_spte (REMOVED_SPTE E) (role (sp_of k1 pt)) shared of
                    Inl e \<Rightarrow> Inl e
                  | Inr k2 \<Rightarrow>
                      handle_removed_pt_loop E changed_spte pt shared l base_gfn (i + 1) n k2))
        else
          (let old_spte0 = kvm_tdp_mmu_read_spte k sptep in
           if \<not> is_shadow_present_pte E old_spte0 \<and> \<not> is_private_zapped_spte E old_spte0
           then handle_removed_pt_loop E changed_spte pt shared l base_gfn (i + 1) n k
           else
             (case kvm_tdp_mmu_write_spte E k sptep old_spte0 (REMOVED_SPTE E) l of
                (k1, old_spte) \<Rightarrow>
                  (case changed_spte k1 (kvm_mmu_page_as_id (sp_of k1 pt)) g
                          old_spte (REMOVED_SPTE E) (role (sp_of k1 pt)) shared of
                     Inl e \<Rightarrow> Inl e
                   | Inr k2 \<Rightarrow>
                       handle_removed_pt_loop E changed_spte pt shared l base_gfn (i + 1) n k2))))"

definition handle_removed_pt_body ::
    "env \<Rightarrow> (kvm \<Rightarrow> nat \<Rightarrow> gfn_t \<Rightarrow> u64 \<Rightarrow> u64 \<Rightarrow> kvm_mmu_page_role \<Rightarrow> bool \<Rightarrow> error + kvm) \<Rightarrow>
     kvm \<Rightarrow> spt_t \<Rightarrow> bool \<Rightarrow> error + kvm" where
  "handle_removed_pt_body E changed_spte k pt shared =
     (let sp = sp_of k pt;
          l = role_level (role sp);
          base_gfn = sp_gfn sp;
          k1 = tdp_mmu_unlink_sp k pt shared
      in case handle_removed_pt_loop E changed_spte pt shared l base_gfn 0
                (SPTE_ENT_PER_PAGE E) k1 of
           Inl e \<Rightarrow> Inl e
         | Inr k2 \<Rightarrow>
             let k3 = KVM_BUG_ON (is_private_sp (sp_of k2 pt) \<and>
                                  kvm_mmu_private_spt (sp_of k2 pt) = None) k2;
                 k4 = (if is_private_sp (sp_of k3 pt)
                       then (case static_call E
                                    (Free_private_spt (sp_gfn (sp_of k3 pt))
                                       (role_level (role (sp_of k3 pt)))
                                       (kvm_mmu_private_spt (sp_of k3 pt))) k3 of
                               (k3a, ret) \<Rightarrow>
                                 if ret \<noteq> 0
                                 then k3a\<lparr>sp_of := (sp_of k3a)
                                             (pt := (sp_of k3a pt)\<lparr>private_spt := None\<rparr>)\<rparr>
                                 else k3a)
                       else k3)
             in Inr (call_rcu pt k4))"

primrec handle_removed_pt :: "env \<Rightarrow> nat \<Rightarrow> kvm \<Rightarrow> spt_t \<Rightarrow> bool \<Rightarrow> error + kvm" where
  "handle_removed_pt E 0 = (\<lambda>k pt shared. Inl OUT_OF_FUEL)"
| "handle_removed_pt E (Suc fuel) =
     handle_removed_pt_body E (handle_changed_spte_body E (handle_removed_pt E fuel))"

definition handle_changed_spte ::
    "env \<Rightarrow> nat \<Rightarrow> kvm \<Rightarrow> nat \<Rightarrow> gfn_t \<Rightarrow> u64 \<Rightarrow> u64 \<Rightarrow> kvm_mmu_page_role \<Rightarrow> bool \<Rightarrow> error + kvm" where
  "handle_changed_spte E fuel = handle_changed_spte_body E (handle_removed_pt E fuel)"

section \<open>Lockless tree walker\<close>

text \<open>
  Modelled from the spec: tdp_iter.c and tdp_iter.h are not among the sources. The
  walker is the spec's restartable cursor (4.2): \<open>tdp_iter_start\<close> puts it on the
  root's entry for the first frame, \<open>tdp_iter_next\<close> is the pre-order step (descend
  into the child table of a present non-leaf entry unless at the minimum level, else
  step to the next sibling, else ascend and step), and a cursor that has yielded
  restarts from the root at its \<open>next_last_level_gfn\<close>. The index of a frame in a
  table of level \<open>l\<close> is the \<open>l\<close>-th digit of the frame number in base \<open>N\<close>.
\<close>

definition PT64_ROOT_MAX_LEVEL :: nat where "PT64_ROOT_MAX_LEVEL = 5"

definition SPTE_INDEX :: "env \<Rightarrow> gfn_t \<Rightarrow> nat \<Rightarrow> nat" where
  "SPTE_INDEX E g l = (unat g div SPTE_ENT_PER_PAGE E ^ (l - 1)) mod SPTE_ENT_PER_PAGE E"

definition gfn_round_for_level :: "env \<Rightarrow> gfn_t \<Rightarrow> nat \<Rightarrow> gfn_t" where
  "gfn_round_for_level E g l = g AND - KVM_PAGES_PER_HPAGE E l"

definition tdp_iter_refresh_sptep :: "env \<Rightarrow> kvm \<Rightarrow> tdp_iter \<Rightarrow> tdp_iter" where
  "tdp_iter_refresh_sptep E k iter =
     (let p = (pt_path iter (iter_level iter - 1), SPTE_INDEX E (iter_gfn iter) (iter_level iter))
      in iter\<lparr>iter_sptep := p, iter_old_spte := kvm_tdp_mmu_read_spte k p\<rparr>)"

definition tdp_iter_restart :: "env \<Rightarrow> kvm \<Rightarrow> tdp_iter \<Rightarrow> tdp_iter" where
  "tdp_iter_restart E k iter =
     (let i1 = iter\<lparr>yielded := False, yielded_gfn := next_last_level_gfn iter,
                     iter_level := root_level iter\<rparr>;
          i2 = i1\<lparr>iter_gfn := gfn_round_for_level E (next_last_level_gfn i1) (iter_level i1)\<rparr>
      in (tdp_iter_refresh_sptep E k i2)\<lparr>valid := True\<rparr>)"

definition tdp_iter_start :: "env \<Rightarrow> kvm \<Rightarrow> spt_t \<Rightarrow> nat \<Rightarrow> gfn_t \<Rightarrow> tdp_iter" where
  "tdp_iter_start E k root minl next_gfn =
     (let blank = \<lparr>next_last_level_gfn = 0, yielded_gfn = 0, pt_path = (\<lambda>l. 0),
                    iter_sptep = (0, 0), iter_gfn = 0, root_level = 0, min_level = 0,
                    iter_level = 0, iter_as_id = 0, iter_old_spte = 0, valid = False,
                    yielded = False\<rparr>;
          rl = role_level (role (sp_of k root))
      in if rl < 1 \<or> rl > PT64_ROOT_MAX_LEVEL then blank
         else tdp_iter_restart E k
                (blank\<lparr>next_last_level_gfn := next_gfn, root_level := rl, min_level := minl,
                        pt_path := (\<lambda>l. 0)(rl - 1 := spt (sp_of k root)),
                        iter_as_id := kvm_mmu_page_as_id (sp_of k root)\<rparr>))"

definition tdp_iter_step_down :: "env \<Rightarrow> kvm \<Rightarrow> tdp_iter \<Rightarrow> spt_t \<Rightarrow> tdp_iter" where
  "tdp_iter_step_down E k iter child_pt =
     (let i1 = iter\<lparr>iter_level := iter_level iter - 1\<rparr>;
          i2 = i1\<lparr>pt_path := (pt_path i1)(iter_level i1 - 1 := child_pt)\<rparr>;
          i3 = i2\<lparr>iter_gfn := gfn_round_for_level E (next_last_level_gfn i2) (iter_level i2)\<rparr>
      in tdp_iter_refresh_sptep E k i3)"

definition try_step_down :: "env \<Rightarrow> kvm \<Rightarrow> tdp_iter \<Rightarrow> tdp_iter \<times> bool" where
  "try_step_down E k iter =
     (if iter_level iter = min_level iter then (iter, False)
      else
        let i1 = iter\<lparr>iter_old_spte := kvm_tdp_mmu_read_spte k (iter_sptep iter)\<rparr>
        in case spte_to_child_pt E (iter_old_spte i1) (iter_level i1) of
             None \<Rightarrow> (i1, False)
           | Some child_pt \<Rightarrow> (tdp_iter_step_down E k i1 child_pt, True))"

definition tdp_iter_step_side :: "env \<Rightarrow> kvm \<Rightarrow> tdp_iter \<Rightarrow> tdp_iter" where
  "tdp_iter_step_side E k iter =
     (let i1 = iter\<lparr>iter_gfn := iter_gfn iter + KVM_PAGES_PER_HPAGE E (iter_level iter)\<rparr>;
          i2 = i1\<lparr>next_last_level_gfn := iter_gfn i1\<rparr>;
          i3 = i2\<lparr>iter_sptep := (fst (iter_sptep i2), snd (iter_sptep i2) + 1)\<rparr>
      in i3\<lparr>iter_old_spte := kvm_tdp_mmu_read_spte k (iter_sptep i3)\<rparr>)"

definition try_step_side :: "env \<Rightarrow> kvm \<Rightarrow> tdp_iter \<Rightarrow> tdp_iter \<times> bool" where
  "try_step_side E k iter =
     (if SPTE_INDEX E (iter_gfn iter) (iter_level iter) = SPTE_ENT_PER_PAGE E - 1
      then (iter, False)
      else (tdp_iter_step_side E k iter, True))"

definition try_step_up :: "env \<Rightarrow> kvm \<Rightarrow> tdp_iter \<Rightarrow> tdp_iter \<times> bool" where
  "try_step_up E k iter =
     (if iter_level iter \<ge> root_level iter then (iter, False)
      else
        let i1 = iter\<lparr>iter_level := iter_level iter + 1\<rparr>;
            i2 = i1\<lparr>iter_gfn := gfn_round_for_level E (iter_gfn i1) (iter_level i1)\<rparr>
        in (tdp_iter_refresh_sptep E k i2, True))"

text \<open>The \<^verbatim>\<open>do { .. } while (try_step_up(iter))\<close> of \<open>tdp_iter_next\<close>.\<close>

function tdp_iter_next_up :: "env \<Rightarrow> kvm \<Rightarrow> tdp_iter \<Rightarrow> tdp_iter" where
  "tdp_iter_next_up E k iter =
     (case try_step_side E k iter of
        (i1, True) \<Rightarrow> i1
      | (i1, False) \<Rightarrow>
          (if iter_level i1 \<ge> root_level i1 then i1\<lparr>valid := False\<rparr>
           else tdp_iter_next_up E k (fst (try_step_up E k i1))))"
  by pat_completeness auto
termination
  by (relation "measure (\<lambda>(E, k, iter). root_level iter - iter_level iter)")
     (auto simp: try_step_side_def try_step_up_def tdp_iter_refresh_sptep_def Let_def
           split: if_splits)

definition tdp_iter_next :: "env \<Rightarrow> kvm \<Rightarrow> tdp_iter \<Rightarrow> tdp_iter" where
  "tdp_iter_next E k iter =
     (if yielded iter then tdp_iter_restart E k iter
      else case try_step_down E k iter of
             (i1, True) \<Rightarrow> i1
           | (i1, False) \<Rightarrow> tdp_iter_next_up E k i1)"

definition tdp_iter_child_role :: "kvm \<Rightarrow> tdp_iter \<Rightarrow> kvm_mmu_page_role" where
  "tdp_iter_child_role k iter =
     (let child_role = role (sptep_to_sp k (iter_sptep iter))
      in child_role\<lparr>role_level := role_level child_role - 1\<rparr>)"

text \<open>
  \<^verbatim>\<open>for_each_tdp_pte_min_level(iter, root, min_level, start, end)\<close> around a loop body:
  \<^verbatim>\<open>for (tdp_iter_start(..); iter.valid && iter.gfn < end; tdp_iter_next(&iter))\<close>.
  The body works on the loop's local variables \<open>acc\<close>, the guest state and the
  cursor, and says how the iteration ends: \<open>Continue\<close> (the end of the body or
  \<^verbatim>\<open>continue\<close>), \<open>Retry\<close> (\<^verbatim>\<open>goto retry\<close>: the body again on the same entry) or
  \<open>Break\<close> (\<^verbatim>\<open>break\<close>, or a \<^verbatim>\<open>goto\<close> out of the loop that the locals record). Each
  iteration takes one unit of fuel.
\<close>

datatype ctl = Continue | Retry | Break

primrec tdp_pte_loop ::
  "env \<Rightarrow> gfn_t \<Rightarrow> ('a \<Rightarrow> kvm \<Rightarrow> tdp_iter \<Rightarrow> error + (ctl \<times> 'a \<times> kvm \<times> tdp_iter)) \<Rightarrow>
   nat \<Rightarrow> 'a \<Rightarrow> kvm \<Rightarrow> tdp_iter \<Rightarrow> error + ('a \<times> kvm \<times> tdp_iter)" where
  "tdp_pte_loop E end_gfn body 0 = (\<lambda>acc k iter. Inl OUT_OF_FUEL)"
| "tdp_pte_loop E end_gfn body (Suc n) = (\<lambda>acc k iter.
     if valid iter \<and> iter_gfn iter < end_gfn then
       (case body acc k iter of
          Inl e \<Rightarrow> Inl e
        | Inr (Continue, acc1, k1, iter1) \<Rightarrow>
            tdp_pte_loop E end_gfn body n acc1 k1 (tdp_iter_next E k1 iter1)
        | Inr (Retry, acc1, k1, iter1) \<Rightarrow> tdp_pte_loop E end_gfn body n acc1 k1 iter1
        | Inr (Break, acc1, k1, iter1) \<Rightarrow> Inr (acc1, k1, iter1))
     else Inr (acc, k, iter))"

definition for_each_tdp_pte_min_level ::
  "env \<Rightarrow> nat \<Rightarrow> ('a \<Rightarrow> kvm \<Rightarrow> tdp_iter \<Rightarrow> error + (ctl \<times> 'a \<times> kvm \<times> tdp_iter)) \<Rightarrow>
   'a \<Rightarrow> kvm \<Rightarrow> spt_t \<Rightarrow> nat \<Rightarrow> gfn_t \<Rightarrow> gfn_t \<Rightarrow> error + ('a \<times> kvm \<times> tdp_iter)" where
  "for_each_tdp_pte_min_level E fuel body acc k root minl start end_gfn =
     tdp_pte_loop E end_gfn body fuel acc k (tdp_iter_start E k root minl start)"

section \<open>Mutation core: setting an entry\<close>

definition get_private_spt :: "env \<Rightarrow> kvm \<Rightarrow> gfn_t \<Rightarrow> u64 \<Rightarrow> nat \<Rightarrow> u64 option" where
  "get_private_spt E k g new_spte l =
     (if is_shadow_present_pte E new_spte \<and> \<not> is_last_spte E new_spte l
      then kvm_mmu_private_spt (sp_of k (push_bit (PAGE_SHIFT E) (spte_to_pfn E new_spte)))
      else None)"

definition private_spte_change_flags ::
  "env \<Rightarrow> kvm \<Rightarrow> gfn_t \<Rightarrow> u64 \<Rightarrow> u64 \<Rightarrow> nat \<Rightarrow> kvm \<times> int" where
  "private_spte_change_flags E k g old_spte new_spte l =
     (let was_writable = is_writable_pte E old_spte;
          is_writable = is_writable_pte E new_spte
      in if was_writable \<and> \<not> is_writable
         then (fst (static_call E (Write_block_private_pages [g])
                      (KVM_BUG_ON (l \<noteq> PG_LEVEL_4K) k)), 0)
         else (k, 0))"

definition raw_set_private_spte_present ::
  "env \<Rightarrow> kvm \<Rightarrow> tdp_ptep_t \<Rightarrow> gfn_t \<Rightarrow> u64 \<Rightarrow> u64 \<Rightarrow> nat \<Rightarrow> kvm \<times> int" where
  "raw_set_private_spte_present E k sptep g old_spte new_spte l =
     (let was_private_zapped = is_private_zapped_spte E old_spte;
          is_private_zapped = is_private_zapped_spte E new_spte;
          was_last = is_last_spte E old_spte l;
          is_last = is_last_spte E new_spte l;
          was_present = is_shadow_present_pte E old_spte;
          is_present = is_shadow_present_pte E new_spte;
          was_leaf = (was_present \<and> is_last_spte E old_spte l);
          is_leaf = (is_present \<and> is_last_spte E new_spte l);
          old_pfn = spte_to_pfn E old_spte;
          new_pfn = spte_to_pfn E new_spte
      in if was_private_zapped then
           (let k1 = KVM_BUG_ON (\<not> is_last_spte E old_spte l) k;
                k2 = KVM_BUG_ON (\<not> is_present) k1;
                k3 = KVM_BUG_ON is_private_zapped k2;
                k4 = KVM_BUG_ON was_present k3;
                k5 = KVM_BUG_ON (\<not> was_private_zapped) k4
            in if old_pfn = new_pfn then static_call E (Unzap_private_spte g l) k5
               else (k5, 0))
         else if l > PG_LEVEL_4K \<and> was_leaf \<and> \<not> is_leaf then
           (let private_spt = get_private_spt E k g new_spte l;
                k1 = KVM_BUG_ON (private_spt = None) k
            in case static_call E (Zap_private_spte g l) k1 of
                 (k2, ret) \<Rightarrow>
                   let k3 = kvm_flush_remote_tlbs k2 in
                   if ret = 0 then static_call E (Split_private_spt g l private_spt) k3
                   else (k3, ret))
         else if is_leaf then
           (if was_present then private_spte_change_flags E k g old_spte new_spte l
            else static_call E (Set_private_spte g l new_pfn) k)
         else
           (let private_spt = get_private_spt E k g new_spte l;
                k1 = KVM_BUG_ON (private_spt = None) k
            in static_call E (Link_private_spt g l private_spt) k1))"

text \<open>
  \<^verbatim>\<open>set_private_spte_present\<close> takes \<^verbatim>\<open>old_spte\<close> by value: what
  \<^verbatim>\<open>try_cmpxchg64\<close> stores in it on failure is lost when the function returns.
\<close>

definition set_private_spte_present ::
  "env \<Rightarrow> kvm \<Rightarrow> tdp_ptep_t \<Rightarrow> gfn_t \<Rightarrow> u64 \<Rightarrow> u64 \<Rightarrow> nat \<Rightarrow> kvm \<times> int" where
  "set_private_spte_present E k sptep g old_spte new_spte l =
     (case try_cmpxchg64 k sptep old_spte (REMOVED_SPTE E) of
        (k1, old_spte1, ok) \<Rightarrow>
          if \<not> ok then (k1, - EBUSY)
          else
            (case raw_set_private_spte_present E k1 sptep g old_spte1 new_spte l of
               (k2, ret) \<Rightarrow>
                 if ret \<noteq> 0 then (raw_kvm_tdp_mmu_write_spte sptep old_spte1 k2, ret)
                 else (raw_kvm_tdp_mmu_write_spte sptep new_spte k2, ret)))"

text \<open>
  \<^verbatim>\<open>tdp_mmu_set_spte_atomic\<close>: the new state, the cursor (its \<^verbatim>\<open>old_spte\<close> is written
  through \<^verbatim>\<open>&iter->old_spte\<close>) and the status. The first \<open>case\<close> is the
  \<^verbatim>\<open>if\<close>/\<^verbatim>\<open>else\<close> that exchanges the entry: \<open>Inl\<close> is an early \<^verbatim>\<open>return\<close>,
  \<open>Inr\<close> goes on to \<^verbatim>\<open>handle_changed_spte\<close> with the flag \<^verbatim>\<open>freezed\<close>.
\<close>

definition tdp_mmu_set_spte_atomic ::
  "env \<Rightarrow> nat \<Rightarrow> kvm \<Rightarrow> tdp_iter \<Rightarrow> u64 \<Rightarrow> error + (kvm \<times> tdp_iter \<times> int)" where
  "tdp_mmu_set_spte_atomic E fuel k iter new_spte =
     (let sptep = iter_sptep iter;
          k0 = KVM_BUG_ON (yielded iter) k
      in case
           (if is_private_sptep k0 (iter_sptep iter) \<and> \<not> is_removed_spte E new_spte then
              (if is_shadow_present_pte E new_spte then
                 (case set_private_spte_present E k0 (iter_sptep iter) (iter_gfn iter)
                         (iter_old_spte iter) new_spte (iter_level iter) of
                    (k1, ret) \<Rightarrow>
                      if ret \<noteq> 0 then Inl (k1, iter, ret) else Inr (k1, iter, False))
               else
                 (case try_cmpxchg64 k0 sptep (iter_old_spte iter) (REMOVED_SPTE E) of
                    (k1, old1, ok) \<Rightarrow>
                      if \<not> ok then Inl (k1, iter\<lparr>iter_old_spte := old1\<rparr>, - EBUSY)
                      else Inr (k1, iter\<lparr>iter_old_spte := old1\<rparr>, True)))
            else
              (case try_cmpxchg64 k0 sptep (iter_old_spte iter) new_spte of
                 (k1, old1, ok) \<Rightarrow>
                   if \<not> ok then Inl (k1, iter\<lparr>iter_old_spte := old1\<rparr>, - EBUSY)
                   else Inr (k1, iter\<lparr>iter_old_spte := old1\<rparr>, False))) of
           Inl early \<Rightarrow> Inr early
         | Inr (k1, iter1, freezed) \<Rightarrow>
             (case handle_changed_spte E fuel k1 (iter_as_id iter1) (iter_gfn iter1)
                     (iter_old_spte iter1) new_spte (role (sptep_to_sp k1 sptep)) True of
                Inl e \<Rightarrow> Inl e
              | Inr k2 \<Rightarrow>
                  Inr (if freezed then raw_kvm_tdp_mmu_write_spte sptep new_spte k2 else k2,
                       iter1, 0)))"

definition raw_private_zapped_spte :: "env \<Rightarrow> u64 \<Rightarrow> u64" where
  "raw_private_zapped_spte E old_spte =
     SHADOW_NONPRESENT_VALUE E OR SPTE_PRIVATE_ZAPPED E
       OR push_bit (PAGE_SHIFT E) (spte_to_pfn E old_spte)
       OR (if is_large_pte E old_spte then PT_PAGE_SIZE_MASK E else 0)"

definition private_zapped_spte :: "env \<Rightarrow> kvm \<Rightarrow> tdp_iter \<Rightarrow> u64" where
  "private_zapped_spte E k iter =
     (if kvm_gfn_shared_mask k = 0 then SHADOW_NONPRESENT_VALUE E
      else if \<not> is_private_sptep k (iter_sptep iter) then SHADOW_NONPRESENT_VALUE E
      else raw_private_zapped_spte E (iter_old_spte iter))"

definition tdp_mmu_zap_spte_atomic ::
  "env \<Rightarrow> nat \<Rightarrow> kvm \<Rightarrow> tdp_iter \<Rightarrow> error + (kvm \<times> tdp_iter \<times> int)" where
  "tdp_mmu_zap_spte_atomic E fuel k iter =
     (case tdp_mmu_set_spte_atomic E fuel k iter (REMOVED_SPTE E) of
        Inl e \<Rightarrow> Inl e
      | Inr (k1, iter1, ret) \<Rightarrow>
          if ret \<noteq> 0 then Inr (k1, iter1, ret)
          else
            let k2 = kvm_flush_remote_tlbs_gfn (iter_gfn iter1) (iter_level iter1) k1
            in Inr (raw_kvm_tdp_mmu_write_spte (iter_sptep iter1)
                      (private_zapped_spte E k2 iter1) k2, iter1, 0))"

text \<open>\<^verbatim>\<open>tdp_mmu_set_spte\<close>: the new state and the old value of the entry.\<close>

definition tdp_mmu_set_spte ::
  "env \<Rightarrow> nat \<Rightarrow> kvm \<Rightarrow> nat \<Rightarrow> tdp_ptep_t \<Rightarrow> u64 \<Rightarrow> u64 \<Rightarrow> gfn_t \<Rightarrow> nat \<Rightarrow> error + (kvm \<times> u64)" where
  "tdp_mmu_set_spte E fuel k asid sptep old_spte new_spte g l =
     (let k0 = KVM_BUG_ON (is_private_sptep k sptep \<noteq> kvm_is_private_gpa E k (gfn_to_gpa E g)) k
      in case kvm_tdp_mmu_write_spte E k0 sptep old_spte new_spte l of
           (k1, old_spte1) \<Rightarrow>
             let k2 = (if is_private_sptep k1 sptep \<and> \<not> is_removed_spte E new_spte
                          \<and> is_shadow_present_pte E new_spte
                       then (case raw_set_private_spte_present E k1 sptep g old_spte1
                                    new_spte l of
                               (k1a, ret) \<Rightarrow> KVM_BUG_ON (ret \<noteq> 0) k1a)
                       else k1);
                 r = (role (sptep_to_sp k2 sptep))\<lparr>role_level := l\<rparr>
             in case handle_changed_spte E fuel k2 asid g old_spte1 new_spte r False of
                  Inl e \<Rightarrow> Inl e
                | Inr k3 \<Rightarrow> Inr (k3, old_spte1))"

definition tdp_mmu_iter_set_spte ::
  "env \<Rightarrow> nat \<Rightarrow> kvm \<Rightarrow> tdp_iter \<Rightarrow> u64 \<Rightarrow> error + (kvm \<times> tdp_iter)" where
  "tdp_mmu_iter_set_spte E fuel k iter new_spte =
     (case tdp_mmu_set_spte E fuel k (iter_as_id iter) (iter_sptep iter) (iter_old_spte iter)
             new_spte (iter_gfn iter) (iter_level iter) of
        Inl e \<Rightarrow> Inl e
      | Inr (k1, old1) \<Rightarrow> Inr (k1, iter\<lparr>iter_old_spte := old1\<rparr>))"

section \<open>Mutation core: link, split and merge\<close>

definition tdp_mmu_link_sp ::
  "env \<Rightarrow> nat \<Rightarrow> kvm \<Rightarrow> tdp_iter \<Rightarrow> spt_t \<Rightarrow> bool \<Rightarrow> error + (kvm \<times> tdp_iter \<times> int)" where
  "tdp_mmu_link_sp E fuel k iter sp shared =
     (let spte = make_nonleaf_spte E (spt (sp_of k sp)) in
      if shared then
        (case tdp_mmu_set_spte_atomic E fuel k iter spte of
           Inl e \<Rightarrow> Inl e
         | Inr (k1, iter1, ret) \<Rightarrow>
             if ret \<noteq> 0 then Inr (k1, iter1, ret)
             else Inr (tdp_account_mmu_page k1 sp, iter1, 0))
      else
        (case tdp_mmu_iter_set_spte E fuel k iter spte of
           Inl e \<Rightarrow> Inl e
         | Inr (k1, iter1) \<Rightarrow> Inr (tdp_account_mmu_page k1 sp, iter1, 0)))"

text \<open>
  The first loop of \<^verbatim>\<open>tdp_mmu_split_huge_page\<close>:
  \<^verbatim>\<open>sp->spt[i] = make_huge_page_split_spte(kvm, huge_spte, sp->role, i)\<close>, at index \<open>i\<close>
  with \<open>n\<close> entries to go.
\<close>

primrec split_huge_page_fill :: "env \<Rightarrow> spt_t \<Rightarrow> u64 \<Rightarrow> nat \<Rightarrow> nat \<Rightarrow> kvm \<Rightarrow> kvm" where
  "split_huge_page_fill E sp huge_spte i 0 = (\<lambda>k. k)"
| "split_huge_page_fill E sp huge_spte i (Suc n) = (\<lambda>k.
     split_huge_page_fill E sp huge_spte (i + 1) n
       (raw_kvm_tdp_mmu_write_spte (spt (sp_of k sp), i)
          (make_huge_page_split_spte E huge_spte (role (sp_of k sp)) i) k))"

definition tdp_mmu_split_huge_page ::
  "env \<Rightarrow> nat \<Rightarrow> kvm \<Rightarrow> tdp_iter \<Rightarrow> spt_t \<Rightarrow> bool \<Rightarrow> error + (kvm \<times> tdp_iter \<times> int)" where
  "tdp_mmu_split_huge_page E fuel k iter sp shared =
     (let huge_spte = iter_old_spte iter;
          l = iter_level iter;
          k1 = split_huge_page_fill E sp huge_spte 0 (SPTE_ENT_PER_PAGE E) k
      in case tdp_mmu_link_sp E fuel k1 iter sp shared of
           Inl e \<Rightarrow> Inl e
         | Inr (k2, iter1, ret) \<Rightarrow>
             if ret \<noteq> 0 then Inr (k2, iter1, ret)
             else Inr (kvm_update_page_stats (l - 1) (int (SPTE_ENT_PER_PAGE E)) k2, iter1, ret))"

definition tdp_mmu_iter_step_side :: "env \<Rightarrow> kvm \<Rightarrow> nat \<Rightarrow> tdp_iter \<Rightarrow> nat \<times> tdp_iter" where
  "tdp_mmu_iter_step_side E k i iter =
     (if i + 1 < SPTE_ENT_PER_PAGE E then (i + 1, tdp_iter_step_side E k iter)
      else (i + 1, iter))"

definition KVM_HPAGE_GFN_MASK :: "env \<Rightarrow> nat \<Rightarrow> u64" where
  "KVM_HPAGE_GFN_MASK E l = NOT (KVM_PAGES_PER_HPAGE E l - 1)"

text \<open>
  The loop of \<^verbatim>\<open>tdp_mmu_merge_private_spt\<close> over the child entries, at index \<open>i\<close> with
  \<open>n\<close> entries to go: the state, the child cursor, \<^verbatim>\<open>ret\<close>, and whether the loop
  was left by \<^verbatim>\<open>goto out\<close>.
\<close>

primrec merge_private_spt_loop ::
  "env \<Rightarrow> nat \<Rightarrow> kvm_page_fault \<Rightarrow> u64 \<Rightarrow> u64 \<Rightarrow> spt_t \<Rightarrow> nat \<Rightarrow> nat \<Rightarrow>
   kvm \<Rightarrow> tdp_iter \<Rightarrow> int \<Rightarrow> error + (kvm \<times> tdp_iter \<times> int \<times> bool)" where
  "merge_private_spt_loop E fuel fault old_spte new_spte child_sp i 0 =
     (\<lambda>k child_iter ret. Inr (k, child_iter, ret, False))"
| "merge_private_spt_loop E fuel fault old_spte new_spte child_sp i (Suc n) =
     (\<lambda>k child_iter ret.
        if is_shadow_present_pte E (iter_old_spte child_iter) then
          (let ret1 =
                 (if spte_to_pfn E (iter_old_spte child_iter) \<noteq> spte_to_pfn E new_spte + of_nat i
                  then (if ret = 0 then - EAGAIN else ret)
                  else if iter_gfn child_iter = fault_gfn fault
                  then (if ret = 0 then - EAGAIN else ret)
                  else ret)
           in case tdp_mmu_iter_step_side E k i child_iter of
                (i1, child_iter1) \<Rightarrow>
                  merge_private_spt_loop E fuel fault old_spte new_spte child_sp i1 n
                    k child_iter1 ret1)
        else
          (let child_spte = make_huge_page_split_spte E new_spte (role (sp_of k child_sp)) i
           in case tdp_mmu_set_spte_atomic E fuel k child_iter child_spte of
                Inl e \<Rightarrow> Inl e
              | Inr (k1, child_iter1, tmp) \<Rightarrow>
                  if tmp = - EBUSY \<or> tmp = - EAGAIN then
                    (case tdp_mmu_iter_step_side E k1 i child_iter1 of
                       (i1, child_iter2) \<Rightarrow>
                         merge_private_spt_loop E fuel fault old_spte new_spte child_sp i1 n
                           k1 child_iter2 (if ret = 0 then tmp else ret))
                  else if tmp \<noteq> 0 then Inr (k1, child_iter1, tmp, True)
                  else
                    (case tdp_mmu_iter_step_side E k1 i child_iter1 of
                       (i1, child_iter2) \<Rightarrow>
                         merge_private_spt_loop E fuel fault old_spte new_spte child_sp i1 n
                           k1 child_iter2 ret)))"

text \<open>The label \<^verbatim>\<open>out:\<close> of \<^verbatim>\<open>tdp_mmu_merge_private_spt\<close>.\<close>

definition merge_private_spt_out ::
  "kvm \<Rightarrow> tdp_iter \<Rightarrow> tdp_ptep_t \<Rightarrow> u64 \<Rightarrow> int \<Rightarrow> kvm \<times> tdp_iter \<times> int" where
  "merge_private_spt_out k iter sptep old_spte ret =
     (raw_kvm_tdp_mmu_write_spte sptep old_spte k, iter\<lparr>iter_old_spte := old_spte\<rparr>, ret)"

definition tdp_mmu_merge_private_spt ::
  "env \<Rightarrow> nat \<Rightarrow> kvm \<Rightarrow> kvm_page_fault \<Rightarrow> tdp_iter \<Rightarrow> u64 \<Rightarrow> error + (kvm \<times> tdp_iter \<times> int)" where
  "tdp_mmu_merge_private_spt E fuel k fault iter new_spte =
     (let sptep = iter_sptep iter;
          old_spte = iter_old_spte iter;
          l = iter_level iter;
          g = iter_gfn iter
      in case try_cmpxchg64 k sptep (iter_old_spte iter) (REMOVED_SPTE E) of
           (k1, old1, ok) \<Rightarrow>
             let iter1 = iter\<lparr>iter_old_spte := old1\<rparr> in
             if \<not> ok then Inr (k1, iter1, - EBUSY)
             else
               (case spte_to_child_pt E (iter_old_spte iter1) (iter_level iter1) of
                  None \<Rightarrow> Inl NULL_DEREF
                | Some child_pt \<Rightarrow>
                    let child_sp = child_pt;
                        child_iter0 = iter1\<lparr>next_last_level_gfn :=
                                        next_last_level_gfn iter1 AND - KVM_PAGES_PER_HPAGE E l\<rparr>;
                        child_iter = tdp_iter_step_down E k1 child_iter0 child_pt
                    in case merge_private_spt_loop E fuel fault old_spte new_spte child_sp 0
                              (SPTE_ENT_PER_PAGE E) k1 child_iter 0 of
                         Inl e \<Rightarrow> Inl e
                       | Inr (k2, child_iter1, ret, went_out) \<Rightarrow>
                           if went_out \<or> ret \<noteq> 0
                           then Inr (merge_private_spt_out k2 iter1 sptep old_spte ret)
                           else
                             (case static_call E (Zap_private_spte g l) k2 of
                                (k3, ret1) \<Rightarrow>
                                  if ret1 \<noteq> 0
                                  then Inr (merge_private_spt_out k3 iter1 sptep old_spte ret1)
                                  else
                                    let k4 = kvm_flush_remote_tlbs_range
                                               (g AND KVM_HPAGE_GFN_MASK E l)
                                               (KVM_PAGES_PER_HPAGE E l) k3
                                    in case static_call E
                                              (Merge_private_spt g l
                                                 (kvm_mmu_private_spt (sp_of k4 child_sp))) k4 of
                                         (k5, ret2) \<Rightarrow>
                                           if ret2 \<noteq> 0 then
                                             (case static_call E (Unzap_private_spte g l) k5 of
                                                (k6, ret3) \<Rightarrow>
                                                  Inr (merge_private_spt_out k6 iter1 sptep
                                                         (if ret3 \<noteq> 0
                                                          then raw_private_zapped_spte E old_spte
                                                          else old_spte) ret2))
                                           else
                                             let iter2 = iter1\<lparr>iter_old_spte := new_spte\<rparr>;
                                                 k6 = raw_kvm_tdp_mmu_write_spte sptep new_spte k5;
                                                 k7 = tdp_unaccount_mmu_page k6 child_sp;
                                                 k8 = tdp_mmu_free_sp child_sp k7
                                             in Inr (k8, iter2, - EAGAIN))))"

section \<open>Range operations\<close>

text \<open>
  Modelled from the spec: \<^verbatim>\<open>kvm_gfn_to_private\<close>, \<^verbatim>\<open>kvm_gfn_to_shared\<close> and
  \<^verbatim>\<open>kvm_gfn_for_root\<close> are not among the sources. A frame number is made private by
  clearing the guest's shared mask and shared by setting it; for a root, the frame
  number carries the shared mask exactly when the root is not private.
\<close>

definition kvm_gfn_to_private :: "kvm \<Rightarrow> gfn_t \<Rightarrow> gfn_t" where
  "kvm_gfn_to_private k g = g AND NOT (kvm_gfn_shared_mask k)"

definition kvm_gfn_to_shared :: "kvm \<Rightarrow> gfn_t \<Rightarrow> gfn_t" where
  "kvm_gfn_to_shared k g = g OR kvm_gfn_shared_mask k"

definition kvm_gfn_for_root :: "kvm \<Rightarrow> spt_t \<Rightarrow> gfn_t \<Rightarrow> gfn_t" where
  "kvm_gfn_for_root k root g =
     (if is_private_sp (sp_of k root) then kvm_gfn_to_private k g
      else kvm_gfn_to_private k g OR kvm_gfn_shared_mask k)"

definition tdp_mmu_max_gfn_exclusive :: "env \<Rightarrow> gfn_t" where
  "tdp_mmu_max_gfn_exclusive E = kvm_mmu_max_gfn E + 1"

text \<open>
  \<^verbatim>\<open>__tdp_mmu_alloc_sp_for_split\<close>: the outcome of the next allocation comes from the
  parameters; the page of entries is zeroed (\<^verbatim>\<open>__GFP_ZERO\<close>). The header is returned
  as a value: it is found from its page only after \<^verbatim>\<open>tdp_mmu_init_sp\<close>.
\<close>

definition raw_tdp_mmu_alloc_sp_for_split ::
  "env \<Rightarrow> kvm \<Rightarrow> bool \<Rightarrow> kvm_mmu_page_role \<Rightarrow> bool \<Rightarrow> kvm \<times> kvm_mmu_page option" where
  "raw_tdp_mmu_alloc_sp_for_split E k nowait r can_yield =
     (let n = split_allocs k;
          k1 = k\<lparr>split_allocs := n + 1\<rparr>
      in if \<not> kmem_cache_alloc E n nowait then (k1, None)
         else
           let page = get_free_page E n nowait;
               priv = (if kvm_mmu_page_role_is_private r
                       then kvm_alloc_private_spt_for_split E n nowait can_yield else None);
               page1 = (if kvm_mmu_page_role_is_private r \<and> priv = None then None else page)
           in case page1 of
                None \<Rightarrow> (k1, None)
              | Some pg \<Rightarrow>
                  (k1\<lparr>spte_mem := (spte_mem k1)(pg := (\<lambda>i. 0))\<rparr>,
                   Some \<lparr>role = r, sp_gfn = 0, spt = pg, ptep = None, private_spt = priv,
                         nx_huge_page_disallowed = False, tdp_mmu_page = False,
                         tdp_mmu_root_count = 0\<rparr>))"

definition tdp_mmu_alloc_sp_for_split ::
  "env \<Rightarrow> kvm \<Rightarrow> tdp_iter \<Rightarrow> bool \<Rightarrow> bool \<Rightarrow> kvm \<times> tdp_iter \<times> kvm_mmu_page option" where
  "tdp_mmu_alloc_sp_for_split E k iter shared can_yield =
     (let r = tdp_iter_child_role k iter;
          k0 = KVM_BUG_ON (kvm_mmu_page_role_is_private r \<noteq> is_private_sptep k (iter_sptep iter)) k
      in case raw_tdp_mmu_alloc_sp_for_split E k0 True r can_yield of
           (k1, sp) \<Rightarrow>
             if sp \<noteq> None \<or> \<not> can_yield then (k1, iter, sp)
             else
               let k2 = k1\<lparr>yields := yields k1 @ [shared]\<rparr>;
                   iter1 = iter\<lparr>yielded := True\<rparr>
               in case raw_tdp_mmu_alloc_sp_for_split E k2 False r can_yield of
                    (k3, sp1) \<Rightarrow> (k3, iter1, sp1))"

text \<open>
  The body of the loop of \<^verbatim>\<open>tdp_mmu_zap_leafs\<close>. The locals are \<^verbatim>\<open>flush\<close> and
  \<^verbatim>\<open>split_sp\<close>. \<open>zap_leafs_split\<close> is the block that splits a private huge page
  which is mixed or not covered by the range.
\<close>

definition zap_leafs_split ::
  "env \<Rightarrow> nat \<Rightarrow> bool \<Rightarrow> bool \<times> kvm_mmu_page option \<Rightarrow> kvm \<Rightarrow> tdp_iter \<Rightarrow>
   error + (ctl \<times> (bool \<times> kvm_mmu_page option) \<times> kvm \<times> tdp_iter)" where
  "zap_leafs_split E fuel can_yield acc k iter =
     (case acc of (flush, split_sp) \<Rightarrow>
        (case (case split_sp of
                 Some sp0 \<Rightarrow>
                   Inr (flush, None, k, iter, Some (sp0\<lparr>role := tdp_iter_child_role k iter\<rparr>))
               | None \<Rightarrow>
                   let k1 = (if flush \<and> can_yield then kvm_flush_remote_tlbs k else k);
                       flush1 = (if flush \<and> can_yield then False else flush)
                   in case tdp_mmu_alloc_sp_for_split E k1 iter False can_yield of
                        (k2, iter1, sp1) \<Rightarrow>
                          if yielded iter1 then Inl (Continue, (flush1, sp1), k2, iter1)
                          else Inr (flush1, None, k2, iter1, sp1)) of
           Inl continue \<Rightarrow> Inr continue
         | Inr (flush1, split_sp1, k2, iter1, sp) \<Rightarrow>
             (case sp of
                None \<Rightarrow> Inl NULL_DEREF
              | Some sp_hdr \<Rightarrow>
                  let k3 = tdp_mmu_init_sp k2 sp_hdr (Some (iter_sptep iter1)) (iter_gfn iter1)
                  in case tdp_mmu_split_huge_page E fuel k3 iter1 (spt sp_hdr) False of
                       Inl e \<Rightarrow> Inl e
                     | Inr (k4, iter2, ret) \<Rightarrow>
                         if ret \<noteq> 0
                         then Inr (Continue, (False, split_sp1), kvm_flush_remote_tlbs k4,
                                   iter2\<lparr>yielded := True\<rparr>)
                         else Inr (Continue, (True, split_sp1), k4, iter2))))"

definition zap_leafs_body ::
  "env \<Rightarrow> nat \<Rightarrow> bool \<Rightarrow> gfn_t \<Rightarrow> gfn_t \<Rightarrow> bool \<Rightarrow> tdp_zap_private \<Rightarrow>
   bool \<times> kvm_mmu_page option \<Rightarrow> kvm \<Rightarrow> tdp_iter \<Rightarrow>
   error + (ctl \<times> (bool \<times> kvm_mmu_page option) \<times> kvm \<times> tdp_iter)" where
  "zap_leafs_body E fuel is_private start end_gfn can_yield zap_private acc k iter =
     (case acc of (flush, split_sp) \<Rightarrow>
        (case (if can_yield then tdp_mmu_iter_cond_resched E k iter flush False
               else (k, iter, False)) of
           (k1, iter1, has_yielded) \<Rightarrow>
             if has_yielded then Inr (Continue, (False, split_sp), k1, iter1)
             else if \<not> is_last_spte E (iter_old_spte iter1) (iter_level iter1)
             then Inr (Continue, (flush, split_sp), k1, iter1)
             else if \<not> is_shadow_present_pte E (iter_old_spte iter1) \<and>
                     \<not> is_private_zapped_spte E (iter_old_spte iter1)
             then Inr (Continue, (flush, split_sp), k1, iter1)
             else if is_private \<and> kvm_gfn_shared_mask k1 \<noteq> 0 \<and>
                     is_large_pte E (iter_old_spte iter1) \<and>
                     (let g = iter_gfn iter1 AND NOT (kvm_gfn_shared_mask k1);
                          m = KVM_PAGES_PER_HPAGE E (iter_level iter1) - 1
                      in kvm_hugepage_test_mixed E g (iter_level iter1) \<or>
                         (g AND m) < start \<or>
                         end_gfn < (g AND m) + KVM_PAGES_PER_HPAGE E (iter_level iter1))
             then zap_leafs_split E fuel can_yield (flush, split_sp) k1 iter1
             else if (zap_private = ZAP_PRIVATE_SKIP \<or> zap_private = ZAP_PRIVATE_BLOCK) \<and>
                     is_private_zapped_spte E (iter_old_spte iter1)
             then Inr (Continue, (flush, split_sp), k1, iter1)
             else
               let new_spte = (if zap_private = ZAP_PRIVATE_REMOVE
                               then SHADOW_NONPRESENT_VALUE E
                               else private_zapped_spte E k1 iter1)
               in case tdp_mmu_iter_set_spte E fuel k1 iter1 new_spte of
                    Inl e \<Rightarrow> Inl e
                  | Inr (k2, iter2) \<Rightarrow> Inr (Continue, (True, split_sp), k2, iter2)))"

definition tdp_mmu_zap_leafs ::
  "env \<Rightarrow> nat \<Rightarrow> kvm \<Rightarrow> spt_t \<Rightarrow> gfn_t \<Rightarrow> gfn_t \<Rightarrow> bool \<Rightarrow> bool \<Rightarrow> tdp_zap_private \<Rightarrow>
   error + (kvm \<times> bool)" where
  "tdp_mmu_zap_leafs E fuel k root start end_gfn can_yield flush zap_private =
     (let is_private = is_private_sp (sp_of k root);
          end1 = min end_gfn (tdp_mmu_max_gfn_exclusive E)
      in if zap_private = ZAP_PRIVATE_SKIP \<and> is_private then Inr (k, flush)
         else
           let start2 = kvm_gfn_for_root k root start;
               end2 = kvm_gfn_for_root k root end1
           in case for_each_tdp_pte_min_level E fuel
                     (zap_leafs_body E fuel is_private start2 end2 can_yield zap_private)
                     (flush, None) k root PG_LEVEL_4K start2 end2 of
                Inl e \<Rightarrow> Inl e
              | Inr ((flush1, split_sp), k1, iter1) \<Rightarrow>
                  (case split_sp of
                     None \<Rightarrow> Inr (k1, flush1)
                   | Some sp \<Rightarrow>
                       let k2 = (if flush1 then kvm_flush_remote_tlbs k1 else k1)
                       in Inr (tdp_mmu_free_sp (spt sp) k2, False)))"

text \<open>
  \<^verbatim>\<open>tdp_mmu_next_root\<close> and the loop \<^verbatim>\<open>for_each_tdp_mmu_root_yield_safe\<close> of
  \<^verbatim>\<open>kvm_tdp_mmu_zap_leafs\<close>. The roots after \<^verbatim>\<open>prev_root\<close>
  (\<^verbatim>\<open>list_next_or_null_rcu\<close>) are the tail of the list behind it.
\<close>

text \<open>The \<^verbatim>\<open>while (next_root)\<close> of \<^verbatim>\<open>tdp_mmu_next_root\<close>, over the rest of the list.\<close>

fun next_root_scan :: "kvm \<Rightarrow> bool \<Rightarrow> spt_t list \<Rightarrow> kvm \<times> spt_t option" where
  "next_root_scan k only_valid [] = (k, None)"
| "next_root_scan k only_valid (r # rs) =
     (if \<not> only_valid \<or> \<not> role_invalid (role (sp_of k r))
      then (case kvm_tdp_mmu_get_root k r of
              (k1, got) \<Rightarrow> if got then (k1, Some r) else next_root_scan k1 only_valid rs)
      else next_root_scan k only_valid rs)"

definition tdp_mmu_next_root ::
  "kvm \<Rightarrow> spt_t option \<Rightarrow> bool \<Rightarrow> bool \<Rightarrow> kvm \<times> spt_t option" where
  "tdp_mmu_next_root k prev_root shared only_valid =
     (let candidates =
            (case prev_root of
               None \<Rightarrow> tdp_mmu_roots k
             | Some prev \<Rightarrow> tl (dropWhile (\<lambda>x. x \<noteq> prev) (tdp_mmu_roots k)))
      in case next_root_scan k only_valid candidates of
           (k1, next_root) \<Rightarrow>
             (case prev_root of
                None \<Rightarrow> (k1, next_root)
              | Some prev \<Rightarrow> (kvm_tdp_mmu_put_root k1 prev shared, next_root)))"

primrec zap_leafs_roots ::
  "env \<Rightarrow> nat \<Rightarrow> nat \<Rightarrow> gfn_t \<Rightarrow> gfn_t \<Rightarrow> bool \<Rightarrow> tdp_zap_private \<Rightarrow>
   kvm \<Rightarrow> spt_t option \<Rightarrow> bool \<Rightarrow> error + (kvm \<times> bool)" where
  "zap_leafs_roots E 0 asid start end_gfn can_yield zap_private =
     (\<lambda>k root flush. Inl OUT_OF_FUEL)"
| "zap_leafs_roots E (Suc fuel) asid start end_gfn can_yield zap_private =
     (\<lambda>k root flush.
        case root of
          None \<Rightarrow> Inr (k, flush)
        | Some r \<Rightarrow>
            (case (if kvm_mmu_page_as_id (sp_of k r) \<noteq> asid then Inr (k, flush)
                   else tdp_mmu_zap_leafs E fuel k r start end_gfn can_yield flush
                          (if is_private_sp (sp_of k r) then zap_private
                           else ZAP_PRIVATE_SKIP)) of
               Inl e \<Rightarrow> Inl e
             | Inr (k1, flush1) \<Rightarrow>
                 (case tdp_mmu_next_root k1 (Some r) False False of
                    (k2, next_r) \<Rightarrow>
                      zap_leafs_roots E fuel asid start end_gfn can_yield zap_private
                        k2 next_r flush1)))"

definition kvm_tdp_mmu_zap_leafs ::
  "env \<Rightarrow> nat \<Rightarrow> kvm \<Rightarrow> nat \<Rightarrow> gfn_t \<Rightarrow> gfn_t \<Rightarrow> bool \<Rightarrow> bool \<Rightarrow> tdp_zap_private \<Rightarrow>
   error + (kvm \<times> bool)" where
  "kvm_tdp_mmu_zap_leafs E fuel k asid start end_gfn can_yield flush zap_private =
     (case tdp_mmu_next_root k None False False of
        (k1, first_root) \<Rightarrow>
          zap_leafs_roots E fuel asid start end_gfn can_yield zap_private k1 first_root flush)"

definition unmap_gfn_range_policy :: "kvm \<Rightarrow> kvm_gfn_range \<Rightarrow> tdp_zap_private" where
  "unmap_gfn_range_policy k rng =
     (if kvm_gfn_shared_mask k \<noteq> 0 then
        (if \<not> range_only_private rng \<and> \<not> range_only_shared rng then
           (if range_attributes_private rng then ZAP_PRIVATE_SKIP else ZAP_PRIVATE_BLOCK)
         else if range_only_private rng \<and> \<not> range_only_shared rng then ZAP_PRIVATE_REMOVE
         else if range_only_private rng \<and> range_only_shared rng then ZAP_PRIVATE_REMOVE
         else ZAP_PRIVATE_SKIP)
      else ZAP_PRIVATE_SKIP)"

definition kvm_tdp_mmu_unmap_gfn_range ::
  "env \<Rightarrow> nat \<Rightarrow> kvm \<Rightarrow> kvm_gfn_range \<Rightarrow> bool \<Rightarrow> error + (kvm \<times> bool)" where
  "kvm_tdp_mmu_unmap_gfn_range E fuel k rng flush =
     kvm_tdp_mmu_zap_leafs E fuel k (range_as_id rng) (range_start rng) (range_end rng)
       (range_may_block rng) flush (unmap_gfn_range_policy k rng)"

text \<open>
  \<^verbatim>\<open>kvm_tdp_mmu_handle_gfn\<close> and its three handlers. \<open>handle_gfn_body\<close> is the
  body of \<^verbatim>\<open>tdp_root_for_each_leaf_pte\<close> with \<^verbatim>\<open>ret |= handler(kvm, &iter, range)\<close>;
  \<open>handle_gfn_roots\<close> is the loop \<^verbatim>\<open>for_each_tdp_mmu_root\<close> over the root list.
\<close>

definition age_gfn_range ::
  "env \<Rightarrow> kvm \<Rightarrow> tdp_iter \<Rightarrow> kvm_gfn_range \<Rightarrow> error + (kvm \<times> tdp_iter \<times> bool)" where
  "age_gfn_range E k iter rng =
     (if \<not> is_accessed_spte E (iter_old_spte iter) then Inr (k, iter, False)
      else if spte_ad_enabled E (iter_old_spte iter) then
        (case tdp_mmu_clear_spte_bits E k (iter_sptep iter) (iter_old_spte iter)
                (shadow_accessed_mask E) (iter_level iter) of
           (k1, old1) \<Rightarrow> Inr (k1, iter\<lparr>iter_old_spte := old1\<rparr>, True))
      else
        (let k1 = (if is_writable_pte E (iter_old_spte iter)
                   then kvm_set_pfn_dirty (spte_to_pfn E (iter_old_spte iter)) k else k);
             new_spte = mark_spte_for_access_track E (iter_old_spte iter)
         in case kvm_tdp_mmu_write_spte E k1 (iter_sptep iter) (iter_old_spte iter) new_spte
                   (iter_level iter) of
              (k2, old1) \<Rightarrow> Inr (k2, iter\<lparr>iter_old_spte := old1\<rparr>, True)))"

definition test_age_gfn ::
  "env \<Rightarrow> kvm \<Rightarrow> tdp_iter \<Rightarrow> kvm_gfn_range \<Rightarrow> error + (kvm \<times> tdp_iter \<times> bool)" where
  "test_age_gfn E k iter rng = Inr (k, iter, is_accessed_spte E (iter_old_spte iter))"

definition set_spte_gfn ::
  "env \<Rightarrow> nat \<Rightarrow> kvm \<Rightarrow> tdp_iter \<Rightarrow> kvm_gfn_range \<Rightarrow> error + (kvm \<times> tdp_iter \<times> bool)" where
  "set_spte_gfn E fuel k iter rng =
     (if iter_level iter \<noteq> PG_LEVEL_4K \<or> \<not> is_shadow_present_pte E (iter_old_spte iter)
      then Inr (k, iter, False)
      else
        (case tdp_mmu_iter_set_spte E fuel k iter (private_zapped_spte E k iter) of
           Inl e \<Rightarrow> Inl e
         | Inr (k1, iter1) \<Rightarrow>
             if \<not> range_pte_write rng then
               (case tdp_mmu_iter_set_spte E fuel k1 iter1
                       (kvm_mmu_changed_pte_notifier_make_spte E (iter_old_spte iter1)
                          (range_pte_pfn rng)) of
                  Inl e \<Rightarrow> Inl e
                | Inr (k2, iter2) \<Rightarrow> Inr (k2, iter2, True))
             else Inr (k1, iter1, True)))"

definition handle_gfn_body ::
  "env \<Rightarrow> (kvm \<Rightarrow> tdp_iter \<Rightarrow> kvm_gfn_range \<Rightarrow> error + (kvm \<times> tdp_iter \<times> bool)) \<Rightarrow>
   kvm_gfn_range \<Rightarrow> bool \<Rightarrow> kvm \<Rightarrow> tdp_iter \<Rightarrow> error + (ctl \<times> bool \<times> kvm \<times> tdp_iter)" where
  "handle_gfn_body E handler rng ret k iter =
     (if (\<not> is_shadow_present_pte E (iter_old_spte iter) \<and>
          \<not> is_private_zapped_spte E (iter_old_spte iter)) \<or>
         \<not> is_last_spte E (iter_old_spte iter) (iter_level iter)
      then Inr (Continue, ret, k, iter)
      else case handler k iter rng of
             Inl e \<Rightarrow> Inl e
           | Inr (k1, iter1, r) \<Rightarrow> Inr (Continue, (ret \<or> r), k1, iter1))"

fun handle_gfn_roots ::
  "env \<Rightarrow> nat \<Rightarrow> (kvm \<Rightarrow> tdp_iter \<Rightarrow> kvm_gfn_range \<Rightarrow> error + (kvm \<times> tdp_iter \<times> bool)) \<Rightarrow>
   kvm_gfn_range \<Rightarrow> spt_t list \<Rightarrow> kvm \<Rightarrow> bool \<Rightarrow> error + (kvm \<times> bool)" where
  "handle_gfn_roots E fuel handler rng [] k ret = Inr (k, ret)"
| "handle_gfn_roots E fuel handler rng (root # rest) k ret =
     (if kvm_mmu_page_as_id (sp_of k root) \<noteq> range_as_id rng
      then handle_gfn_roots E fuel handler rng rest k ret
      else if is_private_sp (sp_of k root)
      then handle_gfn_roots E fuel handler rng rest k ret
      else
        case for_each_tdp_pte_min_level E fuel (handle_gfn_body E handler rng) ret k root
               PG_LEVEL_4K (kvm_gfn_to_shared k (range_start rng))
               (kvm_gfn_to_shared k (range_end rng)) of
          Inl e \<Rightarrow> Inl e
        | Inr (ret1, k1, iter1) \<Rightarrow> handle_gfn_roots E fuel handler rng rest k1 ret1)"

definition kvm_tdp_mmu_handle_gfn ::
  "env \<Rightarrow> nat \<Rightarrow> kvm \<Rightarrow> kvm_gfn_range \<Rightarrow>
   (kvm \<Rightarrow> tdp_iter \<Rightarrow> kvm_gfn_range \<Rightarrow> error + (kvm \<times> tdp_iter \<times> bool)) \<Rightarrow>
   error + (kvm \<times> bool)" where
  "kvm_tdp_mmu_handle_gfn E fuel k rng handler =
     handle_gfn_roots E fuel handler rng (tdp_mmu_roots k) k False"

definition kvm_tdp_mmu_age_gfn_range ::
  "env \<Rightarrow> nat \<Rightarrow> kvm \<Rightarrow> kvm_gfn_range \<Rightarrow> error + (kvm \<times> bool)" where
  "kvm_tdp_mmu_age_gfn_range E fuel k rng = kvm_tdp_mmu_handle_gfn E fuel k rng (age_gfn_range E)"

definition kvm_tdp_mmu_test_age_gfn ::
  "env \<Rightarrow> nat \<Rightarrow> kvm \<Rightarrow> kvm_gfn_range \<Rightarrow> error + (kvm \<times> bool)" where
  "kvm_tdp_mmu_test_age_gfn E fuel k rng = kvm_tdp_mmu_handle_gfn E fuel k rng (test_age_gfn E)"

definition kvm_tdp_mmu_set_spte_gfn ::
  "env \<Rightarrow> nat \<Rightarrow> kvm \<Rightarrow> kvm_gfn_range \<Rightarrow> error + (kvm \<times> bool)" where
  "kvm_tdp_mmu_set_spte_gfn E fuel k rng =
     kvm_tdp_mmu_handle_gfn E fuel k rng (set_spte_gfn E fuel)"

section \<open>Fault-handling orchestrator\<close>

text \<open>The outcomes \<^verbatim>\<open>RET_PF_*\<close> (mmu_internal.h) and the access bits of mmu.h.\<close>

definition RET_PF_CONTINUE :: int where "RET_PF_CONTINUE = 0"
definition RET_PF_RETRY :: int where "RET_PF_RETRY = 1"
definition RET_PF_EMULATE :: int where "RET_PF_EMULATE = 2"
definition RET_PF_INVALID :: int where "RET_PF_INVALID = 3"
definition RET_PF_FIXED :: int where "RET_PF_FIXED = 4"
definition RET_PF_SPURIOUS :: int where "RET_PF_SPURIOUS = 5"

definition ACC_EXEC_MASK :: nat where "ACC_EXEC_MASK = 1"
definition ACC_ALL :: nat where "ACC_ALL = 7"

definition raw_tdp_mmu_map_handle_target_level ::
  "env \<Rightarrow> nat \<Rightarrow> kvm \<Rightarrow> kvm_page_fault \<Rightarrow> tdp_iter \<Rightarrow> u64 \<Rightarrow> error + (kvm \<times> tdp_iter \<times> int)" where
  "raw_tdp_mmu_map_handle_target_level E fuel k fault iter new_spte =
     (if fault_slot fault \<and> kvm_gfn_shared_mask k \<noteq> 0 \<and> iter_level iter > PG_LEVEL_4K \<and>
         kvm_is_private_gpa E k (fault_addr fault) \<and>
         is_shadow_present_pte E (iter_old_spte iter) \<and> \<not> is_large_pte E (iter_old_spte iter)
      then tdp_mmu_merge_private_spt E fuel k fault iter new_spte
      else tdp_mmu_set_spte_atomic E fuel k iter new_spte)"

definition tdp_mmu_map_handle_target_level ::
  "env \<Rightarrow> nat \<Rightarrow> kvm \<Rightarrow> kvm_vcpu \<Rightarrow> kvm_page_fault \<Rightarrow> tdp_iter \<Rightarrow>
   error + (kvm \<times> kvm_vcpu \<times> tdp_iter \<times> int)" where
  "tdp_mmu_map_handle_target_level E fuel k vcpu fault iter =
     (let sp = sptep_to_sp k (iter_sptep iter) in
      if role_level (role sp) \<noteq> fault_goal_level fault then Inr (k, vcpu, iter, RET_PF_RETRY)
      else
        let made =
              (if \<not> fault_slot fault then (False, make_mmio_spte E (iter_gfn iter) ACC_ALL)
               else
                 let g = (if kvm_gfn_shared_mask k \<noteq> 0 \<and> fault_is_private fault
                          then iter_gfn iter OR kvm_gfn_shared_mask k else iter_gfn iter);
                     pte_access = (if kvm_gfn_shared_mask k \<noteq> 0 \<and> \<not> fault_is_private fault
                                   then ACC_ALL - ACC_EXEC_MASK else ACC_ALL)
                 in make_spte E sp pte_access g (fault_pfn fault) (iter_old_spte iter)
                      (fault_prefetch fault) True (fault_map_writable fault));
            wrprot = fst made;
            new_spte = snd made
        in case (if new_spte = iter_old_spte iter then Inr (Inr (k, iter, RET_PF_SPURIOUS))
                 else
                   (case raw_tdp_mmu_map_handle_target_level E fuel k fault iter new_spte of
                      Inl e \<Rightarrow> Inl e
                    | Inr (k1, iter1, r) \<Rightarrow>
                        if r \<noteq> 0 then Inr (Inl (k1, iter1))
                        else if is_shadow_present_pte E (iter_old_spte iter1) \<and>
                                \<not> is_last_spte E (iter_old_spte iter1) (iter_level iter1)
                        then Inr (Inr (kvm_flush_remote_tlbs_gfn (iter_gfn iter1)
                                         (iter_level iter1) k1, iter1, RET_PF_FIXED))
                        else Inr (Inr (k1, iter1, RET_PF_FIXED)))) of
             Inl e \<Rightarrow> Inl e
           | Inr (Inl (k1, iter1)) \<Rightarrow> Inr (k1, vcpu, iter1, RET_PF_RETRY)
           | Inr (Inr (k1, iter1, ret)) \<Rightarrow>
               let ret1 = (if wrprot \<and> fault_write fault then RET_PF_EMULATE else ret) in
               if is_mmio_spte E new_spte
               then Inr (k1, vcpu\<lparr>pf_mmio_spte_created := pf_mmio_spte_created vcpu + 1\<rparr>,
                         iter1, RET_PF_EMULATE)
               else Inr (k1, vcpu, iter1, ret1))"

definition tdp_mmu_unzap_large_spte ::
  "env \<Rightarrow> nat \<Rightarrow> kvm \<Rightarrow> kvm_page_fault \<Rightarrow> tdp_iter \<Rightarrow> error + (kvm \<times> tdp_iter \<times> int)" where
  "tdp_mmu_unzap_large_spte E fuel k fault iter =
     (let sp = sptep_to_sp k (iter_sptep iter);
          m = KVM_HPAGE_GFN_MASK E (iter_level iter);
          k0 = KVM_BUG_ON (fault_pfn fault AND m \<noteq> spte_to_pfn E (iter_old_spte iter)) k;
          new_spte = snd (make_spte E sp ACC_ALL (gpa_to_gfn E (fault_addr fault) AND m)
                            (fault_pfn fault AND m) (iter_old_spte iter) False True
                            (fault_map_writable fault))
      in if new_spte = iter_old_spte iter then Inr (k0, iter, RET_PF_SPURIOUS)
         else
           case tdp_mmu_set_spte_atomic E fuel k0 iter new_spte of
             Inl e \<Rightarrow> Inl e
           | Inr (k1, iter1, r) \<Rightarrow>
               if r \<noteq> 0 then Inr (k1, iter1, RET_PF_RETRY)
               else Inr (k1, iter1\<lparr>iter_old_spte := new_spte\<rparr>, RET_PF_CONTINUE))"

text \<open>
  The body of the loop of \<^verbatim>\<open>kvm_tdp_mmu_map\<close>. The locals are the vCPU (its caches),
  the fault, and how the loop was left: \<^verbatim>\<open>goto map_target_level\<close>, \<^verbatim>\<open>goto retry\<close>, or
  neither (the loop ran out or hit \<^verbatim>\<open>break\<close>).
\<close>

datatype map_exit = Map_fell_through | Map_target_level | Map_retry

definition tdp_mmu_map_body ::
  "env \<Rightarrow> nat \<Rightarrow> bool \<Rightarrow> kvm_vcpu \<times> kvm_page_fault \<times> map_exit \<Rightarrow> kvm \<Rightarrow> tdp_iter \<Rightarrow>
   error + (ctl \<times> (kvm_vcpu \<times> kvm_page_fault \<times> map_exit) \<times> kvm \<times> tdp_iter)" where
  "tdp_mmu_map_body E fuel is_private acc k iter =
     (case acc of (vcpu, fault0, ex) \<Rightarrow>
        let k0 = KVM_BUG_ON (is_private_sptep k (iter_sptep iter) \<noteq> is_private) k;
            fault = (if fault_nx_huge_page_workaround_enabled fault0 \<or> kvm_gfn_shared_mask k0 \<noteq> 0
                     then disallowed_hugepage_adjust E fault0 (iter_old_spte iter) (iter_level iter)
                     else fault0)
        in if is_removed_spte E (iter_old_spte iter)
           then Inr (Break, (vcpu, fault, Map_retry), k0, iter)
           else if iter_level iter = fault_goal_level fault
           then Inr (Break, (vcpu, fault, Map_target_level), k0, iter)
           else if is_shadow_present_pte E (iter_old_spte iter) \<and>
                   \<not> is_large_pte E (iter_old_spte iter)
           then Inr (Continue, (vcpu, fault, ex), k0, iter)
           else
             case (if is_private_zapped_spte E (iter_old_spte iter) \<and>
                      is_large_pte E (iter_old_spte iter)
                   then tdp_mmu_unzap_large_spte E fuel k0 fault iter
                   else Inr (k0, iter, RET_PF_CONTINUE)) of
               Inl e \<Rightarrow> Inl e
             | Inr (k1, iter1, r) \<Rightarrow>
                 if r \<noteq> RET_PF_CONTINUE then Inr (Break, (vcpu, fault, ex), k1, iter1)
                 else
                   (case tdp_mmu_alloc_sp vcpu (tdp_iter_child_role k1 iter1) of
                      Inl e \<Rightarrow> Inl e
                    | Inr (sp_hdr, vcpu1) \<Rightarrow>
                        let k2 = tdp_mmu_init_sp k1 sp_hdr (Some (iter_sptep iter1)) (iter_gfn iter1);
                            sp = spt sp_hdr;
                            k3 = k2\<lparr>sp_of := (sp_of k2)
                                    (sp := (sp_of k2 sp)\<lparr>nx_huge_page_disallowed :=
                                                           fault_huge_page_disallowed fault\<rparr>)\<rparr>
                        in case (if is_shadow_present_pte E (iter_old_spte iter1)
                                 then tdp_mmu_split_huge_page E fuel k3 iter1 sp True
                                 else tdp_mmu_link_sp E fuel k3 iter1 sp True) of
                             Inl e \<Rightarrow> Inl e
                           | Inr (k4, iter2, r1) \<Rightarrow>
                               if r1 \<noteq> 0
                               then Inr (Break, (vcpu1, fault, Map_retry),
                                         tdp_mmu_free_sp sp k4, iter2)
                               else
                                 let k5 = (if fault_huge_page_disallowed fault \<and>
                                              fault_req_level fault \<ge> iter_level iter2 \<and>
                                              nx_huge_page_disallowed (sp_of k4 sp)
                                           then k4\<lparr>nx_tracked := nx_tracked k4 @ [sp]\<rparr> else k4)
                                 in Inr (Continue, (vcpu1, fault, ex), k5, iter2)))"

definition kvm_tdp_mmu_map ::
  "env \<Rightarrow> nat \<Rightarrow> kvm \<Rightarrow> kvm_vcpu \<Rightarrow> kvm_page_fault \<Rightarrow>
   error + (kvm \<times> kvm_vcpu \<times> kvm_page_fault \<times> int)" where
  "kvm_tdp_mmu_map E fuel k vcpu fault0 =
     (let is_private = (fault_is_private fault0 \<and> kvm_gfn_shared_mask k \<noteq> 0);
          fault = kvm_mmu_hugepage_adjust E fault0;
          raw_gfn = gpa_to_gfn E (fault_addr fault)
      in if \<not> fault_nonleaf fault \<and>
            (is_error_noslot_pfn E (fault_pfn fault) \<or>
             \<not> kvm_pfn_to_refcounted_page E (fault_pfn fault)) \<and> is_private
         then Inr (k, vcpu, fault, - EFAULT)
         else
           case for_each_tdp_pte_min_level E fuel (tdp_mmu_map_body E fuel is_private)
                  (vcpu, fault, Map_fell_through) k
                  (if is_private then private_root_hpa vcpu else root_hpa vcpu)
                  PG_LEVEL_4K raw_gfn (raw_gfn + 1) of
             Inl e \<Rightarrow> Inl e
           | Inr ((vcpu1, fault1, ex), k1, iter1) \<Rightarrow>
               (case ex of
                  Map_target_level \<Rightarrow>
                    if \<not> fault_nonleaf fault1 then
                      (case tdp_mmu_map_handle_target_level E fuel k1 vcpu1 fault1 iter1 of
                         Inl e \<Rightarrow> Inl e
                       | Inr (k2, vcpu2, iter2, ret) \<Rightarrow> Inr (k2, vcpu2, fault1, ret))
                    else Inr (k1, vcpu1, fault1, RET_PF_FIXED)
                | Map_retry \<Rightarrow> Inr (k1, vcpu1, fault1, RET_PF_RETRY)
                | Map_fell_through \<Rightarrow> Inr (k1, vcpu1, fault1, RET_PF_RETRY)))"

section \<open>Predicates used in the statements\<close>

text \<open>The roles of all shadow pages are the same in two states.\<close>

definition roles_kept :: "kvm \<Rightarrow> kvm \<Rightarrow> bool" where
  "roles_kept k k' = (\<forall>a. role (sp_of k' a) = role (sp_of k a))"

text \<open>
  The roots on the list are distinct and each holds at least one reference.
\<close>

definition roots_live :: "kvm \<Rightarrow> bool" where
  "roots_live k \<longleftrightarrow>
     distinct (tdp_mmu_roots k)
     \<and> (\<forall>x\<in>set (tdp_mmu_roots k). 0 < tdp_mmu_root_count (sp_of k x))"

text \<open>
  The tables under the non-private roots are closed under their links: a present entry
  of a non-private table that is not a leaf at the level of the table links a
  non-private table of the level below. (The source asserts it when a table is torn
  down: \<^verbatim>\<open>KVM_BUG_ON(is_private != is_private_sptep(spte_to_child_pt(old_spte, level)))\<close>.)
  \<open>cursor_on_shared\<close> says that a cursor stands in such a table: the tables of its path,
  from its level up to the root, are non-private and of the level at which the path
  holds them.
\<close>

definition shared_side_closed :: "env \<Rightarrow> kvm \<Rightarrow> bool" where
  "shared_side_closed E k \<longleftrightarrow>
     (\<forall>a i c. \<not> is_private_sp (sp_of k a) \<and>
        spte_to_child_pt E (spte_mem k a i) (role_level (role (sp_of k a))) = Some c \<longrightarrow>
        \<not> is_private_sp (sp_of k c)
        \<and> Suc (role_level (role (sp_of k c))) = role_level (role (sp_of k a)))"

definition cursor_on_shared :: "kvm \<Rightarrow> tdp_iter \<Rightarrow> bool" where
  "cursor_on_shared k it \<longleftrightarrow>
     1 \<le> min_level it \<and> min_level it \<le> iter_level it \<and> iter_level it \<le> root_level it
     \<and> fst (iter_sptep it) = pt_path it (iter_level it - 1)
     \<and> (\<forall>l. iter_level it \<le> Suc l \<and> Suc l \<le> root_level it \<longrightarrow>
          \<not> is_private_sp (sp_of k (pt_path it l))
          \<and> role_level (role (sp_of k (pt_path it l))) = Suc l)"

section \<open>Concrete states for evaluating the model\<close>

text \<open>
  An all-zero guest state, a shadow page per address, and a non-private level-4 role:
  the starting points of the concrete inputs below.
\<close>

definition ex_role :: kvm_mmu_page_role where
  "ex_role = \<lparr>role_level = 4, role_is_private = False, role_invalid = False,
               role_smm = False, role_guest_mode = False, role_rest = 0\<rparr>"

definition ex_sp :: "spt_t \<Rightarrow> kvm_mmu_page" where
  "ex_sp a = \<lparr>role = ex_role, sp_gfn = 0, spt = a, ptep = None, private_spt = None,
              nx_huge_page_disallowed = False, tdp_mmu_page = True, tdp_mmu_root_count = 0\<rparr>"

definition ex_kvm :: kvm where
  "ex_kvm = \<lparr>tdp_mmu_roots = [], sp_of = ex_sp, spte_mem = (\<lambda>a i. 0),
      tdp_mmu_pages = 0, tdp_private_mmu_pages = 0, pgtable_pages = 0,
      page_stats = (\<lambda>l. 0), vm_bugged = False, gfn_shared_mask = 0,
      rcu_free_queue = [], freed_sps = [], zap_work = [], nx_untracked = [],
      tlb_flushes = [], srm_calls = [], pfn_dirty = [], pfn_accessed = [],
      sched_queries = 0, yields = [], split_allocs = 0, nx_tracked = []\<rparr>"

definition ex_vcpu :: kvm_vcpu where
  "ex_vcpu = \<lparr>root_role = ex_role, mmu_page_header_cache = [0x7000, 0x7100],
               mmu_shadow_page_cache = [0x2000, 0x3000],
               mmu_private_spt_cache = [0x8000], root_hpa = 0, private_root_hpa = 0,
               pf_mmio_spte_created = 0\<rparr>"

text \<open>A guest with one root at \<open>0x1000\<close> holding \<open>c\<close> references, valid or invalidated.\<close>

definition one_root_kvm :: "int \<Rightarrow> bool \<Rightarrow> kvm" where
  "one_root_kvm c invalidated =
     ex_kvm\<lparr>tdp_mmu_roots := [0x1000],
            sp_of := ex_sp(0x1000 := (ex_sp 0x1000)\<lparr>role := ex_role\<lparr>role_invalid := invalidated\<rparr>,
                                                     tdp_mmu_root_count := c\<rparr>)\<rparr>"

definition ex_iter :: tdp_iter where
  "ex_iter = \<lparr>next_last_level_gfn = 0x200, yielded_gfn = 0x200, pt_path = (\<lambda>l. 0x1000),
               iter_sptep = (0x1000, 1), iter_gfn = 0x200, root_level = 4, min_level = 1,
               iter_level = 2, iter_as_id = 0, iter_old_spte = 0, valid = True,
               yielded = False\<rparr>"

text \<open>
  One instance of the parameters, for evaluating the model on concrete inputs: 512
  entries per table and 4 KiB pages, the present bit at bit 11, the huge-page bit at bit
  7, the frame number in bits 12 to 51, the non-present value at bit 63 and the
  private-zapped bit at bit 62; a secure-resource manager that answers every call with
  success, a scheduler that never asks for the CPU and allocations that succeed.
\<close>

definition ex_env :: env where
  "ex_env = \<lparr>
     SPTE_ENT_PER_PAGE = 512,
     PAGE_SHIFT = 12,
     REMOVED_SPTE = 0x80000000000005A0,
     SHADOW_NONPRESENT_VALUE = 0x8000000000000000,
     SPTE_PRIVATE_ZAPPED = 0x4000000000000000,
     PT_PAGE_SIZE_MASK = 0x80,
     PT_WRITABLE_MASK = 0x2,
     shadow_accessed_mask = 0x100,
     is_shadow_present_pte = (\<lambda>x. x AND 0x800 \<noteq> 0),
     is_last_spte = (\<lambda>x l. l = 1 \<or> x AND 0x80 \<noteq> 0),
     is_large_pte = (\<lambda>x. x AND 0x80 \<noteq> 0),
     is_removed_spte = (\<lambda>x. x = 0x80000000000005A0),
     is_private_zapped_spte = (\<lambda>x. x AND 0x4000000000000000 \<noteq> 0),
     is_mmio_spte = (\<lambda>x. False),
     is_dirty_spte = (\<lambda>x. x AND 0x200 \<noteq> 0),
     is_accessed_spte = (\<lambda>x. x AND 0x100 \<noteq> 0),
     is_writable_pte = (\<lambda>x. x AND 0x2 \<noteq> 0),
     spte_ad_enabled = (\<lambda>x. True),
     spte_has_volatile_bits = (\<lambda>x. False),
     spte_to_pfn = (\<lambda>x. drop_bit 12 (x AND 0xFFFFFFFFFF000)),
     make_nonleaf_spte = (\<lambda>a. a OR 0x907),
     make_huge_page_split_spte = (\<lambda>huge r i.
        (let child = huge OR push_bit 12 (of_nat i * of_nat (512 ^ (role_level r - 1)))
         in if role_level r = 1 then child AND NOT 0x80 else child)),
     mark_spte_for_access_track = (\<lambda>x. x AND NOT 0x100),
     make_spte = (\<lambda>sp access g pfn old prefetch can_unsync host_writable.
        (False, push_bit 12 pfn OR 0x800 OR of_nat access
                OR (if role_level (role sp) > 1 then 0x80 else 0))),
     make_mmio_spte = (\<lambda>g access. 0x8000000000000006),
     kvm_mmu_changed_pte_notifier_make_spte = (\<lambda>old pfn.
        (old AND NOT 0xFFFFFFFFFF000 AND NOT 0x2) OR push_bit 12 pfn),
     kvm_mmu_max_gfn = 0xFFFFFFFFFF,
     kvm_hugepage_test_mixed = (\<lambda>g l. False),
     kvm_mmu_hugepage_adjust = (\<lambda>f. f),
     disallowed_hugepage_adjust = (\<lambda>f spte l. f),
     is_error_noslot_pfn = (\<lambda>pfn. pfn AND 0xFFF0000000000000 \<noteq> 0),
     kvm_pfn_to_refcounted_page = (\<lambda>pfn. pfn \<noteq> 0),
     kmem_cache_alloc = (\<lambda>n nowait. True),
     get_free_page = (\<lambda>n nowait. Some (0x100000 + push_bit 12 (of_nat n))),
     kvm_alloc_private_spt_for_split = (\<lambda>n nowait can_yield.
        Some (0x900000 + push_bit 12 (of_nat n))),
     need_resched = (\<lambda>n. False),
     rwlock_needbreak = (\<lambda>n. False),
     srm = (\<lambda>history c. 0)\<rparr>"

text \<open>
  A guest with a shared mask whose page at \<open>0x1000\<close> is a private level-1 table; its
  entry 1 holds a present mapping of frame 5. The cursor \<open>stale_iter\<close> stands on that
  entry but last observed it as 0.
\<close>

definition private_kvm :: kvm where
  "private_kvm =
     ex_kvm\<lparr>gfn_shared_mask := 0x8000000000,
            sp_of := ex_sp(0x1000 := (ex_sp 0x1000)\<lparr>role := ex_role\<lparr>role_level := 1,
                                                                     role_is_private := True\<rparr>,
                                                     private_spt := Some 0x9000\<rparr>),
            spte_mem := (\<lambda>a i. if a = 0x1000 \<and> i = 1 then 0x5801 else 0)\<rparr>"

definition stale_iter :: tdp_iter where
  "stale_iter = ex_iter\<lparr>iter_sptep := (0x1000, 1), iter_gfn := 1, iter_level := 1,
                        iter_old_spte := 0\<rparr>"

text \<open>A private fault on frame 5 whose page-frame number is an error value.\<close>

definition nopage_fault :: kvm_page_fault where
  "nopage_fault = \<lparr>fault_addr = 0x5000, fault_gfn = 5, fault_pfn = 0xFFF0000000000000,
     fault_slot = True, fault_is_private = True, fault_nonleaf = False,
     fault_goal_level = 1, fault_req_level = 1, fault_max_level = 1,
     fault_prefetch = False, fault_map_writable = True, fault_write = True,
     fault_exec = False, fault_huge_page_disallowed = False,
     fault_nx_huge_page_workaround_enabled = False\<rparr>"


definition ex_range :: kvm_gfn_range where
  "ex_range = \<lparr>range_start = 0, range_end = 8, range_as_id = 0, range_only_private = False,
                range_only_shared = False, range_attributes_private = False,
                range_may_block = False, range_pte_write = False, range_pte_pfn = 7\<rparr>"


definition huge_kvm :: kvm where
  "huge_kvm =
     ex_kvm\<lparr>gfn_shared_mask := 0x8000000000,
            tdp_mmu_roots := [0x1000],
            sp_of := ex_sp(0x1000 := (ex_sp 0x1000)\<lparr>role := ex_role\<lparr>role_level := 2,
                                                                     role_is_private := True\<rparr>,
                                                     private_spt := Some 0x9000\<rparr>),
            spte_mem := (\<lambda>a i. if a = 0x1000 \<and> i = 1 then 0x400881 else 0)\<rparr>"

definition huge_iter :: tdp_iter where
  "huge_iter = ex_iter\<lparr>iter_sptep := (0x1000, 1), iter_gfn := 0x200, iter_level := 2,
                       root_level := 2, iter_old_spte := 0x400881\<rparr>"

text \<open>
  The guest \<open>huge_child_kvm\<close> is \<open>huge_kvm\<close> with an initialised private level-1 page at
  \<open>0x100000\<close>, ready to receive the split of the 2 MiB leaf. The guest \<open>split_kvm\<close> is the
  guest after such a split, with the child of frame \<open>0x205\<close> not mapped: the parent entry
  links the child table, whose other entries are the 4 KiB leaves that the split of
  \<open>0x400881\<close> derives. The cursor \<open>link_iter\<close> stands on the parent entry and has read the
  link; \<open>fault_in\<close> is a private fault on frame \<open>0x205\<close>. The manager of
  \<open>unzap_fail_env\<close> answers the merge, and the unzap, with \<^verbatim>\<open>-EAGAIN\<close>, as
  \<^verbatim>\<open>tdx_sept_merge_private_spt\<close> does while some of the pages are pending and
  \<^verbatim>\<open>tdx_sept_unzap_private_spte\<close> does when the range is found not blocked.
\<close>

definition ex_child_role :: kvm_mmu_page_role where
  "ex_child_role = ex_role\<lparr>role_level := 1, role_is_private := True\<rparr>"

definition ex_child_sp :: kvm_mmu_page where
  "ex_child_sp = \<lparr>role = ex_child_role, sp_gfn = 0x200, spt = 0x100000, ptep = Some (0x1000, 1),
               private_spt = Some 0x900000, nx_huge_page_disallowed = False,
               tdp_mmu_page = True, tdp_mmu_root_count = 0\<rparr>"

definition huge_child_kvm :: kvm where
  "huge_child_kvm = huge_kvm\<lparr>sp_of := (sp_of huge_kvm)(0x100000 := ex_child_sp)\<rparr>"

definition split_kvm :: kvm where
  "split_kvm =
     huge_child_kvm\<lparr>spte_mem := (\<lambda>a i.
        if a = 0x1000 \<and> i = 1 then 0x100907
        else if a = 0x100000 \<and> i < 512 \<and> i \<noteq> 5
        then make_huge_page_split_spte ex_env 0x400881 ex_child_role i
        else 0)\<rparr>"

definition link_iter :: tdp_iter where
  "link_iter = huge_iter\<lparr>iter_old_spte := 0x100907\<rparr>"

definition fault_in :: kvm_page_fault where
  "fault_in = nopage_fault\<lparr>fault_addr := 0x205000, fault_gfn := 0x205, fault_pfn := 0x405,
                           fault_goal_level := 2, fault_req_level := 2, fault_max_level := 2\<rparr>"

definition unzap_fail_env :: env where
  "unzap_fail_env =
     ex_env\<lparr>srm := (\<lambda>history c. case c of Merge_private_spt g l p \<Rightarrow> - EAGAIN
                                       | Unzap_private_spte g l \<Rightarrow> - EAGAIN | _ \<Rightarrow> 0)\<rparr>"

text \<open>
  The guest \<open>mixed_kvm\<close> has two roots: the non-private level-2 root \<open>0x3000\<close>, whose
  entry 0 links the level-1 table \<open>0x4000\<close> with an accessed mapping of frame 7 in its
  entry 0, and the private level-1 root \<open>0x1000\<close> of \<open>private_kvm\<close>. The range
  \<open>one_frame_range\<close> is the single frame 0.
\<close>

definition mixed_kvm :: kvm where
  "mixed_kvm =
     private_kvm\<lparr>tdp_mmu_roots := [0x3000, 0x1000],
        sp_of := (sp_of private_kvm)
                   (0x3000 := (ex_sp 0x3000)\<lparr>role := ex_role\<lparr>role_level := 2\<rparr>\<rparr>,
                    0x4000 := (ex_sp 0x4000)\<lparr>role := ex_role\<lparr>role_level := 1\<rparr>\<rparr>),
        spte_mem := (\<lambda>a i. if a = 0x1000 \<and> i = 1 then 0x5801
                            else if a = 0x3000 \<and> i = 0 then 0x4907
                            else if a = 0x4000 \<and> i = 0 then 0x7901 else 0)\<rparr>"

definition one_frame_range :: kvm_gfn_range where
  "one_frame_range = ex_range\<lparr>range_end := 1\<rparr>"

section \<open>Theorems: root/lifecycle manager\<close>

text \<open>
  C3. \<^verbatim>\<open>kvm_tdp_mmu_put_root\<close> decrements the root's reference count. While the new
  count is not zero, the root list, the queue of pages handed to RCU for deferred
  freeing and the guest's bug flag are as before, and nothing is freed. When the new
  count is zero, the assertion \<^verbatim>\<open>KVM_BUG_ON(!is_tdp_mmu_page(root) || !root->role.invalid)\<close>
  is evaluated (a root that was not marked invalid marks the guest as bugged), the root is
  unlinked from the root list and handed to RCU for deferred freeing.
\<close>

theorem put_root_unlinks_only_at_zero:
  "(let c = tdp_mmu_root_count (sp_of k root);
        k' = kvm_tdp_mmu_put_root k root shared
    in tdp_mmu_root_count (sp_of k' root) = c - 1
       \<and> freed_sps k' = freed_sps k
       \<and> (c - 1 \<noteq> 0 \<longrightarrow>
            tdp_mmu_roots k' = tdp_mmu_roots k
            \<and> rcu_free_queue k' = rcu_free_queue k
            \<and> vm_bugged k' = vm_bugged k)
       \<and> (c - 1 = 0 \<longrightarrow>
            tdp_mmu_roots k' = remove1 root (tdp_mmu_roots k)
            \<and> rcu_free_queue k' = rcu_free_queue k @ [root]
            \<and> (vm_bugged k' \<longleftrightarrow>
                 vm_bugged k \<or> \<not> tdp_mmu_page (sp_of k root)
                 \<or> \<not> role_invalid (role (sp_of k root)))))"
  by (simp add: kvm_tdp_mmu_put_root_def refcount_dec_and_test_def set_root_count_def
      KVM_BUG_ON_def list_del_rcu_def call_rcu_def is_tdp_mmu_page_def Let_def)

theorem put_root_unlinks_only_at_zero_witness:
  "tdp_mmu_root_count (sp_of (one_root_kvm 2 False) 0x1000) - 1 \<noteq> 0
   \<and> tdp_mmu_roots (kvm_tdp_mmu_put_root (one_root_kvm 2 False) 0x1000 True) = [0x1000]
   \<and> rcu_free_queue (kvm_tdp_mmu_put_root (one_root_kvm 2 False) 0x1000 True) = []
   \<and> tdp_mmu_root_count (sp_of (one_root_kvm 1 True) 0x1000) - 1 = 0
   \<and> tdp_mmu_roots (kvm_tdp_mmu_put_root (one_root_kvm 1 True) 0x1000 True) = []
   \<and> rcu_free_queue (kvm_tdp_mmu_put_root (one_root_kvm 1 True) 0x1000 True) = [0x1000]
   \<and> \<not> vm_bugged (kvm_tdp_mmu_put_root (one_root_kvm 1 True) 0x1000 True)"
  using put_root_unlinks_only_at_zero [of "one_root_kvm 2 False" "0x1000" True]
        put_root_unlinks_only_at_zero [of "one_root_kvm 1 True" "0x1000" True]
  by (simp add: Let_def one_root_kvm_def ex_kvm_def ex_sp_def ex_role_def)

text \<open>
  Between two calls made under the MMU lock, the roots on the list are distinct and each
  holds at least one reference: a count is written only by \<^verbatim>\<open>refcount_set(.., 2)\<close> for
  a fresh root, by \<^verbatim>\<open>refcount_inc_not_zero\<close> and by \<^verbatim>\<open>kvm_tdp_mmu_put_root\<close>, which
  unlinks the root in the same call when the count reaches zero. Both functions keep
  this invariant.
\<close>

lemma put_root_keeps_roots_live:
  assumes "roots_live k"
  shows "roots_live (kvm_tdp_mmu_put_root k root shared)"
proof -
  let ?c = "tdp_mmu_root_count (sp_of k root)"
  from assms have d: "distinct (tdp_mmu_roots k)"
    and p: "\<forall>x\<in>set (tdp_mmu_roots k). 0 < tdp_mmu_root_count (sp_of k x)"
    by (simp_all add: roots_live_def)
  show ?thesis
  proof (cases "?c - 1 = 0")
    case True
    with d p show ?thesis
      by (auto simp: roots_live_def kvm_tdp_mmu_put_root_def refcount_dec_and_test_def
          set_root_count_def KVM_BUG_ON_def list_del_rcu_def call_rcu_def Let_def)
  next
    case False
    have "root \<in> set (tdp_mmu_roots k) \<Longrightarrow> 0 < ?c - 1"
      using p False by force
    with d p False show ?thesis
      by (auto simp: roots_live_def kvm_tdp_mmu_put_root_def refcount_dec_and_test_def
          set_root_count_def Let_def)
  qed
qed

lemma get_root_loop_keeps_counts:
  "get_vcpu_root_no_alloc_loop k r rs = (k', res) \<Longrightarrow>
   tdp_mmu_roots k' = tdp_mmu_roots k
   \<and> (\<forall>a. tdp_mmu_root_count (sp_of k a) \<le> tdp_mmu_root_count (sp_of k' a))"
proof (induction rs arbitrary: k)
  case Nil
  then show ?case by simp
next
  case (Cons a rs)
  show ?case
  proof (cases "kvm_mmu_page_as_id (sp_of k a) = kvm_mmu_role_as_id r \<and> role (sp_of k a) = r")
    case False
    with Cons show ?thesis by (auto split: if_splits)
  next
    case True
    obtain k1 got where g: "kvm_tdp_mmu_get_root k a = (k1, got)" by (cases "kvm_tdp_mmu_get_root k a")
    then have k1: "tdp_mmu_roots k1 = tdp_mmu_roots k"
      "\<forall>b. tdp_mmu_root_count (sp_of k b) \<le> tdp_mmu_root_count (sp_of k1 b)"
      by (auto simp: kvm_tdp_mmu_get_root_def refcount_inc_not_zero_def set_root_count_def
          split: if_splits)
    show ?thesis
    proof (cases got)
      case True
      with Cons.prems \<open>kvm_mmu_page_as_id (sp_of k a) = kvm_mmu_role_as_id r \<and> role (sp_of k a) = r\<close>
        g k1 show ?thesis by auto
    next
      case False
      with Cons.prems \<open>kvm_mmu_page_as_id (sp_of k a) = kvm_mmu_role_as_id r \<and> role (sp_of k a) = r\<close>
        g have "get_vcpu_root_no_alloc_loop k1 r rs = (k', res)" by auto
      from Cons.IH [OF this] k1 show ?thesis
        by (metis order_trans)
    qed
  qed
qed

lemma get_vcpu_root_keeps_roots_live:
  assumes live: "roots_live k"
    and run: "kvm_tdp_mmu_get_vcpu_root k vcpu priv = Inr (k', vcpu', root)"
    and fresh: "\<forall>p ps. mmu_shadow_page_cache vcpu = p # ps \<longrightarrow> p \<notin> set (tdp_mmu_roots k)"
  shows "roots_live k'"
proof -
  define r where "r = (if priv then kvm_mmu_page_role_set_private (root_role vcpu)
                  else root_role vcpu)"
  obtain k1 res where l: "get_vcpu_root_no_alloc_loop k r (tdp_mmu_roots k) = (k1, res)"
    by (cases "get_vcpu_root_no_alloc_loop k r (tdp_mmu_roots k)")
  from get_root_loop_keeps_counts [OF l] live
  have k1: "roots_live k1" "tdp_mmu_roots k1 = tdp_mmu_roots k"
    by (auto simp: roots_live_def intro: less_le_trans)
  show ?thesis
  proof (cases res)
    case (Some x)
    with run l k1 show ?thesis
      by (simp add: kvm_tdp_mmu_get_vcpu_root_def kvm_tdp_mmu_get_vcpu_root_no_alloc_def
          r_def Let_def)
  next
    case None
    with run l k1 fresh show ?thesis
      by (auto simp: kvm_tdp_mmu_get_vcpu_root_def kvm_tdp_mmu_get_vcpu_root_no_alloc_def
          r_def Let_def tdp_mmu_alloc_sp_def kvm_mmu_memory_cache_alloc_def
          tdp_mmu_init_sp_def set_root_count_def list_add_rcu_def roots_live_def
          kvm_mmu_page_role_is_private_def
          split: list.splits sum.splits if_splits)
  qed
qed

lemma get_root_loop_found_live:
  "\<forall>x\<in>set rs. 0 < tdp_mmu_root_count (sp_of k x) \<Longrightarrow>
   filter (\<lambda>x. role (sp_of k x) = r) rs = root # others \<Longrightarrow>
   get_vcpu_root_no_alloc_loop k r rs =
     (set_root_count root (tdp_mmu_root_count (sp_of k root) + 1) k, Some root)"
proof (induction rs)
  case Nil
  then show ?case by simp
next
  case (Cons a rs)
  show ?case
  proof (cases "role (sp_of k a) = r")
    case True
    with Cons.prems show ?thesis
      by (auto simp: kvm_tdp_mmu_get_root_def refcount_inc_not_zero_def
          kvm_mmu_page_as_id_def)
  next
    case False
    with Cons show ?thesis by auto
  qed
qed

lemma get_root_loop_no_role:
  "\<forall>x\<in>set rs. role (sp_of k x) \<noteq> r \<Longrightarrow> get_vcpu_root_no_alloc_loop k r rs = (k, None)"
  by (induction rs) auto

text \<open>
  C9. \<^verbatim>\<open>kvm_tdp_mmu_get_vcpu_root\<close>, called with the roots on the list each holding at
  least one reference. If the root list has a root of exactly the requested role, the
  first such root is returned with its reference count incremented by one, and nothing
  else changes: no object is taken from the vCPU's caches and the root list is as
  before. If it has none, a header is taken from the vCPU's header cache and a page from
  its shadow-page cache (and, for a private role, a page from its private cache); the
  page becomes a root of the requested role with reference count exactly 2 and is
  linked at the head of the root list; the other shadow pages are untouched. The
  function fails to return only when one of these caches is empty.
\<close>

theorem get_vcpu_root_existing_or_fresh:
  fixes k :: kvm and vcpu :: kvm_vcpu and priv :: bool
  defines "r \<equiv> (if priv then kvm_mmu_page_role_set_private (root_role vcpu)
                  else root_role vcpu)"
  assumes live: "\<forall>x\<in>set (tdp_mmu_roots k). 0 < tdp_mmu_root_count (sp_of k x)"
  shows
  "(case filter (\<lambda>x. role (sp_of k x) = r) (tdp_mmu_roots k) of
      root # others \<Rightarrow>
        kvm_tdp_mmu_get_vcpu_root k vcpu priv =
          Inr (set_root_count root (tdp_mmu_root_count (sp_of k root) + 1) k, vcpu, root)
    | [] \<Rightarrow>
       (case kvm_tdp_mmu_get_vcpu_root k vcpu priv of
          Inl e \<Rightarrow> e = HOST_BUG \<and>
            (mmu_page_header_cache vcpu = [] \<or> mmu_shadow_page_cache vcpu = [] \<or>
             (role_is_private r \<and> mmu_private_spt_cache vcpu = []))
        | Inr (k', vcpu', root) \<Rightarrow>
            mmu_shadow_page_cache vcpu = root # mmu_shadow_page_cache vcpu'
            \<and> length (mmu_page_header_cache vcpu) = Suc (length (mmu_page_header_cache vcpu'))
            \<and> tdp_mmu_roots k' = root # tdp_mmu_roots k
            \<and> tdp_mmu_root_count (sp_of k' root) = 2
            \<and> role (sp_of k' root) = r
            \<and> (\<forall>a. a \<noteq> root \<longrightarrow> sp_of k' a = sp_of k a)))"
proof (cases "filter (\<lambda>x. role (sp_of k x) = r) (tdp_mmu_roots k)")
  case (Cons root others)
  from get_root_loop_found_live [OF live Cons]
  have "kvm_tdp_mmu_get_vcpu_root k vcpu priv =
          Inr (set_root_count root (tdp_mmu_root_count (sp_of k root) + 1) k, vcpu, root)"
    by (simp add: kvm_tdp_mmu_get_vcpu_root_def kvm_tdp_mmu_get_vcpu_root_no_alloc_def
        r_def Let_def)
  with Cons show ?thesis by simp
next
  case Nil
  then have "\<forall>x\<in>set (tdp_mmu_roots k). role (sp_of k x) \<noteq> r"
    by (simp add: filter_empty_conv)
  then have none: "get_vcpu_root_no_alloc_loop k r (tdp_mmu_roots k) = (k, None)"
    by (rule get_root_loop_no_role)
  have "case kvm_tdp_mmu_get_vcpu_root k vcpu priv of
          Inl e \<Rightarrow> e = HOST_BUG \<and>
            (mmu_page_header_cache vcpu = [] \<or> mmu_shadow_page_cache vcpu = [] \<or>
             (role_is_private r \<and> mmu_private_spt_cache vcpu = []))
        | Inr (k', vcpu', root) \<Rightarrow>
            mmu_shadow_page_cache vcpu = root # mmu_shadow_page_cache vcpu'
            \<and> length (mmu_page_header_cache vcpu) = Suc (length (mmu_page_header_cache vcpu'))
            \<and> tdp_mmu_roots k' = root # tdp_mmu_roots k
            \<and> tdp_mmu_root_count (sp_of k' root) = 2
            \<and> role (sp_of k' root) = r
            \<and> (\<forall>a. a \<noteq> root \<longrightarrow> sp_of k' a = sp_of k a)"
    using none
    by (auto simp: kvm_tdp_mmu_get_vcpu_root_def kvm_tdp_mmu_get_vcpu_root_no_alloc_def
        r_def Let_def tdp_mmu_alloc_sp_def kvm_mmu_memory_cache_alloc_def
        tdp_mmu_init_sp_def set_root_count_def list_add_rcu_def
        kvm_mmu_page_role_is_private_def
        split: list.splits sum.splits)
  with Nil show ?thesis by simp
qed

theorem get_vcpu_root_existing_or_fresh_witness:
  "tdp_mmu_roots (one_root_kvm 1 False) = [0x1000]
   \<and> tdp_mmu_root_count (sp_of (one_root_kvm 1 False) 0x1000) = 1
   \<and> kvm_tdp_mmu_get_vcpu_root (one_root_kvm 1 False) ex_vcpu False =
     Inr (set_root_count 0x1000 2 (one_root_kvm 1 False), ex_vcpu, 0x1000)
   \<and> kvm_tdp_mmu_get_vcpu_root ex_kvm ex_vcpu False =
     Inr (ex_kvm\<lparr>tdp_mmu_roots := [0x2000],
                 sp_of := ex_sp(0x2000 := (ex_sp 0x2000)\<lparr>tdp_mmu_root_count := 2\<rparr>)\<rparr>,
          ex_vcpu\<lparr>mmu_page_header_cache := [0x7100], mmu_shadow_page_cache := [0x3000]\<rparr>,
          0x2000)"
proof -
  have a: "\<forall>x\<in>set (tdp_mmu_roots (one_root_kvm 1 False)).
             0 < tdp_mmu_root_count (sp_of (one_root_kvm 1 False) x)"
    by (simp add: one_root_kvm_def ex_kvm_def ex_sp_def)
  have f: "filter (\<lambda>x. role (sp_of (one_root_kvm 1 False) x) = root_role ex_vcpu)
             (tdp_mmu_roots (one_root_kvm 1 False)) = [0x1000]"
    by (simp add: one_root_kvm_def ex_kvm_def ex_vcpu_def ex_sp_def ex_role_def)
  have c: "set_root_count 0x1000 (tdp_mmu_root_count (sp_of (one_root_kvm 1 False) 0x1000) + 1)
             (one_root_kvm 1 False) = set_root_count 0x1000 2 (one_root_kvm 1 False)"
    by (simp add: one_root_kvm_def ex_kvm_def ex_sp_def)
  have d: "kvm_tdp_mmu_get_vcpu_root ex_kvm ex_vcpu False =
     Inr (ex_kvm\<lparr>tdp_mmu_roots := [0x2000],
                 sp_of := ex_sp(0x2000 := (ex_sp 0x2000)\<lparr>tdp_mmu_root_count := 2\<rparr>)\<rparr>,
          ex_vcpu\<lparr>mmu_page_header_cache := [0x7100], mmu_shadow_page_cache := [0x3000]\<rparr>,
          0x2000)"
    by (simp add: kvm_tdp_mmu_get_vcpu_root_def kvm_tdp_mmu_get_vcpu_root_no_alloc_def
        Let_def tdp_mmu_alloc_sp_def kvm_mmu_memory_cache_alloc_def tdp_mmu_init_sp_def
        set_root_count_def list_add_rcu_def kvm_mmu_page_role_is_private_def
        ex_kvm_def ex_vcpu_def ex_sp_def ex_role_def)
  from get_vcpu_root_existing_or_fresh
         [where k = "one_root_kvm 1 False" and priv = False and vcpu = ex_vcpu, OF a] f c
  have "kvm_tdp_mmu_get_vcpu_root (one_root_kvm 1 False) ex_vcpu False =
     Inr (set_root_count 0x1000 2 (one_root_kvm 1 False), ex_vcpu, 0x1000)"
    by simp
  moreover have "tdp_mmu_roots (one_root_kvm 1 False) = [0x1000]
                 \<and> tdp_mmu_root_count (sp_of (one_root_kvm 1 False) 0x1000) = 1"
    by (simp add: one_root_kvm_def ex_kvm_def ex_sp_def)
  ultimately show ?thesis using d by simp
qed

section \<open>Theorems: yield checkpoint\<close>

text \<open>
  C8. When the cursor's \<^verbatim>\<open>next_last_level_gfn\<close> equals its \<^verbatim>\<open>yielded_gfn\<close>,
  \<^verbatim>\<open>tdp_mmu_iter_cond_resched\<close> returns false and leaves the guest state (no TLB flush,
  no yield, no query of the scheduler) and the cursor (its \<^verbatim>\<open>yielded\<close> flag included)
  as they were.
\<close>

theorem cond_resched_no_progress:
  "next_last_level_gfn iter = yielded_gfn iter \<Longrightarrow>
   tdp_mmu_iter_cond_resched E k iter flush shared = (k, iter, False)"
  by (simp add: tdp_mmu_iter_cond_resched_def)

theorem cond_resched_no_progress_witness:
  "next_last_level_gfn ex_iter = yielded_gfn ex_iter
   \<and> tdp_mmu_iter_cond_resched (ex_env\<lparr>need_resched := (\<lambda>n. True)\<rparr>) ex_kvm ex_iter True False
       = (ex_kvm, ex_iter, False)"
  using cond_resched_no_progress
          [of ex_iter "ex_env\<lparr>need_resched := (\<lambda>n. True)\<rparr>" ex_kvm True False]
  by (simp add: ex_iter_def)

section \<open>Theorems: change bookkeeping\<close>

lemma removed_pt_loop_no_bug:
  assumes "\<And>k a g ol r s. cs k a g ol (REMOVED_SPTE E) r s \<noteq> Inl HOST_BUG"
  shows "handle_removed_pt_loop E cs pt shared l base i n k \<noteq> Inl HOST_BUG"
proof (induction n arbitrary: i k)
  case 0
  then show ?case by simp
next
  case (Suc n)
  show ?case
    using assms Suc.IH
    by (auto simp: Let_def split: prod.splits sum.splits)
qed

lemma removed_pt_body_no_bug:
  assumes "\<And>k a g ol r s. cs k a g ol (REMOVED_SPTE E) r s \<noteq> Inl HOST_BUG"
  shows "handle_removed_pt_body E cs k pt shared \<noteq> Inl HOST_BUG"
  using removed_pt_loop_no_bug [of cs E, OF assms]
  by (auto simp: handle_removed_pt_body_def Let_def split: prod.splits sum.splits)

lemma changed_spte_body_bug_iff:
  assumes "\<And>k pt s. rp k pt s \<noteq> Inl HOST_BUG"
  shows "handle_changed_spte_body E rp k asid g old_spte new_spte r shared = Inl HOST_BUG
     \<longleftrightarrow> (is_shadow_present_pte E old_spte \<and> is_last_spte E old_spte (role_level r)
          \<and> is_shadow_present_pte E new_spte \<and> is_last_spte E new_spte (role_level r)
          \<and> spte_to_pfn E old_spte \<noteq> spte_to_pfn E new_spte)"
  using assms
  by (auto simp: handle_changed_spte_body_def Let_def split: sum.splits option.splits)

lemma removed_pt_no_bug:
  assumes "\<not> is_shadow_present_pte E (REMOVED_SPTE E)"
  shows "handle_removed_pt E fuel k pt shared \<noteq> Inl HOST_BUG"
proof (induction fuel arbitrary: k pt shared)
  case 0
  then show ?case by simp
next
  case (Suc fuel)
  have "\<And>k a g ol r s.
     handle_changed_spte_body E (handle_removed_pt E fuel) k a g ol (REMOVED_SPTE E) r s
       \<noteq> Inl HOST_BUG"
    using changed_spte_body_bug_iff [of "handle_removed_pt E fuel" E] Suc.IH assms by blast
  then show ?case
    by (simp add: removed_pt_body_no_bug)
qed

text \<open>
  C1. \<^verbatim>\<open>handle_changed_spte\<close> takes the \<^verbatim>\<open>BUG()\<close> path exactly when the old value is a
  present leaf, the new value is a present leaf, and the two map different frames:
  such a change is never completed as an update, and no other change reaches
  \<^verbatim>\<open>BUG()\<close>, the tables torn down below the entry included (their entries are
  replaced by the removed value, which is not present).
\<close>

theorem changed_spte_bug_iff_frame_replaced:
  assumes "\<not> is_shadow_present_pte E (REMOVED_SPTE E)"
  shows "handle_changed_spte E fuel k asid g old_spte new_spte r shared = Inl HOST_BUG
     \<longleftrightarrow> (is_shadow_present_pte E old_spte \<and> is_last_spte E old_spte (role_level r)
          \<and> is_shadow_present_pte E new_spte \<and> is_last_spte E new_spte (role_level r)
          \<and> spte_to_pfn E old_spte \<noteq> spte_to_pfn E new_spte)"
  unfolding handle_changed_spte_def
  by (rule changed_spte_body_bug_iff) (rule removed_pt_no_bug [OF assms])

theorem changed_spte_bug_iff_frame_replaced_witness:
  "\<not> is_shadow_present_pte ex_env (REMOVED_SPTE ex_env)
   \<and> handle_changed_spte ex_env 0 ex_kvm 0 1 0x5801 0x6801 (ex_role\<lparr>role_level := 1\<rparr>) True
       = Inl HOST_BUG
   \<and> handle_changed_spte ex_env 0 ex_kvm 0 1 0x5801 0x8000000000000000
       (ex_role\<lparr>role_level := 1\<rparr>) True \<noteq> Inl HOST_BUG"
  using changed_spte_bug_iff_frame_replaced
          [of ex_env 0 ex_kvm 0 1 "0x5801" "0x6801" "ex_role\<lparr>role_level := 1\<rparr>" True]
        changed_spte_bug_iff_frame_replaced
          [of ex_env 0 ex_kvm 0 1 "0x5801" "0x8000000000000000" "ex_role\<lparr>role_level := 1\<rparr>" True]
  by (simp add: ex_env_def ex_role_def)

section \<open>Theorems: the atomic set-entry primitive\<close>

lemma KVM_BUG_ON_simps [simp]:
  "sp_of (KVM_BUG_ON c k) = sp_of k"
  "spte_mem (KVM_BUG_ON c k) = spte_mem k"
  "gfn_shared_mask (KVM_BUG_ON c k) = gfn_shared_mask k"
  by (simp_all add: KVM_BUG_ON_def)

text \<open>
  When the entry differs from the cursor's \<^verbatim>\<open>old_spte\<close>, \<^verbatim>\<open>tdp_mmu_set_spte_atomic\<close>
  returns \<^verbatim>\<open>-EBUSY\<close>; the entry, the counters and the log of calls to the
  secure-resource manager are as before (only \<^verbatim>\<open>KVM_BUG_ON(iter->yielded)\<close> may mark the
  guest). The cursor's \<^verbatim>\<open>old_spte\<close> is refreshed from the entry, except on the path
  through \<^verbatim>\<open>set_private_spte_present\<close> (a private table and a present new value), where
  the cursor is returned as it was.
\<close>

lemma set_spte_atomic_busy:
  assumes "kvm_tdp_mmu_read_spte k (iter_sptep iter) \<noteq> iter_old_spte iter"
  shows "tdp_mmu_set_spte_atomic E fuel k iter new_spte =
           Inr (KVM_BUG_ON (yielded iter) k,
                (if is_private_sptep k (iter_sptep iter) \<and> \<not> is_removed_spte E new_spte
                    \<and> is_shadow_present_pte E new_spte
                 then iter
                 else iter\<lparr>iter_old_spte := kvm_tdp_mmu_read_spte k (iter_sptep iter)\<rparr>),
                - EBUSY)"
  using assms
  by (simp add: tdp_mmu_set_spte_atomic_def set_private_spte_present_def try_cmpxchg64_def
      kvm_tdp_mmu_read_spte_def is_private_sptep_def sptep_to_sp_def EBUSY_def Let_def)

text \<open>
  C2. On a private table, with a present new value and an entry (\<open>0x5801\<close>) that differs
  from the cursor's \<^verbatim>\<open>old_spte\<close> (\<open>0\<close>), \<^verbatim>\<open>tdp_mmu_set_spte_atomic\<close> returns
  \<^verbatim>\<open>-EBUSY\<close> with the state unchanged and the cursor unchanged: its \<^verbatim>\<open>old_spte\<close> is
  still \<open>0\<close>, not the entry's current value.
\<close>

theorem set_spte_atomic_private_busy_keeps_stale_old_spte:
  "kvm_tdp_mmu_read_spte private_kvm (iter_sptep stale_iter) = 0x5801
   \<and> iter_old_spte stale_iter = 0
   \<and> tdp_mmu_set_spte_atomic ex_env 1 private_kvm stale_iter 0x5803 =
       Inr (private_kvm, stale_iter, - EBUSY)"
  by (simp add: tdp_mmu_set_spte_atomic_def set_private_spte_present_def try_cmpxchg64_def
      kvm_tdp_mmu_read_spte_def is_private_sptep_def sptep_to_sp_def EBUSY_def Let_def
      private_kvm_def stale_iter_def ex_iter_def ex_kvm_def ex_sp_def ex_role_def ex_env_def
      is_private_sp_def KVM_BUG_ON_def)

section \<open>Theorems: fault-handling orchestrator\<close>

text \<open>
  C7. A fault is in the private address space when \<^verbatim>\<open>fault->is_private\<close> is set and the
  guest has a shared mask (the local \<^verbatim>\<open>is_private\<close> of \<^verbatim>\<open>kvm_tdp_mmu_map\<close>, which
  selects the private root). For such a fault that, after \<^verbatim>\<open>kvm_mmu_hugepage_adjust\<close>,
  is not a non-leaf walk and whose page-frame number is an error value or has no
  refcounted page, \<^verbatim>\<open>kvm_tdp_mmu_map\<close> returns \<^verbatim>\<open>-EFAULT\<close> with the guest state and the
  vCPU as they were, whatever the fuel: no entry is read or written and no iteration
  of the walk is made.
\<close>

theorem map_private_no_page_efault:
  assumes "fault_is_private fault" and "kvm_gfn_shared_mask k \<noteq> 0"
    and "\<not> fault_nonleaf (kvm_mmu_hugepage_adjust E fault)"
    and "is_error_noslot_pfn E (fault_pfn (kvm_mmu_hugepage_adjust E fault)) \<or>
         \<not> kvm_pfn_to_refcounted_page E (fault_pfn (kvm_mmu_hugepage_adjust E fault))"
  shows "kvm_tdp_mmu_map E fuel k vcpu fault =
           Inr (k, vcpu, kvm_mmu_hugepage_adjust E fault, - EFAULT)"
  using assms by (auto simp: kvm_tdp_mmu_map_def Let_def)

theorem map_private_no_page_efault_witness:
  "fault_is_private nopage_fault \<and> kvm_gfn_shared_mask private_kvm \<noteq> 0
   \<and> \<not> fault_nonleaf (kvm_mmu_hugepage_adjust ex_env nopage_fault)
   \<and> is_error_noslot_pfn ex_env (fault_pfn (kvm_mmu_hugepage_adjust ex_env nopage_fault))
   \<and> kvm_tdp_mmu_map ex_env 0 private_kvm ex_vcpu nopage_fault =
       Inr (private_kvm, ex_vcpu, nopage_fault, - EFAULT)"
proof -
  have a: "fault_is_private nopage_fault" by (simp add: nopage_fault_def)
  have b: "kvm_gfn_shared_mask private_kvm \<noteq> 0"
    by (simp add: kvm_gfn_shared_mask_def private_kvm_def ex_kvm_def)
  have c: "kvm_mmu_hugepage_adjust ex_env nopage_fault = nopage_fault"
    by (simp add: ex_env_def)
  have d: "\<not> fault_nonleaf (kvm_mmu_hugepage_adjust ex_env nopage_fault)"
    by (simp add: c) (simp add: nopage_fault_def)
  have e: "is_error_noslot_pfn ex_env (fault_pfn (kvm_mmu_hugepage_adjust ex_env nopage_fault))"
    by (simp add: c) (simp add: nopage_fault_def ex_env_def)
  from map_private_no_page_efault [of nopage_fault private_kvm ex_env 0 ex_vcpu, OF a b d] e c
  have "kvm_tdp_mmu_map ex_env 0 private_kvm ex_vcpu nopage_fault =
          Inr (private_kvm, ex_vcpu, nopage_fault, - EFAULT)"
    by simp
  with a b d e show ?thesis by simp
qed

section \<open>Theorems: what the bookkeeping leaves alone\<close>

text \<open>
  Setting an entry changes entries, counters and logs, and tearing down a table clears
  two fields of its shadow page; the role of a shadow page is never written.
\<close>

lemma roles_kept_refl [simp]: "roles_kept k k"
  by (simp add: roles_kept_def)

lemma roles_kept_trans: "roles_kept k k1 \<Longrightarrow> roles_kept k1 k2 \<Longrightarrow> roles_kept k k2"
  by (simp add: roles_kept_def)

lemma roles_kept_sp_of: "sp_of k' = sp_of k \<Longrightarrow> roles_kept k k'"
  by (simp add: roles_kept_def)

lemma roles_kept_sp_of_left: "sp_of k1 = sp_of k \<Longrightarrow> roles_kept k1 k2 \<Longrightarrow> roles_kept k k2"
  by (simp add: roles_kept_def)

lemma roles_kept_sp_of_right: "roles_kept k k1 \<Longrightarrow> sp_of k2 = sp_of k1 \<Longrightarrow> roles_kept k k2"
  by (simp add: roles_kept_def)

lemma sp_of_simps [simp]:
  "sp_of (fst (static_call E c k)) = sp_of k"
  "sp_of (raw_kvm_tdp_mmu_write_spte p v k) = sp_of k"
  "sp_of (kvm_set_pfn_dirty pfn k) = sp_of k"
  "sp_of (kvm_set_pfn_accessed pfn k) = sp_of k"
  "sp_of (kvm_update_page_stats l n k) = sp_of k"
  "sp_of (kvm_account_pgtable_pages n k) = sp_of k"
  "sp_of (kvm_flush_remote_tlbs k) = sp_of k"
  "sp_of (kvm_flush_remote_tlbs_gfn g l k) = sp_of k"
  "sp_of (call_rcu pt k) = sp_of k"
  "sp_of (tdp_unaccount_mmu_page k pt) = sp_of k"
  "sp_of (fst (kvm_tdp_mmu_write_spte_atomic k p v)) = sp_of k"
  "sp_of (fst (kvm_tdp_mmu_write_spte E k p old new l)) = sp_of k"
  "sp_of (fst (tdp_mmu_clear_spte_bits E k p old bits l)) = sp_of k"
  "sp_of (fst (try_cmpxchg64 k p old new)) = sp_of k"
  by (simp_all add: static_call_def raw_kvm_tdp_mmu_write_spte_def kvm_set_pfn_dirty_def
      kvm_set_pfn_accessed_def kvm_update_page_stats_def kvm_account_pgtable_pages_def
      kvm_flush_remote_tlbs_def kvm_flush_remote_tlbs_gfn_def call_rcu_def
      tdp_unaccount_mmu_page_def kvm_tdp_mmu_write_spte_atomic_def kvm_tdp_mmu_write_spte_def
      tdp_mmu_clear_spte_bits_def try_cmpxchg64_def Let_def)

lemma sp_of_handle_private_zapped_spte [simp]:
  "sp_of (handle_private_zapped_spte E k g old new l) = sp_of k"
  by (simp add: handle_private_zapped_spte_def Let_def static_call_def split: prod.splits)

lemma sp_of_handle_removed_private_spte [simp]:
  "sp_of (handle_removed_private_spte E k g old new l) = sp_of k"
  by (simp add: handle_removed_private_spte_def Let_def static_call_def split: prod.splits)

lemma sp_of_handle_changed_spte_stats [simp]:
  "sp_of (handle_changed_spte_stats E k old new l) = sp_of k"
  by (simp add: handle_changed_spte_stats_def Let_def)

lemma sp_of_handle_changed_spte_private_hook [simp]:
  "sp_of (handle_changed_spte_private_hook E k g old new r shared) = sp_of k"
  by (simp add: handle_changed_spte_private_hook_def Let_def)

lemma roles_kept_unlink_sp: "roles_kept k (tdp_mmu_unlink_sp k pt shared)"
  by (simp add: tdp_mmu_unlink_sp_def roles_kept_def Let_def)

lemma changed_spte_body_roles:
  assumes rp: "\<And>k pt s k'. rp k pt s = Inr k' \<Longrightarrow> roles_kept k k'"
    and res: "handle_changed_spte_body E rp k asid g old new r shared = Inr k'"
  shows "roles_kept k k'"
proof -
  have *: "\<And>c k0 pt s k1. rp (KVM_BUG_ON c k0) pt s = Inr k1 \<Longrightarrow> sp_of k0 = sp_of k \<Longrightarrow>
             roles_kept k k1"
    using rp by (fastforce simp: roles_kept_def)
  show ?thesis
    using res
    by (auto simp: handle_changed_spte_body_def Let_def roles_kept_sp_of
        split: if_splits sum.splits option.splits dest!: * elim: roles_kept_sp_of_right)
qed

lemma removed_pt_loop_step:
  assumes "handle_removed_pt_loop E cs pt shared l base i (Suc n) k = Inr k'"
  shows "handle_removed_pt_loop E cs pt shared l base (i + 1) n k = Inr k' \<or>
         (\<exists>k1 k2 a g ol nw r s. sp_of k1 = sp_of k \<and> cs k1 a g ol nw r s = Inr k2 \<and>
            handle_removed_pt_loop E cs pt shared l base (i + 1) n k2 = Inr k')"
proof (cases shared)
  case True
  define k1 where "k1 = raw_kvm_tdp_mmu_write_spte (pt, i) (REMOVED_SPTE E) k"
  have sp: "sp_of k1 = sp_of k" by (simp add: k1_def)
  from True assms obtain k2 where
    a: "cs k1 (kvm_mmu_page_as_id (sp_of k1 pt))
          (base + of_nat i * KVM_PAGES_PER_HPAGE E l) (kvm_tdp_mmu_read_spte k (pt, i))
          (REMOVED_SPTE E) (role (sp_of k1 pt)) shared = Inr k2"
    and b: "handle_removed_pt_loop E cs pt shared l base (i + 1) n k2 = Inr k'"
    unfolding k1_def
    by (auto simp: Let_def kvm_tdp_mmu_write_spte_atomic_def split: if_splits sum.splits)
  with sp show ?thesis by blast
next
  case ns: False
  show ?thesis
  proof (cases "\<not> is_shadow_present_pte E (kvm_tdp_mmu_read_spte k (pt, i)) \<and>
                \<not> is_private_zapped_spte E (kvm_tdp_mmu_read_spte k (pt, i))")
    case True
    with ns assms show ?thesis by (simp add: Let_def)
  next
    case False
    obtain k1 x where w: "kvm_tdp_mmu_write_spte E k (pt, i) (kvm_tdp_mmu_read_spte k (pt, i))
                           (REMOVED_SPTE E) l = (k1, x)"
      by (cases "kvm_tdp_mmu_write_spte E k (pt, i) (kvm_tdp_mmu_read_spte k (pt, i))
                           (REMOVED_SPTE E) l")
    have "sp_of (fst (kvm_tdp_mmu_write_spte E k (pt, i) (kvm_tdp_mmu_read_spte k (pt, i))
                           (REMOVED_SPTE E) l)) = sp_of k"
      by simp
    with w have sp: "sp_of k1 = sp_of k" by simp
    from ns False assms w obtain k2 where
      a: "cs k1 (kvm_mmu_page_as_id (sp_of k1 pt))
            (base + of_nat i * KVM_PAGES_PER_HPAGE E l) x (REMOVED_SPTE E)
            (role (sp_of k1 pt)) shared = Inr k2"
      and b: "handle_removed_pt_loop E cs pt shared l base (i + 1) n k2 = Inr k'"
      by (auto simp: Let_def split: sum.splits)
    with sp show ?thesis by blast
  qed
qed

lemma removed_pt_loop_roles:
  assumes cs: "\<And>k a g ol nw r s k'. cs k a g ol nw r s = Inr k' \<Longrightarrow> roles_kept k k'"
  shows "handle_removed_pt_loop E cs pt shared l base i n k = Inr k' \<Longrightarrow> roles_kept k k'"
proof (induction n arbitrary: i k)
  case 0
  then show ?case by simp
next
  case (Suc n)
  from removed_pt_loop_step [OF Suc.prems] show ?case
  proof
    assume "handle_removed_pt_loop E cs pt shared l base (i + 1) n k = Inr k'"
    then show ?thesis by (rule Suc.IH)
  next
    assume "\<exists>k1 k2 a g ol nw r s. sp_of k1 = sp_of k \<and> cs k1 a g ol nw r s = Inr k2 \<and>
            handle_removed_pt_loop E cs pt shared l base (i + 1) n k2 = Inr k'"
    then obtain k1 k2 a g ol nw r s where sp: "sp_of k1 = sp_of k"
      and c: "cs k1 a g ol nw r s = Inr k2"
      and l: "handle_removed_pt_loop E cs pt shared l base (i + 1) n k2 = Inr k'"
      by blast
    from sp cs [OF c] have "roles_kept k k2" by (rule roles_kept_sp_of_left)
    moreover from l have "roles_kept k2 k'" by (rule Suc.IH)
    ultimately show ?thesis by (rule roles_kept_trans)
  qed
qed

lemma removed_pt_body_roles:
  assumes cs: "\<And>k a g ol nw r s k'. cs k a g ol nw r s = Inr k' \<Longrightarrow> roles_kept k k'"
    and res: "handle_removed_pt_body E cs k pt shared = Inr k'"
  shows "roles_kept k k'"
proof -
  from res obtain k2 where
    a: "handle_removed_pt_loop E cs pt shared (role_level (role (sp_of k pt))) (sp_gfn (sp_of k pt))
          0 (SPTE_ENT_PER_PAGE E) (tdp_mmu_unlink_sp k pt shared) = Inr k2"
    and b: "roles_kept k2 k'"
    by (auto simp: handle_removed_pt_body_def Let_def roles_kept_def static_call_def
        split: sum.splits prod.splits if_splits)
  from removed_pt_loop_roles [of cs, OF cs a] have "roles_kept (tdp_mmu_unlink_sp k pt shared) k2" .
  with roles_kept_unlink_sp have "roles_kept k k2" by (rule roles_kept_trans)
  then show ?thesis using b by (rule roles_kept_trans)
qed

lemma removed_pt_roles:
  "handle_removed_pt E fuel k pt shared = Inr k' \<Longrightarrow> roles_kept k k'"
proof (induction fuel arbitrary: k pt shared k')
  case 0
  then show ?case by simp
next
  case (Suc fuel)
  have "\<And>k a g ol nw r s k'.
     handle_changed_spte_body E (handle_removed_pt E fuel) k a g ol nw r s = Inr k'
       \<Longrightarrow> roles_kept k k'"
    by (rule changed_spte_body_roles [of "handle_removed_pt E fuel"]) (rule Suc.IH)
  then show ?case
    using Suc.prems by (auto intro: removed_pt_body_roles [of "handle_changed_spte_body E (handle_removed_pt E fuel)"])
qed

lemma changed_spte_roles:
  "handle_changed_spte E fuel k asid g old new r shared = Inr k' \<Longrightarrow> roles_kept k k'"
  unfolding handle_changed_spte_def
  by (rule changed_spte_body_roles [of "handle_removed_pt E fuel"]) (rule removed_pt_roles)


lemma sp_of_raw_set_private_spte_present [simp]:
  "sp_of (fst (raw_set_private_spte_present E k p g old new l)) = sp_of k"
  by (simp add: raw_set_private_spte_present_def private_spte_change_flags_def Let_def
      static_call_def split: prod.splits)

lemma write_spte_sp_of:
  "kvm_tdp_mmu_write_spte E k p old new l = (k', x) \<Longrightarrow> sp_of k' = sp_of k"
  using sp_of_simps(12) [of E k p old new l] by simp

lemma clear_spte_bits_sp_of:
  "tdp_mmu_clear_spte_bits E k p old bits l = (k', x) \<Longrightarrow> sp_of k' = sp_of k"
  using sp_of_simps(13) [of E k p old bits l] by simp

lemma raw_set_private_spte_present_sp_of:
  "raw_set_private_spte_present E k p g old new l = (k', ret) \<Longrightarrow> sp_of k' = sp_of k"
  using sp_of_raw_set_private_spte_present [of E k p g old new l] by simp

lemma set_spte_roles:
  assumes "tdp_mmu_set_spte E fuel k asid p old new g l = Inr (k', x)"
  shows "roles_kept k k'"
  using assms
  by (auto simp: tdp_mmu_set_spte_def Let_def roles_kept_def
      split: sum.splits if_splits prod.splits
      dest!: changed_spte_roles [unfolded roles_kept_def] write_spte_sp_of
             raw_set_private_spte_present_sp_of)

lemma iter_set_spte_roles:
  "tdp_mmu_iter_set_spte E fuel k iter new = Inr (k', iter') \<Longrightarrow> roles_kept k k'"
  by (auto simp: tdp_mmu_iter_set_spte_def split: sum.splits dest: set_spte_roles)

lemma age_gfn_range_roles:
  "age_gfn_range E k iter rng = Inr (k', iter', b) \<Longrightarrow> roles_kept k k'"
  by (auto simp: age_gfn_range_def Let_def roles_kept_def split: if_splits prod.splits
      dest!: write_spte_sp_of clear_spte_bits_sp_of)

lemma test_age_gfn_roles:
  "test_age_gfn E k iter rng = Inr (k', iter', b) \<Longrightarrow> roles_kept k k'"
  by (auto simp: test_age_gfn_def)

lemma set_spte_gfn_roles:
  "set_spte_gfn E fuel k iter rng = Inr (k', iter', b) \<Longrightarrow> roles_kept k k'"
  by (auto simp: set_spte_gfn_def split: if_splits sum.splits
      dest!: iter_set_spte_roles elim: roles_kept_trans)

lemma tdp_pte_loop_roles:
  assumes body: "\<And>acc k iter c acc' k' iter'.
     body acc k iter = Inr (c, acc', k', iter') \<Longrightarrow> roles_kept k k'"
  shows "tdp_pte_loop E end_gfn body n acc k iter = Inr (acc', k', iter') \<Longrightarrow> roles_kept k k'"
proof (induction n arbitrary: acc k iter)
  case 0
  then show ?case by simp
next
  case (Suc n)
  show ?case
  proof (cases "valid iter \<and> iter_gfn iter < end_gfn")
    case False
    with Suc.prems show ?thesis by auto
  next
    case True
    with Suc.prems obtain c acc1 k1 iter1 where
      b: "body acc k iter = Inr (c, acc1, k1, iter1)"
      by (auto split: sum.splits)
    from body [OF b] have r1: "roles_kept k k1" .
    show ?thesis
    proof (cases c)
      case Continue
      with True b Suc.prems
      have "tdp_pte_loop E end_gfn body n acc1 k1 (tdp_iter_next E k1 iter1) = Inr (acc', k', iter')"
        by simp
      from r1 Suc.IH [OF this] show ?thesis by (rule roles_kept_trans)
    next
      case Retry
      with True b Suc.prems
      have "tdp_pte_loop E end_gfn body n acc1 k1 iter1 = Inr (acc', k', iter')"
        by simp
      from r1 Suc.IH [OF this] show ?thesis by (rule roles_kept_trans)
    next
      case Break
      with True b Suc.prems have "k' = k1" by simp
      with r1 show ?thesis by simp
    qed
  qed
qed

lemma handle_gfn_body_roles:
  assumes h: "\<And>k iter rng k' iter' b. handler k iter rng = Inr (k', iter', b) \<Longrightarrow> roles_kept k k'"
  shows "handle_gfn_body E handler rng ret k iter = Inr (c, ret', k', iter') \<Longrightarrow> roles_kept k k'"
  by (auto simp: handle_gfn_body_def split: if_splits sum.splits dest: h)

lemma handle_gfn_walk_roles:
  assumes h: "\<And>k iter rng k' iter' b. handler k iter rng = Inr (k', iter', b) \<Longrightarrow> roles_kept k k'"
    and w: "for_each_tdp_pte_min_level E fuel (handle_gfn_body E handler rng) ret k root minl s e
              = Inr (ret1, k1, iter1)"
  shows "roles_kept k k1"
  using w unfolding for_each_tdp_pte_min_level_def
  by (rule tdp_pte_loop_roles [rotated]) (rule handle_gfn_body_roles [OF h])

lemma filter_roles_kept:
  "roles_kept k k' \<Longrightarrow>
   filter (\<lambda>r. \<not> is_private_sp (sp_of k' r)) rs = filter (\<lambda>r. \<not> is_private_sp (sp_of k r)) rs"
  by (simp add: roles_kept_def is_private_sp_def)

lemma handle_gfn_roots_skip_private:
  assumes h: "\<And>k iter rng k' iter' b. handler k iter rng = Inr (k', iter', b) \<Longrightarrow> roles_kept k k'"
  shows "handle_gfn_roots E fuel handler rng roots k ret =
         handle_gfn_roots E fuel handler rng
           (filter (\<lambda>r. \<not> is_private_sp (sp_of k r)) roots) k ret"
proof (induction roots arbitrary: k ret)
  case Nil
  then show ?case by simp
next
  case (Cons root rest)
  show ?case
  proof (cases "is_private_sp (sp_of k root)")
    case True
    then show ?thesis by (simp add: Cons.IH [of k ret])
  next
    case np: False
    show ?thesis
    proof (cases "kvm_mmu_page_as_id (sp_of k root) \<noteq> range_as_id rng")
      case True
      with np show ?thesis by (simp add: Cons.IH [of k ret])
    next
      case False
      show ?thesis
      proof (cases "for_each_tdp_pte_min_level E fuel (handle_gfn_body E handler rng) ret k root
               PG_LEVEL_4K (kvm_gfn_to_shared k (range_start rng))
               (kvm_gfn_to_shared k (range_end rng))")
        case (Inl e)
        with np False show ?thesis by simp
      next
        case (Inr res)
        obtain ret1 k1 iter1 where res: "res = (ret1, k1, iter1)" by (cases res)
        from Inr res have w: "for_each_tdp_pte_min_level E fuel (handle_gfn_body E handler rng)
               ret k root PG_LEVEL_4K (kvm_gfn_to_shared k (range_start rng))
               (kvm_gfn_to_shared k (range_end rng)) = Inr (ret1, k1, iter1)"
          by simp
        have "roles_kept k k1"
          by (rule handle_gfn_walk_roles [of handler, OF h w])
        then have f: "filter (\<lambda>r. \<not> is_private_sp (sp_of k1 r)) rest =
                      filter (\<lambda>r. \<not> is_private_sp (sp_of k r)) rest"
          by (rule filter_roles_kept)
        from np False Inr res show ?thesis
          by (simp add: Cons.IH [of k1 ret1] f)
      qed
    qed
  qed
qed


section \<open>Theorems: writing an entry that holds no child table\<close>

lemma spte_mem_simps [simp]:
  "spte_mem (fst (static_call E c k)) = spte_mem k"
  "spte_mem (kvm_set_pfn_dirty pfn k) = spte_mem k"
  "spte_mem (kvm_set_pfn_accessed pfn k) = spte_mem k"
  "spte_mem (kvm_update_page_stats l n k) = spte_mem k"
  "spte_mem (kvm_account_pgtable_pages n k) = spte_mem k"
  "spte_mem (kvm_flush_remote_tlbs k) = spte_mem k"
  "spte_mem (kvm_flush_remote_tlbs_gfn g l k) = spte_mem k"
  "spte_mem (call_rcu pt k) = spte_mem k"
  "spte_mem (tdp_unaccount_mmu_page k pt) = spte_mem k"
  "spte_mem (tdp_account_mmu_page k pt) = spte_mem k"
  by (simp_all add: static_call_def kvm_set_pfn_dirty_def
      kvm_set_pfn_accessed_def kvm_update_page_stats_def kvm_account_pgtable_pages_def
      kvm_flush_remote_tlbs_def kvm_flush_remote_tlbs_gfn_def call_rcu_def
      tdp_unaccount_mmu_page_def tdp_account_mmu_page_def Let_def)

lemma spte_mem_handle_private_zapped_spte [simp]:
  "spte_mem (handle_private_zapped_spte E k g old new l) = spte_mem k"
  by (simp add: handle_private_zapped_spte_def Let_def static_call_def split: prod.splits)

lemma spte_mem_handle_removed_private_spte [simp]:
  "spte_mem (handle_removed_private_spte E k g old new l) = spte_mem k"
  by (simp add: handle_removed_private_spte_def Let_def static_call_def split: prod.splits)

lemma spte_mem_handle_changed_spte_stats [simp]:
  "spte_mem (handle_changed_spte_stats E k old new l) = spte_mem k"
  by (simp add: handle_changed_spte_stats_def Let_def)

lemma spte_mem_handle_changed_spte_private_hook [simp]:
  "spte_mem (handle_changed_spte_private_hook E k g old new r shared) = spte_mem k"
  by (simp add: handle_changed_spte_private_hook_def Let_def)

lemma gfn_shared_mask_simps [simp]:
  "gfn_shared_mask (fst (static_call E c k)) = gfn_shared_mask k"
  "gfn_shared_mask (raw_kvm_tdp_mmu_write_spte p v k) = gfn_shared_mask k"
  "gfn_shared_mask (kvm_set_pfn_dirty pfn k) = gfn_shared_mask k"
  "gfn_shared_mask (kvm_set_pfn_accessed pfn k) = gfn_shared_mask k"
  "gfn_shared_mask (kvm_update_page_stats l n k) = gfn_shared_mask k"
  "gfn_shared_mask (kvm_account_pgtable_pages n k) = gfn_shared_mask k"
  "gfn_shared_mask (kvm_flush_remote_tlbs k) = gfn_shared_mask k"
  "gfn_shared_mask (kvm_flush_remote_tlbs_gfn g l k) = gfn_shared_mask k"
  "gfn_shared_mask (call_rcu pt k) = gfn_shared_mask k"
  "gfn_shared_mask (tdp_unaccount_mmu_page k pt) = gfn_shared_mask k"
  "gfn_shared_mask (tdp_account_mmu_page k pt) = gfn_shared_mask k"
  by (simp_all add: static_call_def raw_kvm_tdp_mmu_write_spte_def kvm_set_pfn_dirty_def
      kvm_set_pfn_accessed_def kvm_update_page_stats_def kvm_account_pgtable_pages_def
      kvm_flush_remote_tlbs_def kvm_flush_remote_tlbs_gfn_def call_rcu_def
      tdp_unaccount_mmu_page_def tdp_account_mmu_page_def Let_def)

lemma gfn_shared_mask_handle_private_zapped_spte [simp]:
  "gfn_shared_mask (handle_private_zapped_spte E k g old new l) = gfn_shared_mask k"
  by (simp add: handle_private_zapped_spte_def Let_def static_call_def split: prod.splits)

lemma gfn_shared_mask_handle_removed_private_spte [simp]:
  "gfn_shared_mask (handle_removed_private_spte E k g old new l) = gfn_shared_mask k"
  by (simp add: handle_removed_private_spte_def Let_def static_call_def split: prod.splits)

lemma gfn_shared_mask_handle_changed_spte_stats [simp]:
  "gfn_shared_mask (handle_changed_spte_stats E k old new l) = gfn_shared_mask k"
  by (simp add: handle_changed_spte_stats_def Let_def)

lemma gfn_shared_mask_handle_changed_spte_private_hook [simp]:
  "gfn_shared_mask (handle_changed_spte_private_hook E k g old new r shared) = gfn_shared_mask k"
  by (simp add: handle_changed_spte_private_hook_def Let_def)

text \<open>A change of an entry that held no child table returns, and writes no entry.\<close>

lemma changed_spte_no_child:
  assumes nochild: "\<not> is_shadow_present_pte E old \<or> is_last_spte E old (role_level r)"
    and nobug: "\<not> (is_shadow_present_pte E new \<and> is_last_spte E new (role_level r))"
  shows "\<exists>k'. handle_changed_spte E fuel k asid g old new r shared = Inr k'
              \<and> spte_mem k' = spte_mem k \<and> sp_of k' = sp_of k
              \<and> gfn_shared_mask k' = gfn_shared_mask k"
  using assms
  by (auto simp: handle_changed_spte_def handle_changed_spte_body_def Let_def)


lemma write_spte_current:
  "kvm_tdp_mmu_read_spte k p = old \<Longrightarrow>
   kvm_tdp_mmu_write_spte E k p old new l = (raw_kvm_tdp_mmu_write_spte p new k, old)"
  by (simp add: kvm_tdp_mmu_write_spte_def kvm_tdp_mmu_write_spte_atomic_def)

lemma read_spte_KVM_BUG_ON [simp]:
  "kvm_tdp_mmu_read_spte (KVM_BUG_ON c k) p = kvm_tdp_mmu_read_spte k p"
  by (simp add: kvm_tdp_mmu_read_spte_def)


lemma raw_set_private_spte_present_frame:
  "raw_set_private_spte_present E k p g old new l = (k', ret) \<Longrightarrow>
   spte_mem k' = spte_mem k \<and> sp_of k' = sp_of k \<and> gfn_shared_mask k' = gfn_shared_mask k"
  by (auto simp: raw_set_private_spte_present_def private_spte_change_flags_def Let_def
      static_call_def kvm_flush_remote_tlbs_def KVM_BUG_ON_def
      split: prod.splits if_splits)

text \<open>
  Writing a value that is not a present leaf over an entry that holds no child table,
  through a cursor that is current: the entry holds the new value and no other entry
  changes.
\<close>

lemma set_spte_no_child:
  assumes cur: "kvm_tdp_mmu_read_spte k p = old"
    and nochild: "\<not> is_shadow_present_pte E old \<or> is_last_spte E old l"
    and nobug: "\<not> (is_shadow_present_pte E new \<and> is_last_spte E new l)"
  shows "\<exists>k'. tdp_mmu_set_spte E fuel k asid p old new g l = Inr (k', old)
              \<and> spte_mem k' = (spte_mem k)(fst p := (spte_mem k (fst p))(snd p := new))
              \<and> sp_of k' = sp_of k \<and> gfn_shared_mask k' = gfn_shared_mask k"
proof -
  define k0 where "k0 = KVM_BUG_ON (is_private_sptep k p \<noteq> kvm_is_private_gpa E k (gfn_to_gpa E g)) k"
  define k1 where "k1 = raw_kvm_tdp_mmu_write_spte p new k0"
  define k2 where "k2 = (if is_private_sptep k1 p \<and> \<not> is_removed_spte E new
                          \<and> is_shadow_present_pte E new
                       then (case raw_set_private_spte_present E k1 p g old new l of
                               (k1a, ret) \<Rightarrow> KVM_BUG_ON (ret \<noteq> 0) k1a)
                       else k1)"
  define r where "r = (role (sptep_to_sp k2 p))\<lparr>role_level := l\<rparr>"
  have w: "kvm_tdp_mmu_write_spte E k0 p old new l = (k1, old)"
    unfolding k1_def by (rule write_spte_current) (simp add: k0_def cur)
  have f2: "spte_mem k2 = spte_mem k1 \<and> sp_of k2 = sp_of k1
            \<and> gfn_shared_mask k2 = gfn_shared_mask k1"
    unfolding k2_def
    by (auto split: prod.splits dest: raw_set_private_spte_present_frame)
  have "\<not> is_shadow_present_pte E old \<or> is_last_spte E old (role_level r)"
    using nochild by (simp add: r_def)
  moreover have "\<not> (is_shadow_present_pte E new \<and> is_last_spte E new (role_level r))"
    using nobug by (simp add: r_def)
  ultimately obtain k' where h: "handle_changed_spte E fuel k2 asid g old new r False = Inr k'"
    and m: "spte_mem k' = spte_mem k2" and s: "sp_of k' = sp_of k2"
    and g: "gfn_shared_mask k' = gfn_shared_mask k2"
    using changed_spte_no_child [of E old r new fuel k2 asid g False] by blast
  have "tdp_mmu_set_spte E fuel k asid p old new g l = Inr (k', old)"
    using w h unfolding k0_def r_def k2_def
    by (simp add: tdp_mmu_set_spte_def Let_def)
  moreover have "spte_mem k1 = (spte_mem k)(fst p := (spte_mem k (fst p))(snd p := new))"
    by (simp add: k1_def k0_def raw_kvm_tdp_mmu_write_spte_def)
  moreover have "sp_of k1 = sp_of k" "gfn_shared_mask k1 = gfn_shared_mask k"
    by (simp_all add: k1_def k0_def)
  ultimately show ?thesis using m s g f2 by simp
qed

lemma iter_set_spte_no_child:
  assumes cur: "kvm_tdp_mmu_read_spte k (iter_sptep iter) = iter_old_spte iter"
    and nochild: "\<not> is_shadow_present_pte E (iter_old_spte iter) \<or>
                  is_last_spte E (iter_old_spte iter) (iter_level iter)"
    and nobug: "\<not> (is_shadow_present_pte E new \<and> is_last_spte E new (iter_level iter))"
  shows "\<exists>k'. tdp_mmu_iter_set_spte E fuel k iter new = Inr (k', iter)
              \<and> spte_mem k' = (spte_mem k)(fst (iter_sptep iter) :=
                     (spte_mem k (fst (iter_sptep iter)))(snd (iter_sptep iter) := new))
              \<and> sp_of k' = sp_of k \<and> gfn_shared_mask k' = gfn_shared_mask k"
proof -
  from set_spte_no_child [OF cur nochild nobug, of fuel "iter_as_id iter" "iter_gfn iter"]
  obtain k' where "tdp_mmu_set_spte E fuel k (iter_as_id iter) (iter_sptep iter)
       (iter_old_spte iter) new (iter_gfn iter) (iter_level iter) = Inr (k', iter_old_spte iter)"
    and "spte_mem k' = (spte_mem k)(fst (iter_sptep iter) :=
                     (spte_mem k (fst (iter_sptep iter)))(snd (iter_sptep iter) := new))"
    and "sp_of k' = sp_of k" and "gfn_shared_mask k' = gfn_shared_mask k"
    by blast
  then show ?thesis
    by (simp add: tdp_mmu_iter_set_spte_def)
qed




lemma sp_of_tdp_account_mmu_page [simp]:
  "sp_of (tdp_account_mmu_page k pt) = sp_of k"
  by (simp add: tdp_account_mmu_page_def kvm_account_pgtable_pages_def Let_def)

lemma split_huge_page_fill_closed:
  "split_huge_page_fill E sp h i n k =
     k\<lparr>spte_mem := (spte_mem k)(spt (sp_of k sp) :=
         (\<lambda>j. if i \<le> j \<and> j < i + n then make_huge_page_split_spte E h (role (sp_of k sp)) j
              else spte_mem k (spt (sp_of k sp)) j))\<rparr>"
proof (induction n arbitrary: i k)
  case 0
  show ?case by (cases k) (auto simp: fun_eq_iff)
next
  case (Suc n)
  show ?case
    by (simp add: Suc raw_kvm_tdp_mmu_write_spte_def) (auto simp: fun_eq_iff)
qed

text \<open>
  \<^verbatim>\<open>tdp_mmu_split_huge_page\<close> under the write lock, through a current cursor on an
  entry without a child table: the table \<open>sp\<close> holds the \<open>N\<close> derived entries and the
  parent entry links it.
\<close>

lemma split_huge_page_links:
  assumes cur: "kvm_tdp_mmu_read_spte k (iter_sptep iter) = iter_old_spte iter"
    and other: "spt (sp_of k sp) \<noteq> fst (iter_sptep iter)"
    and nochild: "\<not> is_shadow_present_pte E (iter_old_spte iter) \<or>
                  is_last_spte E (iter_old_spte iter) (iter_level iter)"
    and link: "\<not> (is_shadow_present_pte E (make_nonleaf_spte E (spt (sp_of k sp))) \<and>
                  is_last_spte E (make_nonleaf_spte E (spt (sp_of k sp))) (iter_level iter))"
  shows "\<exists>k'. tdp_mmu_split_huge_page E fuel k iter sp False = Inr (k', iter, 0)
              \<and> spte_mem k' =
                  (spte_mem k)
                    (spt (sp_of k sp) :=
                       (\<lambda>j. if j < SPTE_ENT_PER_PAGE E
                            then make_huge_page_split_spte E (iter_old_spte iter)
                                   (role (sp_of k sp)) j
                            else spte_mem k (spt (sp_of k sp)) j),
                     fst (iter_sptep iter) :=
                       (spte_mem k (fst (iter_sptep iter)))
                         (snd (iter_sptep iter) := make_nonleaf_spte E (spt (sp_of k sp))))
              \<and> sp_of k' = sp_of k \<and> gfn_shared_mask k' = gfn_shared_mask k"
proof -
  define k1 where "k1 = split_huge_page_fill E sp (iter_old_spte iter) 0 (SPTE_ENT_PER_PAGE E) k"
  have m1: "spte_mem k1 = (spte_mem k)(spt (sp_of k sp) :=
                       (\<lambda>j. if j < SPTE_ENT_PER_PAGE E
                            then make_huge_page_split_spte E (iter_old_spte iter)
                                   (role (sp_of k sp)) j
                            else spte_mem k (spt (sp_of k sp)) j))"
    and s1: "sp_of k1 = sp_of k" and g1: "gfn_shared_mask k1 = gfn_shared_mask k"
    by (simp_all add: k1_def split_huge_page_fill_closed)
  have cur1: "kvm_tdp_mmu_read_spte k1 (iter_sptep iter) = iter_old_spte iter"
    using cur other by (simp add: kvm_tdp_mmu_read_spte_def m1)
  have link1: "\<not> (is_shadow_present_pte E (make_nonleaf_spte E (spt (sp_of k1 sp))) \<and>
                  is_last_spte E (make_nonleaf_spte E (spt (sp_of k1 sp))) (iter_level iter))"
    using link by (simp add: s1)
  from iter_set_spte_no_child [OF cur1 nochild link1, of fuel]
  obtain k2 where s: "tdp_mmu_iter_set_spte E fuel k1 iter
                        (make_nonleaf_spte E (spt (sp_of k1 sp))) = Inr (k2, iter)"
    and m2: "spte_mem k2 = (spte_mem k1)(fst (iter_sptep iter) :=
               (spte_mem k1 (fst (iter_sptep iter)))
                 (snd (iter_sptep iter) := make_nonleaf_spte E (spt (sp_of k1 sp))))"
    and s2: "sp_of k2 = sp_of k1" and g2: "gfn_shared_mask k2 = gfn_shared_mask k1"
    by blast
  have "tdp_mmu_split_huge_page E fuel k iter sp False =
          Inr (kvm_update_page_stats (iter_level iter - 1) (int (SPTE_ENT_PER_PAGE E))
                 (tdp_account_mmu_page k2 sp), iter, 0)"
    using s by (simp add: tdp_mmu_split_huge_page_def tdp_mmu_link_sp_def Let_def
                  k1_def [symmetric])
  moreover have "spte_mem k1 (fst (iter_sptep iter)) = spte_mem k (fst (iter_sptep iter))"
    using other by (simp add: m1)
  ultimately show ?thesis
    using m1 m2 s1 s2 g1 g2 by simp
qed


section \<open>Theorems: zapping the leaves of a range\<close>





section \<open>Theorems: merging a private child table\<close>

lemma changed_spte_no_child_frame:
  assumes "\<not> is_shadow_present_pte E old \<or> is_last_spte E old (role_level r)"
    and "handle_changed_spte E fuel k asid g old new r shared = Inr k'"
  shows "spte_mem k' = spte_mem k \<and> sp_of k' = sp_of k
         \<and> gfn_shared_mask k' = gfn_shared_mask k"
  using assms
  by (auto simp: handle_changed_spte_def handle_changed_spte_body_def Let_def
           split: if_splits)

lemma changed_spte_not_present_returns:
  assumes "\<not> is_shadow_present_pte E old"
  shows "\<exists>k'. handle_changed_spte E fuel k asid g old new r shared = Inr k'"
  using assms
  by (auto simp: handle_changed_spte_def handle_changed_spte_body_def Let_def)

lemma try_cmpxchg64_frame:
  assumes "try_cmpxchg64 k p old new = (k', old', ok)"
  shows "(\<forall>a. a \<noteq> fst p \<longrightarrow> spte_mem k' a = spte_mem k a) \<and> sp_of k' = sp_of k
         \<and> gfn_shared_mask k' = gfn_shared_mask k \<and> (ok \<longrightarrow> old' = old)"
  using assms
  by (auto simp: try_cmpxchg64_def raw_kvm_tdp_mmu_write_spte_def split: if_splits)

lemma set_private_spte_present_frame:
  assumes "set_private_spte_present E k p g old new l = (k', ret)"
  shows "(\<forall>a. a \<noteq> fst p \<longrightarrow> spte_mem k' a = spte_mem k a) \<and> sp_of k' = sp_of k
         \<and> gfn_shared_mask k' = gfn_shared_mask k"
proof -
  obtain k1 old1 ok where c: "try_cmpxchg64 k p old (REMOVED_SPTE E) = (k1, old1, ok)"
    by (cases "try_cmpxchg64 k p old (REMOVED_SPTE E)") auto
  note f1 = try_cmpxchg64_frame [OF c]
  show ?thesis
  proof (cases ok)
    case False
    then show ?thesis using assms c f1 by (simp add: set_private_spte_present_def)
  next
    case True
    obtain k2 r where r: "raw_set_private_spte_present E k1 p g old1 new l = (k2, r)"
      by (cases "raw_set_private_spte_present E k1 p g old1 new l") auto
    note f2 = raw_set_private_spte_present_frame [OF r]
    show ?thesis
      using assms c True r f1 f2
      by (auto simp: set_private_spte_present_def raw_kvm_tdp_mmu_write_spte_def
               split: if_splits)
  qed
qed


text \<open>
  \<^verbatim>\<open>tdp_mmu_set_spte_atomic\<close> on an entry that holds no child table writes no entry of
  another table and keeps the cursor on its entry.
\<close>

lemma set_spte_atomic_frame:
  assumes run: "tdp_mmu_set_spte_atomic E fuel k iter new = Inr (k', iter', ret)"
    and nochild: "\<not> is_shadow_present_pte E (iter_old_spte iter) \<or>
                  is_last_spte E (iter_old_spte iter)
                    (role_level (role (sp_of k (fst (iter_sptep iter)))))"
  shows "(\<forall>a. a \<noteq> fst (iter_sptep iter) \<longrightarrow> spte_mem k' a = spte_mem k a)
         \<and> sp_of k' = sp_of k \<and> gfn_shared_mask k' = gfn_shared_mask k
         \<and> iter_sptep iter' = iter_sptep iter"
proof -
  define k0 where "k0 = KVM_BUG_ON (yielded iter) k"
  define x where "x =
           (if is_private_sptep k0 (iter_sptep iter) \<and> \<not> is_removed_spte E new then
              (if is_shadow_present_pte E new then
                 (case set_private_spte_present E k0 (iter_sptep iter) (iter_gfn iter)
                         (iter_old_spte iter) new (iter_level iter) of
                    (k1, ret) \<Rightarrow>
                      if ret \<noteq> 0 then Inl (k1, iter, ret) else Inr (k1, iter, False))
               else
                 (case try_cmpxchg64 k0 (iter_sptep iter) (iter_old_spte iter) (REMOVED_SPTE E) of
                    (k1, old1, ok) \<Rightarrow>
                      if \<not> ok then Inl (k1, iter\<lparr>iter_old_spte := old1\<rparr>, - EBUSY)
                      else Inr (k1, iter\<lparr>iter_old_spte := old1\<rparr>, True)))
            else
              (case try_cmpxchg64 k0 (iter_sptep iter) (iter_old_spte iter) new of
                 (k1, old1, ok) \<Rightarrow>
                   if \<not> ok then Inl (k1, iter\<lparr>iter_old_spte := old1\<rparr>, - EBUSY)
                   else Inr (k1, iter\<lparr>iter_old_spte := old1\<rparr>, False)))"
  have fr: "(\<forall>a. a \<noteq> fst (iter_sptep iter) \<longrightarrow> spte_mem k1 a = spte_mem k a)
            \<and> sp_of k1 = sp_of k \<and> gfn_shared_mask k1 = gfn_shared_mask k
            \<and> iter_sptep iter1 = iter_sptep iter"
    if "x = Inl (k1, iter1, r) \<or> x = Inr (k1, iter1, b)" for k1 iter1 r b
    using that unfolding x_def
    by (auto simp: k0_def split: if_splits prod.splits
             dest!: set_private_spte_present_frame try_cmpxchg64_frame)
  have old: "iter_old_spte iter1 = iter_old_spte iter" if "x = Inr (k1, iter1, b)" for k1 iter1 b
    using that unfolding x_def
    by (auto simp: k0_def split: if_splits prod.splits dest!: try_cmpxchg64_frame)
  have run': "(case x of
           Inl early \<Rightarrow> Inr early
         | Inr (k1, iter1, freezed) \<Rightarrow>
             (case handle_changed_spte E fuel k1 (iter_as_id iter1) (iter_gfn iter1)
                     (iter_old_spte iter1) new (role (sptep_to_sp k1 (iter_sptep iter))) True of
                Inl e \<Rightarrow> Inl e
              | Inr k2 \<Rightarrow>
                  Inr (if freezed then raw_kvm_tdp_mmu_write_spte (iter_sptep iter) new k2 else k2,
                       iter1, 0))) = Inr (k', iter', ret)"
    using run unfolding x_def k0_def tdp_mmu_set_spte_atomic_def Let_def by simp
  show ?thesis
  proof (cases x)
    case (Inl early)
    then show ?thesis using run' fr [of k' iter' ret] by auto
  next
    case (Inr y)
    obtain k1 iter1 freezed where y: "y = (k1, iter1, freezed)" by (cases y) auto
    note f1 = fr [of k1 iter1 0 freezed] old [of k1 iter1 freezed]
    from run' Inr y obtain k2 where
      h: "handle_changed_spte E fuel k1 (iter_as_id iter1) (iter_gfn iter1)
            (iter_old_spte iter1) new (role (sptep_to_sp k1 (iter_sptep iter))) True = Inr k2"
      and k': "k' = (if freezed then raw_kvm_tdp_mmu_write_spte (iter_sptep iter) new k2 else k2)"
      and i': "iter' = iter1"
      by (auto split: sum.splits)
    have "\<not> is_shadow_present_pte E (iter_old_spte iter1) \<or>
          is_last_spte E (iter_old_spte iter1)
            (role_level (role (sptep_to_sp k1 (iter_sptep iter))))"
      using nochild f1 Inr y by (simp add: sptep_to_sp_def)
    from changed_spte_no_child_frame [OF this h]
    show ?thesis
      using f1 Inr y k' i' by (auto simp: raw_kvm_tdp_mmu_write_spte_def)
  qed
qed


text \<open>
  \<^verbatim>\<open>tdp_mmu_set_spte_atomic\<close> installing a present leaf over a non-present entry of a
  private table that is not private-zapped, through a current cursor, when
  \<^verbatim>\<open>set_private_spte\<close> succeeds: the entry holds the new value and the status is 0.
\<close>

lemma set_spte_atomic_populates:
  assumes cur: "kvm_tdp_mmu_read_spte k (iter_sptep iter) = iter_old_spte iter"
    and priv: "is_private_sptep k (iter_sptep iter)"
    and old: "\<not> is_shadow_present_pte E (iter_old_spte iter)"
             "\<not> is_private_zapped_spte E (iter_old_spte iter)"
    and new: "is_shadow_present_pte E new" "is_last_spte E new (iter_level iter)"
             "\<not> is_removed_spte E new"
    and srm_ok: "\<forall>h. srm E h (Set_private_spte (iter_gfn iter) (iter_level iter)
                                 (spte_to_pfn E new)) = 0"
  shows "\<exists>k'. tdp_mmu_set_spte_atomic E fuel k iter new = Inr (k', iter, 0)
              \<and> spte_mem k' = (spte_mem k)(fst (iter_sptep iter) :=
                     (spte_mem k (fst (iter_sptep iter)))(snd (iter_sptep iter) := new))
              \<and> sp_of k' = sp_of k \<and> gfn_shared_mask k' = gfn_shared_mask k"
proof -
  define k0 where "k0 = KVM_BUG_ON (yielded iter) k"
  define k1 where "k1 = raw_kvm_tdp_mmu_write_spte (iter_sptep iter) (REMOVED_SPTE E) k0"
  define k2 where "k2 = fst (static_call E (Set_private_spte (iter_gfn iter) (iter_level iter)
                                 (spte_to_pfn E new)) k1)"
  define k3 where "k3 = raw_kvm_tdp_mmu_write_spte (iter_sptep iter) new k2"
  have c: "try_cmpxchg64 k0 (iter_sptep iter) (iter_old_spte iter) (REMOVED_SPTE E) =
             (k1, iter_old_spte iter, True)"
    using cur by (simp add: try_cmpxchg64_def k0_def k1_def)
  have r: "raw_set_private_spte_present E k1 (iter_sptep iter) (iter_gfn iter)
             (iter_old_spte iter) new (iter_level iter) = (k2, 0)"
    using old new srm_ok
    by (simp add: raw_set_private_spte_present_def Let_def k2_def static_call_def)
  have s: "set_private_spte_present E k0 (iter_sptep iter) (iter_gfn iter)
             (iter_old_spte iter) new (iter_level iter) = (k3, 0)"
    by (simp add: set_private_spte_present_def c r k3_def)
  have m3: "spte_mem k3 = (spte_mem k)(fst (iter_sptep iter) :=
                     (spte_mem k (fst (iter_sptep iter)))(snd (iter_sptep iter) := new))"
    and s3: "sp_of k3 = sp_of k" and g3: "gfn_shared_mask k3 = gfn_shared_mask k"
    by (simp_all add: k3_def k2_def k1_def k0_def raw_kvm_tdp_mmu_write_spte_def
          static_call_def fun_eq_iff)
  from changed_spte_not_present_returns [OF old(1)]
  obtain k4 where h: "handle_changed_spte E fuel k3 (iter_as_id iter) (iter_gfn iter)
            (iter_old_spte iter) new (role (sptep_to_sp k3 (iter_sptep iter))) True = Inr k4"
    by blast
  have f4: "spte_mem k4 = spte_mem k3 \<and> sp_of k4 = sp_of k3
            \<and> gfn_shared_mask k4 = gfn_shared_mask k3"
    using changed_spte_no_child_frame [OF _ h] old(1) by simp
  have p0: "is_private_sptep k0 (iter_sptep iter)"
    using priv by (simp add: is_private_sptep_def sptep_to_sp_def k0_def)
  have "tdp_mmu_set_spte_atomic E fuel k iter new = Inr (k4, iter, 0)"
    using p0 new s h
    by (simp add: tdp_mmu_set_spte_atomic_def Let_def k0_def [symmetric])
  then show ?thesis using m3 s3 g3 f4 by simp
qed

lemma iter_step_side_next:
  assumes "tdp_mmu_iter_step_side E k i ci = (i1, ci1)"
  shows "i1 = i + 1 \<and> fst (iter_sptep ci1) = fst (iter_sptep ci)
         \<and> (i + 1 < SPTE_ENT_PER_PAGE E \<longrightarrow>
              iter_sptep ci1 = (fst (iter_sptep ci), snd (iter_sptep ci) + 1)
              \<and> iter_level ci1 = iter_level ci
              \<and> iter_gfn ci1 = iter_gfn ci + KVM_PAGES_PER_HPAGE E (iter_level ci)
              \<and> iter_old_spte ci1 =
                  spte_mem k (fst (iter_sptep ci)) (snd (iter_sptep ci) + 1))"
  using assms
  by (auto simp: tdp_mmu_iter_step_side_def tdp_iter_step_side_def Let_def
        kvm_tdp_mmu_read_spte_def split: if_splits)

text \<open>
  The loop of \<^verbatim>\<open>tdp_mmu_merge_private_spt\<close> writes no entry outside the child table.
\<close>

lemma merge_loop_frame:
  assumes "merge_private_spt_loop E fuel fault old new child_sp i n k ci ret =
             Inr (k', ci', ret', went_out)"
    and "fst (iter_sptep ci) = pt"
  shows "(\<forall>a. a \<noteq> pt \<longrightarrow> spte_mem k' a = spte_mem k a) \<and> sp_of k' = sp_of k
         \<and> gfn_shared_mask k' = gfn_shared_mask k"
  using assms
proof (induction n arbitrary: i k ci ret)
  case 0
  then show ?case by simp
next
  case (Suc n)
  show ?case
  proof (cases "is_shadow_present_pte E (iter_old_spte ci)")
    case True
    obtain i1 ci1 where st: "tdp_mmu_iter_step_side E k i ci = (i1, ci1)"
      by (cases "tdp_mmu_iter_step_side E k i ci") auto
    from iter_step_side_next [OF st] Suc.prems(2) have "fst (iter_sptep ci1) = pt" by simp
    with Suc.prems(1) True st show ?thesis
      by (auto simp: Let_def dest!: Suc.IH)
  next
    case False
    define child where
      "child = make_huge_page_split_spte E new (role (sp_of k child_sp)) i"
    from Suc.prems(1) False obtain k1 ci1 tmp where
      a: "tdp_mmu_set_spte_atomic E fuel k ci child = Inr (k1, ci1, tmp)"
      by (auto simp: Let_def child_def split: sum.splits)
    have f1: "(\<forall>a. a \<noteq> pt \<longrightarrow> spte_mem k1 a = spte_mem k a) \<and> sp_of k1 = sp_of k
         \<and> gfn_shared_mask k1 = gfn_shared_mask k \<and> fst (iter_sptep ci1) = pt"
      using set_spte_atomic_frame [OF a] False Suc.prems(2) by simp
    obtain i1 ci2 where st: "tdp_mmu_iter_step_side E k1 i ci1 = (i1, ci2)"
      by (cases "tdp_mmu_iter_step_side E k1 i ci1") auto
    from iter_step_side_next [OF st] f1 have p2: "fst (iter_sptep ci2) = pt" by simp
    from Suc.prems(1) False a st
    have "(k' = k1 \<and> went_out) \<or>
          (\<exists>r. merge_private_spt_loop E fuel fault old new child_sp i1 n k1 ci2 r =
                 Inr (k', ci', ret', went_out))"
      by (auto simp: Let_def child_def [symmetric] split: if_splits)
    then show ?thesis
    proof
      assume "k' = k1 \<and> went_out"
      then show ?thesis using f1 by simp
    next
      assume "\<exists>r. merge_private_spt_loop E fuel fault old new child_sp i1 n k1 ci2 r =
                 Inr (k', ci', ret', went_out)"
      then obtain r where "merge_private_spt_loop E fuel fault old new child_sp i1 n k1 ci2 r =
                 Inr (k', ci', ret', went_out)" by blast
      from Suc.IH [OF this p2] f1 show ?thesis by simp
    qed
  qed
qed


lemma step_down_sptep:
  "fst (iter_sptep (tdp_iter_step_down E k iter pt)) = pt"
  by (simp add: tdp_iter_step_down_def tdp_iter_refresh_sptep_def Let_def)

lemma static_call_frame:
  assumes "static_call E c k = (k', r)"
  shows "spte_mem k' = spte_mem k \<and> sp_of k' = sp_of k
         \<and> gfn_shared_mask k' = gfn_shared_mask k \<and> freed_sps k' = freed_sps k
         \<and> r = srm E (srm_calls k) c"
  using assms by (auto simp: static_call_def)

lemma merge_loop_out_ret:
  assumes "merge_private_spt_loop E fuel fault old new child_sp i n k ci ret =
             Inr (k', ci', ret', True)"
  shows "ret' \<noteq> 0"
  using assms
proof (induction n arbitrary: i k ci ret)
  case 0
  then show ?case by simp
next
  case (Suc n)
  then show ?case
    by (auto simp: Let_def split: if_splits sum.splits prod.splits)
qed

lemma all_from_Suc:
  "(\<forall>j. i \<le> j \<and> j < i + Suc n \<and> A j \<longrightarrow> Q j) =
   ((A i \<longrightarrow> Q i) \<and> (\<forall>j. i + 1 \<le> j \<and> j < i + 1 + n \<and> A j \<longrightarrow> Q j))"
proof -
  have "i \<le> j \<longleftrightarrow> j = i \<or> i + 1 \<le> j" for j by auto
  then show ?thesis by auto
qed

text \<open>
  The loop of \<^verbatim>\<open>tdp_mmu_merge_private_spt\<close> over a private child table, from a child
  cursor that is current: a present child is left as it is, a non-present child that
  is not private-zapped is populated when \<^verbatim>\<open>set_private_spte\<close> succeeds. The loop ends
  without \<^verbatim>\<open>goto out\<close>; \<^verbatim>\<open>ret\<close> stays 0 exactly when every present child maps the
  frame \<^verbatim>\<open>spte_to_pfn(new_spte) + i\<close> and is not the child of the faulting frame.
\<close>

lemma merge_loop_runs:
  assumes chd: "child = (\<lambda>j. make_huge_page_split_spte E new (role (sp_of k child_sp)) j)"
    and inv: "0 < n \<Longrightarrow> iter_sptep ci = (pt, i) \<and> iter_level ci = lv
                \<and> iter_gfn ci = base + of_nat i * KVM_PAGES_PER_HPAGE E lv
                \<and> iter_old_spte ci = spte_mem k pt i"
    and bound: "i + n = SPTE_ENT_PER_PAGE E"
    and priv: "is_private_sp (sp_of k pt)"
    and ok: "\<forall>j. i \<le> j \<and> j < i + n \<and> \<not> is_shadow_present_pte E (spte_mem k pt j) \<longrightarrow>
               \<not> is_private_zapped_spte E (spte_mem k pt j)
               \<and> is_shadow_present_pte E (child j) \<and> is_last_spte E (child j) lv
               \<and> \<not> is_removed_spte E (child j)
               \<and> (\<forall>h. srm E h (Set_private_spte (base + of_nat j * KVM_PAGES_PER_HPAGE E lv) lv
                                  (spte_to_pfn E (child j))) = 0)"
  shows "\<exists>k' ci'. merge_private_spt_loop E fuel fault old new child_sp i n k ci ret =
                    Inr (k', ci',
                         if ret \<noteq> 0 then ret
                         else if (\<forall>j. i \<le> j \<and> j < i + n
                                      \<and> is_shadow_present_pte E (spte_mem k pt j) \<longrightarrow>
                                    spte_to_pfn E (spte_mem k pt j) = spte_to_pfn E new + of_nat j
                                    \<and> base + of_nat j * KVM_PAGES_PER_HPAGE E lv
                                        \<noteq> fault_gfn fault)
                         then 0 else - EAGAIN,
                         False)
            \<and> spte_mem k' = (spte_mem k)(pt :=
                 (\<lambda>j. if i \<le> j \<and> j < i + n \<and> \<not> is_shadow_present_pte E (spte_mem k pt j)
                      then child j else spte_mem k pt j))
            \<and> sp_of k' = sp_of k \<and> gfn_shared_mask k' = gfn_shared_mask k"
  using assms
proof (induction n arbitrary: i k ci ret)
  case 0
  show ?case by (auto simp: fun_eq_iff)
next
  case (Suc n)
  let ?P = "KVM_PAGES_PER_HPAGE E lv"
  let ?match = "\<lambda>k j. spte_to_pfn E (spte_mem k pt j) = spte_to_pfn E new + of_nat j
                       \<and> base + of_nat j * ?P \<noteq> fault_gfn fault"
  from Suc.prems(2) have ci: "iter_sptep ci = (pt, i)" "iter_level ci = lv"
    "iter_gfn ci = base + of_nat i * ?P" "iter_old_spte ci = spte_mem k pt i"
    by simp_all
  from Suc.prems(3) have lt: "0 < n \<Longrightarrow> i + 1 < SPTE_ENT_PER_PAGE E" by simp
  show ?case
  proof (cases "is_shadow_present_pte E (spte_mem k pt i)")
    case True
    define ret1 where "ret1 = (if ret \<noteq> 0 then ret else if ?match k i then 0 else - EAGAIN)"
    obtain i1 ci1 where st: "tdp_mmu_iter_step_side E k i ci = (i1, ci1)"
      by (cases "tdp_mmu_iter_step_side E k i ci") auto
    note n1 = iter_step_side_next [OF st]
    have inv1: "0 < n \<Longrightarrow> iter_sptep ci1 = (pt, i + 1) \<and> iter_level ci1 = lv
                \<and> iter_gfn ci1 = base + of_nat (i + 1) * ?P
                \<and> iter_old_spte ci1 = spte_mem k pt (i + 1)"
      using n1 lt ci by (simp add: algebra_simps)
    have ok1: "\<forall>j. i + 1 \<le> j \<and> j < i + 1 + n \<and> \<not> is_shadow_present_pte E (spte_mem k pt j) \<longrightarrow>
               \<not> is_private_zapped_spte E (spte_mem k pt j)
               \<and> is_shadow_present_pte E (child j) \<and> is_last_spte E (child j) lv
               \<and> \<not> is_removed_spte E (child j)
               \<and> (\<forall>h. srm E h (Set_private_spte (base + of_nat j * ?P) lv
                                  (spte_to_pfn E (child j))) = 0)"
      using Suc.prems(5) by auto
    have b1: "i + 1 + n = SPTE_ENT_PER_PAGE E" using Suc.prems(3) by simp
    from Suc.IH [OF Suc.prems(1) inv1 b1 Suc.prems(4) ok1, of ret1]
    obtain k' ci' where
      l: "merge_private_spt_loop E fuel fault old new child_sp (i + 1) n k ci1 ret1 =
            Inr (k', ci',
                 if ret1 \<noteq> 0 then ret1
                 else if (\<forall>j. i + 1 \<le> j \<and> j < i + 1 + n
                              \<and> is_shadow_present_pte E (spte_mem k pt j) \<longrightarrow> ?match k j)
                 then 0 else - EAGAIN, False)"
      and m: "spte_mem k' = (spte_mem k)(pt :=
                 (\<lambda>j. if i + 1 \<le> j \<and> j < i + 1 + n \<and> \<not> is_shadow_present_pte E (spte_mem k pt j)
                      then child j else spte_mem k pt j))"
      and s: "sp_of k' = sp_of k" "gfn_shared_mask k' = gfn_shared_mask k"
      by blast
    have step: "merge_private_spt_loop E fuel fault old new child_sp i (Suc n) k ci ret =
                  merge_private_spt_loop E fuel fault old new child_sp (i + 1) n k ci1 ret1"
      using True st n1 ci by (auto simp: Let_def ret1_def)
    have r: "(if ret1 \<noteq> 0 then ret1
                 else if (\<forall>j. i + 1 \<le> j \<and> j < i + 1 + n
                              \<and> is_shadow_present_pte E (spte_mem k pt j) \<longrightarrow> ?match k j)
                 then 0 else - EAGAIN) =
             (if ret \<noteq> 0 then ret
                 else if (\<forall>j. i \<le> j \<and> j < i + Suc n
                              \<and> is_shadow_present_pte E (spte_mem k pt j) \<longrightarrow> ?match k j)
                 then 0 else - EAGAIN)"
      unfolding all_from_Suc using True by (auto simp: ret1_def EAGAIN_def)
    have m': "spte_mem k' = (spte_mem k)(pt :=
                 (\<lambda>j. if i \<le> j \<and> j < i + Suc n \<and> \<not> is_shadow_present_pte E (spte_mem k pt j)
                      then child j else spte_mem k pt j))"
      unfolding m using True by (auto simp: fun_eq_iff) (metis Suc_leI le_neq_implies_less)
    show ?thesis
      unfolding step l r using m' s by (simp add: fun_eq_iff)
  next
    case False
    from Suc.prems(5) False have f: "\<not> is_private_zapped_spte E (spte_mem k pt i)"
      "is_shadow_present_pte E (child i)" "is_last_spte E (child i) lv"
      "\<not> is_removed_spte E (child i)"
      "\<forall>h. srm E h (Set_private_spte (base + of_nat i * ?P) lv (spte_to_pfn E (child i))) = 0"
      by auto
    have "\<exists>k1. tdp_mmu_set_spte_atomic E fuel k ci (child i) = Inr (k1, ci, 0)
              \<and> spte_mem k1 = (spte_mem k)(fst (iter_sptep ci) :=
                     (spte_mem k (fst (iter_sptep ci)))(snd (iter_sptep ci) := child i))
              \<and> sp_of k1 = sp_of k \<and> gfn_shared_mask k1 = gfn_shared_mask k"
      using False f Suc.prems(4)
      by (intro set_spte_atomic_populates)
         (simp_all add: ci kvm_tdp_mmu_read_spte_def is_private_sptep_def sptep_to_sp_def)
    then obtain k1 where
      a: "tdp_mmu_set_spte_atomic E fuel k ci (child i) = Inr (k1, ci, 0)"
      and m1: "spte_mem k1 = (spte_mem k)(pt := (spte_mem k pt)(i := child i))"
      and s1: "sp_of k1 = sp_of k" "gfn_shared_mask k1 = gfn_shared_mask k"
      by (auto simp: ci)
    obtain i1 ci1 where st: "tdp_mmu_iter_step_side E k1 i ci = (i1, ci1)"
      by (cases "tdp_mmu_iter_step_side E k1 i ci") auto
    note n1 = iter_step_side_next [OF st]
    have inv1: "0 < n \<Longrightarrow> iter_sptep ci1 = (pt, i + 1) \<and> iter_level ci1 = lv
                \<and> iter_gfn ci1 = base + of_nat (i + 1) * ?P
                \<and> iter_old_spte ci1 = spte_mem k1 pt (i + 1)"
      using n1 lt ci by (simp add: algebra_simps)
    have later: "i + 1 \<le> j \<Longrightarrow> spte_mem k1 pt j = spte_mem k pt j" for j
      by (simp add: m1)
    have ok1: "\<forall>j. i + 1 \<le> j \<and> j < i + 1 + n \<and> \<not> is_shadow_present_pte E (spte_mem k1 pt j) \<longrightarrow>
               \<not> is_private_zapped_spte E (spte_mem k1 pt j)
               \<and> is_shadow_present_pte E (child j) \<and> is_last_spte E (child j) lv
               \<and> \<not> is_removed_spte E (child j)
               \<and> (\<forall>h. srm E h (Set_private_spte (base + of_nat j * ?P) lv
                                  (spte_to_pfn E (child j))) = 0)"
      using Suc.prems(5) later by auto
    have chd1: "child = (\<lambda>j. make_huge_page_split_spte E new (role (sp_of k1 child_sp)) j)"
      using Suc.prems(1) s1 by simp
    have priv1: "is_private_sp (sp_of k1 pt)" using Suc.prems(4) s1 by simp
    have b1: "i + 1 + n = SPTE_ENT_PER_PAGE E" using Suc.prems(3) by simp
    from Suc.IH [OF chd1 inv1 b1 priv1 ok1, of ret]
    obtain k' ci' where
      l: "merge_private_spt_loop E fuel fault old new child_sp (i + 1) n k1 ci1 ret =
            Inr (k', ci',
                 if ret \<noteq> 0 then ret
                 else if (\<forall>j. i + 1 \<le> j \<and> j < i + 1 + n
                              \<and> is_shadow_present_pte E (spte_mem k1 pt j) \<longrightarrow> ?match k1 j)
                 then 0 else - EAGAIN, False)"
      and m: "spte_mem k' = (spte_mem k1)(pt :=
                 (\<lambda>j. if i + 1 \<le> j \<and> j < i + 1 + n \<and> \<not> is_shadow_present_pte E (spte_mem k1 pt j)
                      then child j else spte_mem k1 pt j))"
      and s: "sp_of k' = sp_of k1" "gfn_shared_mask k' = gfn_shared_mask k1"
      by blast
    have step: "merge_private_spt_loop E fuel fault old new child_sp i (Suc n) k ci ret =
                  merge_private_spt_loop E fuel fault old new child_sp (i + 1) n k1 ci1 ret"
      using False st n1 ci a Suc.prems(1)
      by (auto simp: Let_def EBUSY_def EAGAIN_def)
    have r: "(\<forall>j. i + 1 \<le> j \<and> j < i + 1 + n
                              \<and> is_shadow_present_pte E (spte_mem k1 pt j) \<longrightarrow> ?match k1 j) =
             (\<forall>j. i \<le> j \<and> j < i + Suc n
                              \<and> is_shadow_present_pte E (spte_mem k pt j) \<longrightarrow> ?match k j)"
      unfolding all_from_Suc using False later by auto
    have m': "spte_mem k' = (spte_mem k)(pt :=
                 (\<lambda>j. if i \<le> j \<and> j < i + Suc n \<and> \<not> is_shadow_present_pte E (spte_mem k pt j)
                      then child j else spte_mem k pt j))"
      unfolding m m1 using False by (auto simp: fun_eq_iff)
    show ?thesis
      unfolding step l r using m' s s1 by (simp add: fun_eq_iff)
  qed
qed


text \<open>
  The loop as \<^verbatim>\<open>tdp_mmu_merge_private_spt\<close> runs it: the parent entry is frozen and the
  child cursor has stepped down to the first child.
\<close>

lemma merge_loop_at:
  assumes child: "spte_to_child_pt E (iter_old_spte iter) (iter_level iter) = Some pt"
    and other: "pt \<noteq> fst (iter_sptep iter)"
    and base: "base = gfn_round_for_level E
                        (next_last_level_gfn iter AND - KVM_PAGES_PER_HPAGE E (iter_level iter))
                        (iter_level iter - 1)"
    and idx0: "SPTE_INDEX E base (iter_level iter - 1) = 0"
    and chd: "child = (\<lambda>j. make_huge_page_split_spte E new_spte (role (sp_of k pt)) j)"
    and priv: "is_private_sp (sp_of k pt)"
    and ok: "\<forall>j. j < SPTE_ENT_PER_PAGE E \<and> \<not> is_shadow_present_pte E (spte_mem k pt j) \<longrightarrow>
               \<not> is_private_zapped_spte E (spte_mem k pt j)
               \<and> is_shadow_present_pte E (child j)
               \<and> is_last_spte E (child j) (iter_level iter - 1)
               \<and> \<not> is_removed_spte E (child j)
               \<and> (\<forall>h. srm E h (Set_private_spte
                                   (base + of_nat j * KVM_PAGES_PER_HPAGE E (iter_level iter - 1))
                                   (iter_level iter - 1) (spte_to_pfn E (child j))) = 0)"
    and k1: "k1 = raw_kvm_tdp_mmu_write_spte (iter_sptep iter) (REMOVED_SPTE E) k"
    and ci: "ci = tdp_iter_step_down E k1
                    (iter\<lparr>next_last_level_gfn :=
                             next_last_level_gfn iter
                               AND - KVM_PAGES_PER_HPAGE E (iter_level iter)\<rparr>) pt"
  shows "\<exists>k2 ci'. merge_private_spt_loop E fuel fault old new_spte pt 0 (SPTE_ENT_PER_PAGE E)
                      k1 ci 0 =
                    Inr (k2, ci',
                         if (\<forall>j. j < SPTE_ENT_PER_PAGE E
                                  \<and> is_shadow_present_pte E (spte_mem k pt j) \<longrightarrow>
                                spte_to_pfn E (spte_mem k pt j) = spte_to_pfn E new_spte + of_nat j
                                \<and> base + of_nat j * KVM_PAGES_PER_HPAGE E (iter_level iter - 1)
                                    \<noteq> fault_gfn fault)
                         then 0 else - EAGAIN,
                         False)
            \<and> (\<forall>a. a \<noteq> pt \<longrightarrow> spte_mem k2 a = spte_mem k1 a)
            \<and> spte_mem k2 pt =
                (\<lambda>j. if j < SPTE_ENT_PER_PAGE E \<and> \<not> is_shadow_present_pte E (spte_mem k pt j)
                     then child j else spte_mem k pt j)
            \<and> sp_of k2 = sp_of k"
proof -
  have m1: "spte_mem k1 pt = spte_mem k pt" and s1: "sp_of k1 = sp_of k"
    using other by (simp_all add: k1 raw_kvm_tdp_mmu_write_spte_def)
  have inv: "0 < SPTE_ENT_PER_PAGE E \<Longrightarrow> iter_sptep ci = (pt, 0)
                \<and> iter_level ci = iter_level iter - 1
                \<and> iter_gfn ci = base + of_nat 0 * KVM_PAGES_PER_HPAGE E (iter_level iter - 1)
                \<and> iter_old_spte ci = spte_mem k1 pt 0"
    using idx0
    by (simp add: ci base tdp_iter_step_down_def tdp_iter_refresh_sptep_def Let_def
          kvm_tdp_mmu_read_spte_def)
  have chd1: "child = (\<lambda>j. make_huge_page_split_spte E new_spte (role (sp_of k1 pt)) j)"
    using chd s1 by simp
  have priv1: "is_private_sp (sp_of k1 pt)" using priv s1 by simp
  have ok1: "\<forall>j. 0 \<le> j \<and> j < 0 + SPTE_ENT_PER_PAGE E
                \<and> \<not> is_shadow_present_pte E (spte_mem k1 pt j) \<longrightarrow>
               \<not> is_private_zapped_spte E (spte_mem k1 pt j)
               \<and> is_shadow_present_pte E (child j)
               \<and> is_last_spte E (child j) (iter_level iter - 1)
               \<and> \<not> is_removed_spte E (child j)
               \<and> (\<forall>h. srm E h (Set_private_spte
                                   (base + of_nat j * KVM_PAGES_PER_HPAGE E (iter_level iter - 1))
                                   (iter_level iter - 1) (spte_to_pfn E (child j))) = 0)"
    using ok by (simp add: m1)
  from merge_loop_runs [OF chd1 inv _ priv1 ok1, of fuel fault old 0]
  obtain k2 ci' where
    l: "merge_private_spt_loop E fuel fault old new_spte pt 0 (SPTE_ENT_PER_PAGE E) k1 ci 0 =
          Inr (k2, ci',
               if (0::int) \<noteq> 0 then 0
               else if (\<forall>j. 0 \<le> j \<and> j < 0 + SPTE_ENT_PER_PAGE E
                            \<and> is_shadow_present_pte E (spte_mem k1 pt j) \<longrightarrow>
                          spte_to_pfn E (spte_mem k1 pt j) = spte_to_pfn E new_spte + of_nat j
                          \<and> base + of_nat j * KVM_PAGES_PER_HPAGE E (iter_level iter - 1)
                              \<noteq> fault_gfn fault)
               then 0 else - EAGAIN, False)"
    and m: "spte_mem k2 = (spte_mem k1)(pt :=
                 (\<lambda>j. if 0 \<le> j \<and> j < 0 + SPTE_ENT_PER_PAGE E
                          \<and> \<not> is_shadow_present_pte E (spte_mem k1 pt j)
                      then child j else spte_mem k1 pt j))"
    and s: "sp_of k2 = sp_of k1"
    by auto
  have "spte_mem k2 pt =
          (\<lambda>j. if j < SPTE_ENT_PER_PAGE E \<and> \<not> is_shadow_present_pte E (spte_mem k pt j)
               then child j else spte_mem k pt j)"
    by (simp add: m m1 fun_eq_iff)
  then show ?thesis
    using l m s s1 by (simp add: m1)
qed


text \<open>
  \<^verbatim>\<open>tdp_mmu_merge_private_spt\<close> through a current cursor on the link to a private child
  table that is ready for the loop. If \<^verbatim>\<open>ret\<close> is not 0 after the loop the parent
  entry gets its old value back; if it is 0 and the manager zaps and merges, the entry
  is \<^verbatim>\<open>new_spte\<close>, the child page is freed and the status is \<^verbatim>\<open>-EAGAIN\<close>; if the
  manager zaps but does not merge, the entry is the old value when the unzap succeeds
  and \<^verbatim>\<open>__private_zapped_spte(old_spte)\<close> when it fails.
\<close>

lemma merge_private_spt_runs:
  assumes cur: "kvm_tdp_mmu_read_spte k (iter_sptep iter) = iter_old_spte iter"
    and child: "spte_to_child_pt E (iter_old_spte iter) (iter_level iter) = Some pt"
    and other: "pt \<noteq> fst (iter_sptep iter)"
    and base: "base = gfn_round_for_level E
                        (next_last_level_gfn iter AND - KVM_PAGES_PER_HPAGE E (iter_level iter))
                        (iter_level iter - 1)"
    and idx0: "SPTE_INDEX E base (iter_level iter - 1) = 0"
    and chd: "child = (\<lambda>j. make_huge_page_split_spte E new_spte (role (sp_of k pt)) j)"
    and priv: "is_private_sp (sp_of k pt)"
    and ok: "\<forall>j. j < SPTE_ENT_PER_PAGE E \<and> \<not> is_shadow_present_pte E (spte_mem k pt j) \<longrightarrow>
               \<not> is_private_zapped_spte E (spte_mem k pt j)
               \<and> is_shadow_present_pte E (child j)
               \<and> is_last_spte E (child j) (iter_level iter - 1)
               \<and> \<not> is_removed_spte E (child j)
               \<and> (\<forall>h. srm E h (Set_private_spte
                                   (base + of_nat j * KVM_PAGES_PER_HPAGE E (iter_level iter - 1))
                                   (iter_level iter - 1) (spte_to_pfn E (child j))) = 0)"
    and R: "R = (if (\<forall>j. j < SPTE_ENT_PER_PAGE E
                         \<and> is_shadow_present_pte E (spte_mem k pt j) \<longrightarrow>
                       spte_to_pfn E (spte_mem k pt j) = spte_to_pfn E new_spte + of_nat j
                       \<and> base + of_nat j * KVM_PAGES_PER_HPAGE E (iter_level iter - 1)
                           \<noteq> fault_gfn fault)
                 then 0 else - EAGAIN)"
    and C: "C = (\<lambda>j. if j < SPTE_ENT_PER_PAGE E \<and> \<not> is_shadow_present_pte E (spte_mem k pt j)
                     then child j else spte_mem k pt j)"
  shows "(R \<noteq> 0 \<longrightarrow>
            (\<exists>k'. tdp_mmu_merge_private_spt E fuel k fault iter new_spte = Inr (k', iter, R)
                \<and> kvm_tdp_mmu_read_spte k' (iter_sptep iter) = iter_old_spte iter
                \<and> spte_mem k' pt = C))
       \<and> (R = 0 \<and> (\<forall>h. srm E h (Zap_private_spte (iter_gfn iter) (iter_level iter)) = 0)
          \<and> (\<forall>h. srm E h (Merge_private_spt (iter_gfn iter) (iter_level iter)
                             (kvm_mmu_private_spt (sp_of k pt))) = 0) \<longrightarrow>
            (\<exists>k'. tdp_mmu_merge_private_spt E fuel k fault iter new_spte =
                     Inr (k', iter\<lparr>iter_old_spte := new_spte\<rparr>, - EAGAIN)
                \<and> kvm_tdp_mmu_read_spte k' (iter_sptep iter) = new_spte
                \<and> pt \<in> set (freed_sps k')))
       \<and> (R = 0 \<and> (\<forall>h. srm E h (Zap_private_spte (iter_gfn iter) (iter_level iter)) = 0)
          \<and> (\<forall>h. srm E h (Merge_private_spt (iter_gfn iter) (iter_level iter)
                             (kvm_mmu_private_spt (sp_of k pt))) = e) \<and> e \<noteq> 0
          \<and> (\<forall>h. srm E h (Unzap_private_spte (iter_gfn iter) (iter_level iter)) = u) \<longrightarrow>
            (\<exists>k'. tdp_mmu_merge_private_spt E fuel k fault iter new_spte =
                     Inr (k', iter\<lparr>iter_old_spte :=
                                      if u \<noteq> 0 then raw_private_zapped_spte E (iter_old_spte iter)
                                      else iter_old_spte iter\<rparr>, e)
                \<and> kvm_tdp_mmu_read_spte k' (iter_sptep iter) =
                    (if u \<noteq> 0 then raw_private_zapped_spte E (iter_old_spte iter)
                     else iter_old_spte iter)
                \<and> spte_mem k' pt = C))"
proof -
  define k1 where "k1 = raw_kvm_tdp_mmu_write_spte (iter_sptep iter) (REMOVED_SPTE E) k"
  define ci where "ci = tdp_iter_step_down E k1
                          (iter\<lparr>next_last_level_gfn :=
                                   next_last_level_gfn iter
                                     AND - KVM_PAGES_PER_HPAGE E (iter_level iter)\<rparr>) pt"
  have c: "try_cmpxchg64 k (iter_sptep iter) (iter_old_spte iter) (REMOVED_SPTE E) =
             (k1, iter_old_spte iter, True)"
    using cur by (simp add: try_cmpxchg64_def k1_def)
  from merge_loop_at [OF child other base idx0 chd priv ok k1_def ci_def,
         of fuel fault "iter_old_spte iter"]
  obtain k2 ci' where
    loop: "merge_private_spt_loop E fuel fault (iter_old_spte iter) new_spte pt 0
             (SPTE_ENT_PER_PAGE E) k1 ci 0 = Inr (k2, ci', R, False)"
    and m2: "spte_mem k2 pt = C"
    and s2: "sp_of k2 = sp_of k"
    unfolding R C by blast
  have wr: "spte_mem (raw_kvm_tdp_mmu_write_spte (iter_sptep iter) v kk) pt = spte_mem kk pt"
    for v kk
    using other by (simp add: raw_kvm_tdp_mmu_write_spte_def)
  have rd: "kvm_tdp_mmu_read_spte (raw_kvm_tdp_mmu_write_spte (iter_sptep iter) v kk)
              (iter_sptep iter) = v" for v kk
    by (simp add: kvm_tdp_mmu_read_spte_def raw_kvm_tdp_mmu_write_spte_def)
  have unf: "tdp_mmu_merge_private_spt E fuel k fault iter new_spte =
      (if R \<noteq> 0
       then Inr (merge_private_spt_out k2 iter (iter_sptep iter) (iter_old_spte iter) R)
       else
         (case static_call E (Zap_private_spte (iter_gfn iter) (iter_level iter)) k2 of
            (k3, ret1) \<Rightarrow>
              if ret1 \<noteq> 0
              then Inr (merge_private_spt_out k3 iter (iter_sptep iter) (iter_old_spte iter) ret1)
              else
                let k4 = kvm_flush_remote_tlbs_range
                           (iter_gfn iter AND KVM_HPAGE_GFN_MASK E (iter_level iter))
                           (KVM_PAGES_PER_HPAGE E (iter_level iter)) k3
                in case static_call E
                          (Merge_private_spt (iter_gfn iter) (iter_level iter)
                             (kvm_mmu_private_spt (sp_of k4 pt))) k4 of
                     (k5, ret2) \<Rightarrow>
                       if ret2 \<noteq> 0 then
                         (case static_call E (Unzap_private_spte (iter_gfn iter)
                                                (iter_level iter)) k5 of
                            (k6, ret3) \<Rightarrow>
                              Inr (merge_private_spt_out k6 iter (iter_sptep iter)
                                     (if ret3 \<noteq> 0
                                      then raw_private_zapped_spte E (iter_old_spte iter)
                                      else iter_old_spte iter) ret2))
                       else
                         Inr (tdp_mmu_free_sp pt
                                (tdp_unaccount_mmu_page
                                   (raw_kvm_tdp_mmu_write_spte (iter_sptep iter) new_spte k5) pt),
                              iter\<lparr>iter_old_spte := new_spte\<rparr>, - EAGAIN)))"
    using c child loop
    by (simp add: tdp_mmu_merge_private_spt_def Let_def ci_def [symmetric]
          split: prod.splits cong: if_cong)
  have s4: "sp_of (kvm_flush_remote_tlbs_range a b (fst (static_call E cc k2))) pt = sp_of k pt"
    for a b cc
    by (simp add: kvm_flush_remote_tlbs_range_def static_call_def s2)
  show ?thesis
  proof (intro conjI impI)
    assume "R \<noteq> 0"
    then show "\<exists>k'. tdp_mmu_merge_private_spt E fuel k fault iter new_spte = Inr (k', iter, R)
                \<and> kvm_tdp_mmu_read_spte k' (iter_sptep iter) = iter_old_spte iter
                \<and> spte_mem k' pt = C"
      unfolding unf by (simp add: merge_private_spt_out_def rd wr m2)
  next
    assume a: "R = 0 \<and> (\<forall>h. srm E h (Zap_private_spte (iter_gfn iter) (iter_level iter)) = 0)
          \<and> (\<forall>h. srm E h (Merge_private_spt (iter_gfn iter) (iter_level iter)
                             (kvm_mmu_private_spt (sp_of k pt))) = 0)"
    then show "\<exists>k'. tdp_mmu_merge_private_spt E fuel k fault iter new_spte =
                     Inr (k', iter\<lparr>iter_old_spte := new_spte\<rparr>, - EAGAIN)
                \<and> kvm_tdp_mmu_read_spte k' (iter_sptep iter) = new_spte
                \<and> pt \<in> set (freed_sps k')"
      unfolding unf using s4
      by (simp add: static_call_def Let_def tdp_mmu_free_sp_def tdp_unaccount_mmu_page_def
            kvm_account_pgtable_pages_def kvm_tdp_mmu_read_spte_def
            raw_kvm_tdp_mmu_write_spte_def kvm_flush_remote_tlbs_range_def s2)
  next
    assume a: "R = 0 \<and> (\<forall>h. srm E h (Zap_private_spte (iter_gfn iter) (iter_level iter)) = 0)
          \<and> (\<forall>h. srm E h (Merge_private_spt (iter_gfn iter) (iter_level iter)
                             (kvm_mmu_private_spt (sp_of k pt))) = e) \<and> e \<noteq> 0
          \<and> (\<forall>h. srm E h (Unzap_private_spte (iter_gfn iter) (iter_level iter)) = u)"
    then show "\<exists>k'. tdp_mmu_merge_private_spt E fuel k fault iter new_spte =
                     Inr (k', iter\<lparr>iter_old_spte :=
                                      if u \<noteq> 0 then raw_private_zapped_spte E (iter_old_spte iter)
                                      else iter_old_spte iter\<rparr>, e)
                \<and> kvm_tdp_mmu_read_spte k' (iter_sptep iter) =
                    (if u \<noteq> 0 then raw_private_zapped_spte E (iter_old_spte iter)
                     else iter_old_spte iter)
                \<and> spte_mem k' pt = C"
      unfolding unf
      by (simp add: static_call_def Let_def merge_private_spt_out_def rd wr m2
            kvm_flush_remote_tlbs_range_def s2)
  qed
qed

lemma child_val_present:
  "(((0x400881 :: 64 word) OR push_bit 12 w) AND NOT 0x80) AND 0x800 \<noteq> 0"
proof -
  have "bit ((((0x400881 :: 64 word) OR push_bit 12 w) AND NOT 0x80) AND 0x800) 11"
    by (simp add: bit_simps)
  then show ?thesis by (auto simp del: bit_and_iff)
qed

lemma child_val_pfn:
  assumes "j < 512"
  shows "drop_bit 12 ((((0x400881 :: 64 word) OR push_bit 12 (of_nat j)) AND NOT 0x80)
                      AND 0xFFFFFFFFFF000) = 0x400 + of_nat j"
proof -
  define w :: "64 word" where "w = of_nat j"
  have w: "w = take_bit 9 w"
    unfolding w_def using assms by (simp add: take_bit_of_nat take_bit_nat_eq_self)
  have n1: "(0x400881 :: 64 word) = 2^22 OR 2^11 OR 2^7 OR 1" by simp
  have n2: "(0x80 :: 64 word) = 2^7" by simp
  have n3: "(0xFFFFFFFFFF000 :: 64 word) = push_bit 12 (mask 40)"
    by (simp add: mask_eq_exp_minus_1 push_bit_eq_mult)
  have n4: "(0x400 :: 64 word) = 2^10" by simp
  have a: "0x400 + take_bit 9 w = 0x400 OR take_bit 9 w"
    unfolding n4 by (rule disjunctive_add) (simp only: bit_simps, auto)
  have "drop_bit 12 ((((0x400881 :: 64 word) OR push_bit 12 (take_bit 9 w)) AND NOT 0x80)
                      AND 0xFFFFFFFFFF000) = 0x400 OR take_bit 9 w"
    unfolding n1 n2 n3 n4
    by (rule bit_eqI) (simp only: bit_simps comp_def, auto)
  then show ?thesis
    using a w w_def by simp
qed

lemma ex_child_spte:
  assumes "E = ex_env\<lparr>srm := f\<rparr>"
  shows "make_huge_page_split_spte E 0x400881 ex_child_role j =
           (0x400881 OR push_bit 12 (of_nat j)) AND NOT 0x80"
  by (simp add: assms ex_env_def ex_child_role_def ex_role_def)

lemma ex_child_facts:
  assumes "E = ex_env\<lparr>srm := f\<rparr>"
  shows "is_shadow_present_pte E (make_huge_page_split_spte E 0x400881 ex_child_role j)"
    and "is_last_spte E (make_huge_page_split_spte E 0x400881 ex_child_role j) 1"
    and "\<not> is_removed_spte E (make_huge_page_split_spte E 0x400881 ex_child_role j)"
    and "j < 512 \<Longrightarrow>
         spte_to_pfn E (make_huge_page_split_spte E 0x400881 ex_child_role j) = 0x400 + of_nat j"
proof -
  let ?c = "((0x400881 :: 64 word) OR push_bit 12 (of_nat j)) AND NOT 0x80"
  note c = ex_child_spte [OF assms, of j]
  have f: "is_shadow_present_pte E = (\<lambda>x. x AND 0x800 \<noteq> 0)"
    "is_last_spte E = (\<lambda>x l. l = 1 \<or> x AND 0x80 \<noteq> 0)"
    "is_removed_spte E = (\<lambda>x. x = 0x80000000000005A0)"
    "spte_to_pfn E = (\<lambda>x. drop_bit 12 (x AND 0xFFFFFFFFFF000))"
    by (simp_all add: assms ex_env_def)
  show "is_shadow_present_pte E (make_huge_page_split_spte E 0x400881 ex_child_role j)"
    unfolding c f by (rule child_val_present)
  show "is_last_spte E (make_huge_page_split_spte E 0x400881 ex_child_role j) 1"
    unfolding f by simp
  have "bit ?c 0" by (simp add: bit_simps)
  moreover have "\<not> bit (0x80000000000005A0 :: 64 word) 0" by simp
  ultimately have "?c \<noteq> 0x80000000000005A0" by metis
  then show "\<not> is_removed_spte E (make_huge_page_split_spte E 0x400881 ex_child_role j)"
    unfolding c f by simp
  show "spte_to_pfn E (make_huge_page_split_spte E 0x400881 ex_child_role j) = 0x400 + of_nat j"
    if "j < 512"
    unfolding c f by (rule child_val_pfn [OF that])
qed


lemma split_kvm_facts:
  "sp_of split_kvm 0x100000 = ex_child_sp"
  "spte_mem split_kvm 0x1000 (Suc 0) = 0x100907"
  "spte_mem split_kvm 0x100000 =
     (\<lambda>i. if i < 512 \<and> i \<noteq> 5 then make_huge_page_split_spte ex_env 0x400881 ex_child_role i
          else 0)"
  by (simp_all add: split_kvm_def huge_child_kvm_def huge_kvm_def fun_eq_iff)

lemma link_iter_facts:
  "iter_sptep link_iter = (0x1000, 1)" "iter_old_spte link_iter = 0x100907"
  "iter_level link_iter = 2" "iter_gfn link_iter = 0x200"
  "next_last_level_gfn link_iter = 0x200"
  by (simp_all add: link_iter_def huge_iter_def ex_iter_def)

text \<open>
  The guest \<open>split_kvm\<close>, a fault on its frame \<open>0x205\<close>, and a manager that sets and
  zaps but answers the merge with \<open>e\<close> and the unzap with \<open>u\<close>.
\<close>

lemma split_kvm_merge_fails:
  assumes E: "E = ex_env\<lparr>srm := f\<rparr>"
    and set_ok: "\<forall>h g l pfn. f h (Set_private_spte g l pfn) = 0"
    and zap_ok: "\<forall>h g l. f h (Zap_private_spte g l) = 0"
    and merge_fail: "\<forall>h g l p. f h (Merge_private_spt g l p) = e" "e \<noteq> 0"
    and unzap: "\<forall>h g l. f h (Unzap_private_spte g l) = u"
  shows "\<exists>k'. tdp_mmu_merge_private_spt E fuel split_kvm fault_in link_iter 0x400881 =
                 Inr (k', link_iter\<lparr>iter_old_spte :=
                                       if u \<noteq> 0 then 0xC000000000100000 else 0x100907\<rparr>, e)
            \<and> kvm_tdp_mmu_read_spte k' (0x1000, 1) =
                (if u \<noteq> 0 then 0xC000000000100000 else 0x100907)
            \<and> spte_mem k' 0x100000 =
                (\<lambda>j. if j < 512 then make_huge_page_split_spte ex_env 0x400881 ex_child_role j
                     else 0)"
proof -
  define child where
    "child = (\<lambda>j. make_huge_page_split_spte E 0x400881 (role (sp_of split_kvm 0x100000)) j)"
  have env: "is_shadow_present_pte E = (\<lambda>x. x AND 0x800 \<noteq> 0)"
    "is_last_spte E = (\<lambda>x l. l = 1 \<or> x AND 0x80 \<noteq> 0)"
    "spte_to_pfn E = (\<lambda>x. drop_bit 12 (x AND 0xFFFFFFFFFF000))"
    "is_private_zapped_spte E = (\<lambda>x. x AND 0x4000000000000000 \<noteq> 0)"
    "SPTE_ENT_PER_PAGE E = 512" "PAGE_SHIFT E = 12" "srm E = f"
    "make_huge_page_split_spte E = make_huge_page_split_spte ex_env"
    by (simp_all add: E ex_env_def)
  have role: "role (sp_of split_kvm 0x100000) = ex_child_role"
    by (simp add: split_kvm_facts ex_child_sp_def)
  have ch: "child = (\<lambda>j. make_huge_page_split_spte E 0x400881 ex_child_role j)"
    by (simp add: child_def role)
  have pages: "KVM_PAGES_PER_HPAGE E 2 = 0x200" "KVM_PAGES_PER_HPAGE E (Suc 0) = 1"
    by (simp_all add: KVM_PAGES_PER_HPAGE_def env)
  have cur: "kvm_tdp_mmu_read_spte split_kvm (iter_sptep link_iter) = iter_old_spte link_iter"
    by (simp add: kvm_tdp_mmu_read_spte_def link_iter_facts split_kvm_facts)
  have childpt: "spte_to_child_pt E (iter_old_spte link_iter) (iter_level link_iter) =
                   Some 0x100000"
    by (simp add: spte_to_child_pt_def link_iter_facts env)
  have other: "(0x100000 :: 64 word) \<noteq> fst (iter_sptep link_iter)"
    by (simp add: link_iter_facts)
  have base: "(0x200 :: 64 word) = gfn_round_for_level E
                 (next_last_level_gfn link_iter AND - KVM_PAGES_PER_HPAGE E (iter_level link_iter))
                 (iter_level link_iter - 1)"
    by (simp add: gfn_round_for_level_def link_iter_facts pages)
  have idx0: "SPTE_INDEX E 0x200 (iter_level link_iter - 1) = 0"
    by (simp add: SPTE_INDEX_def link_iter_facts env)
  have priv: "is_private_sp (sp_of split_kvm 0x100000)"
    by (simp add: split_kvm_facts ex_child_sp_def ex_child_role_def is_private_sp_def)
  have present: "is_shadow_present_pte E (spte_mem split_kvm 0x100000 j) \<longleftrightarrow> j < 512 \<and> j \<noteq> 5"
    for j
    using ex_child_facts(1) [OF E, of j]
    by (simp add: split_kvm_facts env(8) [symmetric]) (simp add: env)
  have ok: "\<forall>j. j < SPTE_ENT_PER_PAGE E
                \<and> \<not> is_shadow_present_pte E (spte_mem split_kvm 0x100000 j) \<longrightarrow>
               \<not> is_private_zapped_spte E (spte_mem split_kvm 0x100000 j)
               \<and> is_shadow_present_pte E (child j)
               \<and> is_last_spte E (child j) (iter_level link_iter - 1)
               \<and> \<not> is_removed_spte E (child j)
               \<and> (\<forall>h. srm E h (Set_private_spte
                                   (0x200 + of_nat j * KVM_PAGES_PER_HPAGE E (iter_level link_iter - 1))
                                   (iter_level link_iter - 1) (spte_to_pfn E (child j))) = 0)"
  proof (intro allI impI)
    fix j
    assume "j < SPTE_ENT_PER_PAGE E \<and> \<not> is_shadow_present_pte E (spte_mem split_kvm 0x100000 j)"
    then have j: "j = 5" by (simp add: present env(5))
    have "\<not> is_private_zapped_spte E (spte_mem split_kvm 0x100000 j)"
      by (simp add: j split_kvm_facts env)
    then show "\<not> is_private_zapped_spte E (spte_mem split_kvm 0x100000 j)
               \<and> is_shadow_present_pte E (child j)
               \<and> is_last_spte E (child j) (iter_level link_iter - 1)
               \<and> \<not> is_removed_spte E (child j)
               \<and> (\<forall>h. srm E h (Set_private_spte
                                   (0x200 + of_nat j * KVM_PAGES_PER_HPAGE E (iter_level link_iter - 1))
                                   (iter_level link_iter - 1) (spte_to_pfn E (child j))) = 0)"
      using ex_child_facts(1-3) [OF E, of j] set_ok
      by (simp add: ch link_iter_facts env(7))
  qed
  have newpfn: "spte_to_pfn E 0x400881 = 0x400" by (simp add: env)
  have neq: "(0x200 :: 64 word) + of_nat j \<noteq> 0x205" if "j < 512" "j \<noteq> 5" for j
  proof
    assume "(0x200 :: 64 word) + of_nat j = 0x205"
    then have "(of_nat j :: 64 word) = of_nat 5" by simp
    then have "take_bit 64 j = take_bit 64 (5 :: nat)"
      by (simp only: word_of_nat_eq_iff) simp
    moreover have "take_bit 64 j = j" using that by (simp add: take_bit_nat_eq_self)
    ultimately show False using that by simp
  qed
  have R: "(0 :: int) = (if (\<forall>j. j < SPTE_ENT_PER_PAGE E
                         \<and> is_shadow_present_pte E (spte_mem split_kvm 0x100000 j) \<longrightarrow>
                       spte_to_pfn E (spte_mem split_kvm 0x100000 j) =
                         spte_to_pfn E 0x400881 + of_nat j
                       \<and> 0x200 + of_nat j * KVM_PAGES_PER_HPAGE E (iter_level link_iter - 1)
                           \<noteq> fault_gfn fault_in)
                 then 0 else - EAGAIN)"
  proof -
    have "spte_to_pfn E (spte_mem split_kvm 0x100000 j) = spte_to_pfn E 0x400881 + of_nat j
          \<and> 0x200 + of_nat j * KVM_PAGES_PER_HPAGE E (iter_level link_iter - 1)
               \<noteq> fault_gfn fault_in"
      if "j < 512" "j \<noteq> 5" for j
      using that ex_child_facts(4) [OF E, of j] neq [of j]
      by (simp add: split_kvm_facts env(8) [symmetric] newpfn link_iter_facts pages
            fault_in_def)
    then show ?thesis by (simp add: present env(5))
  qed
  have rz: "raw_private_zapped_spte E 0x100907 = 0xC000000000100000"
    by (simp add: raw_private_zapped_spte_def E ex_env_def)
  have C: "(\<lambda>j. if j < SPTE_ENT_PER_PAGE E
                     \<and> \<not> is_shadow_present_pte E (spte_mem split_kvm 0x100000 j)
                  then child j else spte_mem split_kvm 0x100000 j) =
           (\<lambda>j. if j < 512 then make_huge_page_split_spte ex_env 0x400881 ex_child_role j
                else 0)"
    by (auto simp: fun_eq_iff present env(1,5) ch env(8) split_kvm_facts)
  from merge_private_spt_runs [OF cur childpt other base idx0 child_def priv ok R refl,
         where e = e and u = u and fuel = fuel]
  show ?thesis
    unfolding C using zap_ok merge_fail unzap
    by (cases "u = 0") (simp_all add: env(7) link_iter_facts rz)
qed


text \<open>
  Splitting a leaf into the child table \<open>sp\<close> and then merging through a cursor that
  has read the link again, when the \<open>N\<close> entries that the split derives are present:
  the loop of the merge populates nothing, and \<^verbatim>\<open>ret\<close> after it is 0 exactly when
  every child maps the frame \<^verbatim>\<open>spte_to_pfn(new_spte) + i\<close> and none is the child of the
  faulting frame.
\<close>

lemma split_then_merge:
  assumes cur: "kvm_tdp_mmu_read_spte k (iter_sptep iter) = iter_old_spte iter"
    and leaf: "\<not> is_shadow_present_pte E (iter_old_spte iter) \<or>
               is_last_spte E (iter_old_spte iter) (iter_level iter)"
    and table: "spt (sp_of k sp) = sp" "sp \<noteq> fst (iter_sptep iter)" "is_private_sp (sp_of k sp)"
    and link: "spte_to_child_pt E (make_nonleaf_spte E sp) (iter_level iter) = Some sp"
    and base: "base = gfn_round_for_level E
                        (next_last_level_gfn iter AND - KVM_PAGES_PER_HPAGE E (iter_level iter))
                        (iter_level iter - 1)"
    and idx0: "SPTE_INDEX E base (iter_level iter - 1) = 0"
    and present: "\<forall>j. j < SPTE_ENT_PER_PAGE E \<longrightarrow>
                    is_shadow_present_pte E
                      (make_huge_page_split_spte E (iter_old_spte iter) (role (sp_of k sp)) j)"
    and R: "R = (if (\<forall>j. j < SPTE_ENT_PER_PAGE E \<longrightarrow>
                       spte_to_pfn E (make_huge_page_split_spte E (iter_old_spte iter)
                                        (role (sp_of k sp)) j) = spte_to_pfn E new_spte + of_nat j
                       \<and> base + of_nat j * KVM_PAGES_PER_HPAGE E (iter_level iter - 1)
                           \<noteq> fault_gfn fault)
                 then 0 else - EAGAIN)"
    and relink: "iter1 = iter\<lparr>iter_old_spte := make_nonleaf_spte E sp\<rparr>"
  shows "\<exists>k1. tdp_mmu_split_huge_page E fuel k iter sp False = Inr (k1, iter, 0)
          \<and> kvm_tdp_mmu_read_spte k1 (iter_sptep iter) = make_nonleaf_spte E sp
          \<and> (\<forall>j. spte_mem k1 sp j =
                 (if j < SPTE_ENT_PER_PAGE E
                  then make_huge_page_split_spte E (iter_old_spte iter) (role (sp_of k sp)) j
                  else spte_mem k sp j))
          \<and> (R \<noteq> 0 \<longrightarrow>
               (\<exists>k2. tdp_mmu_merge_private_spt E fuel1 k1 fault iter1 new_spte =
                        Inr (k2, iter1, R)
                   \<and> kvm_tdp_mmu_read_spte k2 (iter_sptep iter) = make_nonleaf_spte E sp
                   \<and> spte_mem k2 sp = spte_mem k1 sp))
          \<and> (R = 0 \<and> (\<forall>h. srm E h (Zap_private_spte (iter_gfn iter) (iter_level iter)) = 0)
              \<and> (\<forall>h. srm E h (Merge_private_spt (iter_gfn iter) (iter_level iter)
                                 (kvm_mmu_private_spt (sp_of k sp))) = 0) \<longrightarrow>
               (\<exists>k2. tdp_mmu_merge_private_spt E fuel1 k1 fault iter1 new_spte =
                        Inr (k2, iter\<lparr>iter_old_spte := new_spte\<rparr>, - EAGAIN)
                   \<and> kvm_tdp_mmu_read_spte k2 (iter_sptep iter) = new_spte
                   \<and> sp \<in> set (freed_sps k2)))"
proof -
  have other: "spt (sp_of k sp) \<noteq> fst (iter_sptep iter)" using table by simp
  have nl: "\<not> (is_shadow_present_pte E (make_nonleaf_spte E (spt (sp_of k sp))) \<and>
               is_last_spte E (make_nonleaf_spte E (spt (sp_of k sp))) (iter_level iter))"
    using link table(1) by (auto simp: spte_to_child_pt_def split: if_splits)
  from split_huge_page_links [OF cur other leaf nl, of fuel]
  obtain k1 where sp0: "tdp_mmu_split_huge_page E fuel k iter (spt (sp_of k sp)) False =
                         Inr (k1, iter, 0)"
    and m0: "spte_mem k1 =
                  (spte_mem k)
                    (spt (sp_of k sp) := (\<lambda>j. if j < SPTE_ENT_PER_PAGE E
                            then make_huge_page_split_spte E (iter_old_spte iter)
                                   (role (sp_of k (spt (sp_of k sp)))) j
                            else spte_mem k (spt (sp_of k sp)) j),
                     fst (iter_sptep iter) :=
                       (spte_mem k (fst (iter_sptep iter)))
                         (snd (iter_sptep iter) :=
                            make_nonleaf_spte E (spt (sp_of k (spt (sp_of k sp))))))"
    and s0: "sp_of k1 = sp_of k"
    unfolding table(1) by blast
  note sp = sp0 [unfolded table(1)] and m1 = m0 [unfolded table(1)] and s1 = s0
  have it: "iter_sptep iter1 = iter_sptep iter" "iter_level iter1 = iter_level iter"
    "iter_gfn iter1 = iter_gfn iter" "next_last_level_gfn iter1 = next_last_level_gfn iter"
    "iter_old_spte iter1 = make_nonleaf_spte E sp"
    by (simp_all add: relink)
  have rd: "kvm_tdp_mmu_read_spte k1 (iter_sptep iter) = make_nonleaf_spte E sp"
    by (simp add: kvm_tdp_mmu_read_spte_def m1)
  have ch: "spte_mem k1 sp j =
              (if j < SPTE_ENT_PER_PAGE E
               then make_huge_page_split_spte E (iter_old_spte iter) (role (sp_of k sp)) j
               else spte_mem k sp j)" for j
    using table(2) by (simp add: m1)
  have cur1: "kvm_tdp_mmu_read_spte k1 (iter_sptep iter1) = iter_old_spte iter1"
    by (simp add: it rd)
  have child1: "spte_to_child_pt E (iter_old_spte iter1) (iter_level iter1) = Some sp"
    by (simp add: it link)
  have other1: "sp \<noteq> fst (iter_sptep iter1)" using table(2) by (simp add: it)
  have base1: "base = gfn_round_for_level E
                        (next_last_level_gfn iter1 AND - KVM_PAGES_PER_HPAGE E (iter_level iter1))
                        (iter_level iter1 - 1)"
    using base by (simp add: it)
  have idx1: "SPTE_INDEX E base (iter_level iter1 - 1) = 0" using idx0 by (simp add: it)
  have priv1: "is_private_sp (sp_of k1 sp)" by (simp add: s1 table)
  have ok1: "\<forall>j. j < SPTE_ENT_PER_PAGE E \<and> \<not> is_shadow_present_pte E (spte_mem k1 sp j) \<longrightarrow>
               \<not> is_private_zapped_spte E (spte_mem k1 sp j)
               \<and> is_shadow_present_pte E
                   (make_huge_page_split_spte E new_spte (role (sp_of k1 sp)) j)
               \<and> is_last_spte E (make_huge_page_split_spte E new_spte (role (sp_of k1 sp)) j)
                   (iter_level iter1 - 1)
               \<and> \<not> is_removed_spte E
                     (make_huge_page_split_spte E new_spte (role (sp_of k1 sp)) j)
               \<and> (\<forall>h. srm E h (Set_private_spte
                                   (base + of_nat j * KVM_PAGES_PER_HPAGE E (iter_level iter1 - 1))
                                   (iter_level iter1 - 1)
                                   (spte_to_pfn E (make_huge_page_split_spte E new_spte
                                                     (role (sp_of k1 sp)) j))) = 0)"
    using present by (simp add: ch)
  have R1: "R = (if (\<forall>j. j < SPTE_ENT_PER_PAGE E
                         \<and> is_shadow_present_pte E (spte_mem k1 sp j) \<longrightarrow>
                       spte_to_pfn E (spte_mem k1 sp j) = spte_to_pfn E new_spte + of_nat j
                       \<and> base + of_nat j * KVM_PAGES_PER_HPAGE E (iter_level iter1 - 1)
                           \<noteq> fault_gfn fault)
                 then 0 else - EAGAIN)"
    unfolding R using present by (auto simp: ch it)
  have new1: "iter1\<lparr>iter_old_spte := new_spte\<rparr> = iter\<lparr>iter_old_spte := new_spte\<rparr>"
    by (simp add: relink)
  have C1: "(\<lambda>j. if j < SPTE_ENT_PER_PAGE E \<and> \<not> is_shadow_present_pte E (spte_mem k1 sp j)
                   then make_huge_page_split_spte E new_spte (role (sp_of k sp)) j
                   else spte_mem k1 sp j) = spte_mem k1 sp"
    using present by (auto simp: fun_eq_iff ch)
  note mr = merge_private_spt_runs [OF cur1 child1 other1 base1 idx1 refl priv1 ok1 R1 refl,
              where fuel = fuel1 and e = 0 and u = 0, unfolded it new1 s1 C1]
  from mr have a: "R \<noteq> 0 \<longrightarrow>
               (\<exists>k2. tdp_mmu_merge_private_spt E fuel1 k1 fault iter1 new_spte =
                        Inr (k2, iter1, R)
                   \<and> kvm_tdp_mmu_read_spte k2 (iter_sptep iter) = make_nonleaf_spte E sp
                   \<and> spte_mem k2 sp = spte_mem k1 sp)"
    by (elim conjE) assumption
  from mr have b: "R = 0 \<and> (\<forall>h. srm E h (Zap_private_spte (iter_gfn iter) (iter_level iter)) = 0)
              \<and> (\<forall>h. srm E h (Merge_private_spt (iter_gfn iter) (iter_level iter)
                                 (kvm_mmu_private_spt (sp_of k sp))) = 0) \<longrightarrow>
               (\<exists>k2. tdp_mmu_merge_private_spt E fuel1 k1 fault iter1 new_spte =
                        Inr (k2, iter\<lparr>iter_old_spte := new_spte\<rparr>, - EAGAIN)
                   \<and> kvm_tdp_mmu_read_spte k2 (iter_sptep iter) = new_spte
                   \<and> sp \<in> set (freed_sps k2))"
    by blast
  show ?thesis
    using sp rd ch a b by blast
qed

text \<open>
  A run of \<^verbatim>\<open>tdp_mmu_merge_private_spt\<close> that has frozen the parent entry (the
  cursor is current, so the exchange with \<^verbatim>\<open>REMOVED_SPTE\<close> succeeds) and returns, on a
  parent entry that links the child table \<open>pt\<close>, leaves the parent entry equal to the
  cursor's \<^verbatim>\<open>old_spte\<close> and every entry outside the child table and the parent entry as
  it was. The value left is one of three: the old value, with a status that is not 0
  (the loop's \<^verbatim>\<open>-EBUSY\<close>/\<^verbatim>\<open>-EAGAIN\<close> or error, a failed zap, or a failed merge
  followed by a successful unzap); \<^verbatim>\<open>new_spte\<close>, with the child page freed and the
  status \<^verbatim>\<open>-EAGAIN\<close> (the merge went through); or
  \<^verbatim>\<open>__private_zapped_spte(old_spte)\<close>, which happens only when the manager fails both
  the merge and the unzap that follows it.
\<close>

lemma merge_private_spt_outcomes:
  assumes run: "tdp_mmu_merge_private_spt E fuel k fault iter new_spte = Inr (k', iter', ret)"
    and cur: "kvm_tdp_mmu_read_spte k (iter_sptep iter) = iter_old_spte iter"
    and child: "spte_to_child_pt E (iter_old_spte iter) (iter_level iter) = Some pt"
    and other: "pt \<noteq> fst (iter_sptep iter)"
  shows "kvm_tdp_mmu_read_spte k' (iter_sptep iter) = iter_old_spte iter'
       \<and> (\<forall>a j. a \<noteq> pt \<and> (a, j) \<noteq> iter_sptep iter \<longrightarrow> spte_mem k' a j = spte_mem k a j)
       \<and> (iter_old_spte iter' = iter_old_spte iter \<and> ret \<noteq> 0
          \<or> iter_old_spte iter' = new_spte \<and> ret = - EAGAIN \<and> pt \<in> set (freed_sps k')
          \<or> iter_old_spte iter' = raw_private_zapped_spte E (iter_old_spte iter) \<and> ret \<noteq> 0
            \<and> (\<exists>h. srm E h (Merge_private_spt (iter_gfn iter) (iter_level iter)
                                (kvm_mmu_private_spt (sp_of k pt))) \<noteq> 0)
            \<and> (\<exists>h. srm E h (Unzap_private_spte (iter_gfn iter) (iter_level iter)) \<noteq> 0))"
proof -
  define k1 where "k1 = raw_kvm_tdp_mmu_write_spte (iter_sptep iter) (REMOVED_SPTE E) k"
  define ci where "ci = tdp_iter_step_down E k1
                          (iter\<lparr>next_last_level_gfn :=
                                   next_last_level_gfn iter
                                     AND - KVM_PAGES_PER_HPAGE E (iter_level iter)\<rparr>) pt"
  have c: "try_cmpxchg64 k (iter_sptep iter) (iter_old_spte iter) (REMOVED_SPTE E) =
             (k1, iter_old_spte iter, True)"
    using cur by (simp add: try_cmpxchg64_def k1_def)
  have f1: "(\<forall>a j. (a, j) \<noteq> iter_sptep iter \<longrightarrow> spte_mem k1 a j = spte_mem k a j)
            \<and> sp_of k1 = sp_of k"
    by (cases "iter_sptep iter") (auto simp: k1_def raw_kvm_tdp_mmu_write_spte_def)
  from run obtain k2 ci1 r wo where
    loop: "merge_private_spt_loop E fuel fault (iter_old_spte iter) new_spte pt 0
             (SPTE_ENT_PER_PAGE E) k1 ci 0 = Inr (k2, ci1, r, wo)"
    using c child
    by (auto simp: tdp_mmu_merge_private_spt_def Let_def ci_def [symmetric] split: sum.splits)
  have f2: "(\<forall>a. a \<noteq> pt \<longrightarrow> spte_mem k2 a = spte_mem k1 a) \<and> sp_of k2 = sp_of k1"
    using merge_loop_frame [OF loop, of pt] by (simp add: ci_def step_down_sptep)
  have wo_r: "wo \<Longrightarrow> r \<noteq> 0"
    using merge_loop_out_ret [of E fuel fault _ new_spte pt 0 _ k1 ci 0 k2 ci1 r] loop by simp
  obtain k3 r1 where z: "static_call E (Zap_private_spte (iter_gfn iter) (iter_level iter)) k2 =
                           (k3, r1)"
    by (cases "static_call E (Zap_private_spte (iter_gfn iter) (iter_level iter)) k2") auto
  define k4 where "k4 = kvm_flush_remote_tlbs_range
                          (iter_gfn iter AND KVM_HPAGE_GFN_MASK E (iter_level iter))
                          (KVM_PAGES_PER_HPAGE E (iter_level iter)) k3"
  obtain k5 r2 where m: "static_call E (Merge_private_spt (iter_gfn iter) (iter_level iter)
                           (kvm_mmu_private_spt (sp_of k4 pt))) k4 = (k5, r2)"
    by (cases "static_call E (Merge_private_spt (iter_gfn iter) (iter_level iter)
                           (kvm_mmu_private_spt (sp_of k4 pt))) k4") auto
  obtain k6 r3 where u: "static_call E (Unzap_private_spte (iter_gfn iter) (iter_level iter)) k5 =
                           (k6, r3)"
    by (cases "static_call E (Unzap_private_spte (iter_gfn iter) (iter_level iter)) k5") auto
  note f3 = static_call_frame [OF z]
  have f4: "spte_mem k4 = spte_mem k3 \<and> sp_of k4 = sp_of k3"
    by (simp add: k4_def kvm_flush_remote_tlbs_range_def)
  note f5 = static_call_frame [OF m]
  note f6 = static_call_frame [OF u]
  have s4: "sp_of k4 pt = sp_of k pt" using f1 f2 f3 f4 by simp
  define k8 where "k8 = tdp_mmu_free_sp pt
                           (tdp_unaccount_mmu_page
                              (raw_kvm_tdp_mmu_write_spte (iter_sptep iter) new_spte k5) pt)"
  have f8: "spte_mem k8 = spte_mem (raw_kvm_tdp_mmu_write_spte (iter_sptep iter) new_spte k5)
            \<and> pt \<in> set (freed_sps k8)"
    by (simp add: k8_def tdp_mmu_free_sp_def)
  have res: "r \<noteq> 0 \<and>
               (k', iter', ret) = merge_private_spt_out k2 iter (iter_sptep iter)
                                    (iter_old_spte iter) r
           \<or> r1 \<noteq> 0 \<and> (k', iter', ret) = merge_private_spt_out k3 iter (iter_sptep iter)
                                    (iter_old_spte iter) r1
           \<or> r2 \<noteq> 0 \<and> r3 = 0 \<and>
               (k', iter', ret) = merge_private_spt_out k6 iter (iter_sptep iter)
                                    (iter_old_spte iter) r2
           \<or> r2 \<noteq> 0 \<and> r3 \<noteq> 0 \<and>
               (k', iter', ret) = merge_private_spt_out k6 iter (iter_sptep iter)
                                    (raw_private_zapped_spte E (iter_old_spte iter)) r2
           \<or> (k', iter', ret) = (k8, iter\<lparr>iter_old_spte := new_spte\<rparr>, - EAGAIN)"
    using run c child loop z m u wo_r
    by (auto simp: tdp_mmu_merge_private_spt_def Let_def ci_def [symmetric] k4_def [symmetric]
          k8_def split: if_splits)
  have out: "kvm_tdp_mmu_read_spte (fst (merge_private_spt_out kk iter (iter_sptep iter) v rr))
               (iter_sptep iter) = v
             \<and> iter_old_spte (fst (snd (merge_private_spt_out kk iter (iter_sptep iter) v rr))) = v
             \<and> snd (snd (merge_private_spt_out kk iter (iter_sptep iter) v rr)) = rr
             \<and> (\<forall>a j. (a, j) \<noteq> iter_sptep iter \<longrightarrow>
                  spte_mem (fst (merge_private_spt_out kk iter (iter_sptep iter) v rr)) a j =
                  spte_mem kk a j)" for kk v rr
    by (cases "iter_sptep iter")
       (auto simp: merge_private_spt_out_def raw_kvm_tdp_mmu_write_spte_def
          kvm_tdp_mmu_read_spte_def)
  have fr: "\<forall>a j. a \<noteq> pt \<and> (a, j) \<noteq> iter_sptep iter \<longrightarrow> spte_mem kk a j = spte_mem k a j"
    if "kk = k2 \<or> kk = k3 \<or> kk = k6 \<or> kk = k5" for kk
    using that f1 f2 f3 f4 f5 f6 by auto
  from res show ?thesis
  proof (elim disjE conjE)
    assume "r \<noteq> 0"
      and e: "(k', iter', ret) = merge_private_spt_out k2 iter (iter_sptep iter)
                                    (iter_old_spte iter) r"
    then show ?thesis
      using out [of k2 "iter_old_spte iter" r] fr [of k2] e [symmetric] by auto
  next
    assume "r1 \<noteq> 0"
      and e: "(k', iter', ret) = merge_private_spt_out k3 iter (iter_sptep iter)
                                    (iter_old_spte iter) r1"
    then show ?thesis
      using out [of k3 "iter_old_spte iter" r1] fr [of k3] e [symmetric] by auto
  next
    assume "r2 \<noteq> 0" "r3 = 0"
      and e: "(k', iter', ret) = merge_private_spt_out k6 iter (iter_sptep iter)
                                    (iter_old_spte iter) r2"
    then show ?thesis
      using out [of k6 "iter_old_spte iter" r2] fr [of k6] e [symmetric] by auto
  next
    assume r: "r2 \<noteq> 0" "r3 \<noteq> 0"
      and e: "(k', iter', ret) = merge_private_spt_out k6 iter (iter_sptep iter)
                                    (raw_private_zapped_spte E (iter_old_spte iter)) r2"
    have "\<exists>h. srm E h (Merge_private_spt (iter_gfn iter) (iter_level iter)
                                (kvm_mmu_private_spt (sp_of k pt))) \<noteq> 0"
      using r f5 s4 by auto
    moreover have "\<exists>h. srm E h (Unzap_private_spte (iter_gfn iter) (iter_level iter)) \<noteq> 0"
      using r f6 by auto
    ultimately show ?thesis
      using out [of k6 "raw_private_zapped_spte E (iter_old_spte iter)" r2] fr [of k6]
        e [symmetric] r by auto
  next
    assume e: "(k', iter', ret) = (k8, iter\<lparr>iter_old_spte := new_spte\<rparr>, - EAGAIN)"
    have "kvm_tdp_mmu_read_spte k8 (iter_sptep iter) = new_spte
          \<and> (\<forall>a j. a \<noteq> pt \<and> (a, j) \<noteq> iter_sptep iter \<longrightarrow> spte_mem k8 a j = spte_mem k a j)"
      using f8 fr [of k5]
      by (cases "iter_sptep iter")
         (auto simp: raw_kvm_tdp_mmu_write_spte_def kvm_tdp_mmu_read_spte_def)
    then show ?thesis using e f8 by auto
  qed
qed

lemma set_private_spte_present_zapped_link:
  assumes "is_private_zapped_spte E old" and "\<not> is_last_spte E old l"
  shows "vm_bugged (fst (raw_set_private_spte_present E k p g old new l))"
  using assms
  by (simp add: raw_set_private_spte_present_def Let_def static_call_def KVM_BUG_ON_def)

text \<open>
  C4. The guest \<open>split_kvm\<close>: the private level-2 entry for the frames \<open>0x200\<close> to
  \<open>0x3FF\<close> links a child table in which every frame but \<open>0x205\<close> is mapped. A private
  fault on frame \<open>0x205\<close> with a 2 MiB goal reaches \<^verbatim>\<open>tdp_mmu_merge_private_spt\<close>
  through a cursor that has read the link \<open>0x100907\<close>. The loop maps the missing child,
  the manager blocks the range, answers the merge with \<^verbatim>\<open>-EAGAIN\<close> (some pages are
  still pending) and the unzap that follows with \<^verbatim>\<open>-EAGAIN\<close> as well. The function
  returns \<^verbatim>\<open>-EAGAIN\<close>, but the parent entry is not given its value back: it holds
  \<^verbatim>\<open>__private_zapped_spte(old_spte)\<close>, \<open>0xC000000000100000\<close>, a private-zapped,
  non-present value that is not a leaf at level 2, while the child that the loop mapped
  stays mapped (\<open>0x405801\<close>) under it. The source says of such values
  ``Temporarily blocked private SPTE can only be leaf'' and asserts it with
  \<^verbatim>\<open>KVM_BUG_ON(!is_last_spte(old_spte, level), kvm)\<close>: the next fault that installs a
  2 MiB leaf over this entry goes through \<^verbatim>\<open>__set_private_spte_present\<close> and marks
  the guest as bugged.
\<close>

theorem merge_unzap_failure_leaves_zapped_parent:
  "kvm_tdp_mmu_read_spte split_kvm (0x1000, 1) = 0x100907
   \<and> kvm_tdp_mmu_read_spte split_kvm (0x100000, 5) = 0
   \<and> (\<exists>k'. tdp_mmu_merge_private_spt unzap_fail_env 0 split_kvm fault_in link_iter 0x400881 =
              Inr (k', link_iter\<lparr>iter_old_spte := 0xC000000000100000\<rparr>, - EAGAIN)
          \<and> kvm_tdp_mmu_read_spte k' (0x1000, 1) = 0xC000000000100000
          \<and> kvm_tdp_mmu_read_spte k' (0x100000, 5) = 0x405801
          \<and> vm_bugged (fst (raw_set_private_spte_present unzap_fail_env k' (0x1000, 1) 0x200
                               0xC000000000100000 0x400881 2)))
   \<and> \<not> is_shadow_present_pte unzap_fail_env 0xC000000000100000
   \<and> is_private_zapped_spte unzap_fail_env 0xC000000000100000
   \<and> \<not> is_last_spte unzap_fail_env 0xC000000000100000 2"
proof -
  have E: "unzap_fail_env =
             ex_env\<lparr>srm := (\<lambda>history c. case c of Merge_private_spt g l p \<Rightarrow> - EAGAIN
                                              | Unzap_private_spte g l \<Rightarrow> - EAGAIN | _ \<Rightarrow> 0)\<rparr>"
    by (simp add: unzap_fail_env_def)
  have v: "\<not> is_shadow_present_pte unzap_fail_env 0xC000000000100000"
    "is_private_zapped_spte unzap_fail_env 0xC000000000100000"
    "\<not> is_last_spte unzap_fail_env 0xC000000000100000 2"
    by (simp_all add: unzap_fail_env_def ex_env_def)
  have c5: "make_huge_page_split_spte ex_env 0x400881 ex_child_role 5 = 0x405801"
    by (simp add: ex_env_def ex_child_role_def ex_role_def)
  from split_kvm_merge_fails [OF E, of "- EAGAIN" "- EAGAIN" 0]
  obtain k' where
    run: "tdp_mmu_merge_private_spt unzap_fail_env 0 split_kvm fault_in link_iter 0x400881 =
            Inr (k', link_iter\<lparr>iter_old_spte := 0xC000000000100000\<rparr>, - EAGAIN)"
    and rd: "kvm_tdp_mmu_read_spte k' (0x1000, 1) = 0xC000000000100000"
    and ch: "spte_mem k' 0x100000 =
               (\<lambda>j. if j < 512 then make_huge_page_split_spte ex_env 0x400881 ex_child_role j
                    else 0)"
    by (auto simp: EAGAIN_def)
  have "kvm_tdp_mmu_read_spte k' (0x100000, 5) = 0x405801"
    by (simp add: kvm_tdp_mmu_read_spte_def ch c5)
  moreover have "vm_bugged (fst (raw_set_private_spte_present unzap_fail_env k' (0x1000, 1) 0x200
                                   0xC000000000100000 0x400881 2))"
    by (rule set_private_spte_present_zapped_link [OF v(2,3)])
  moreover have "kvm_tdp_mmu_read_spte split_kvm (0x1000, 1) = 0x100907"
    "kvm_tdp_mmu_read_spte split_kvm (0x100000, 5) = 0"
    by (simp_all add: kvm_tdp_mmu_read_spte_def split_kvm_facts)
  ultimately show ?thesis using run rd v by blast
qed


section \<open>Theorems: splitting and merging back\<close>

text \<open>
  C5, as the code has it. A present huge leaf is split into the private child table
  \<open>sp\<close> under the write lock, the \<open>N\<close> entries that the split derives being present,
  and the cursor reads the link; then \<^verbatim>\<open>tdp_mmu_merge_private_spt\<close> is run for a
  fault on a frame of that huge page (\<^verbatim>\<open>kvm_tdp_mmu_map\<close> walks to the entry that
  covers \<^verbatim>\<open>fault->gfn\<close>, so the cursor always covers it). Whatever \<^verbatim>\<open>new_spte\<close> is,
  the merge does not take place: the loop finds the child of the faulting frame present
  and sets \<^verbatim>\<open>ret = -EAGAIN\<close>, the parent entry gets the link back, and the \<open>N\<close>
  children are as the split derived them from the huge entry.
\<close>

theorem split_then_merge_keeps_link:
  assumes cur: "kvm_tdp_mmu_read_spte k (iter_sptep iter) = iter_old_spte iter"
    and huge: "is_shadow_present_pte E (iter_old_spte iter)"
              "is_last_spte E (iter_old_spte iter) (iter_level iter)"
    and table: "spt (sp_of k sp) = sp" "sp \<noteq> fst (iter_sptep iter)" "is_private_sp (sp_of k sp)"
    and link: "spte_to_child_pt E (make_nonleaf_spte E sp) (iter_level iter) = Some sp"
    and base: "base = gfn_round_for_level E
                        (next_last_level_gfn iter AND - KVM_PAGES_PER_HPAGE E (iter_level iter))
                        (iter_level iter - 1)"
    and idx0: "SPTE_INDEX E base (iter_level iter - 1) = 0"
    and children: "\<forall>j. j < SPTE_ENT_PER_PAGE E \<longrightarrow>
                     is_shadow_present_pte E
                       (make_huge_page_split_spte E (iter_old_spte iter) (role (sp_of k sp)) j)"
    and inside: "\<exists>j. j < SPTE_ENT_PER_PAGE E
                     \<and> base + of_nat j * KVM_PAGES_PER_HPAGE E (iter_level iter - 1)
                         = fault_gfn fault"
  shows "\<exists>k1 k2. tdp_mmu_split_huge_page E fuel k iter sp False = Inr (k1, iter, 0)
          \<and> kvm_tdp_mmu_read_spte k1 (iter_sptep iter) = make_nonleaf_spte E sp
          \<and> tdp_mmu_merge_private_spt E fuel1 k1 fault
              (iter\<lparr>iter_old_spte := make_nonleaf_spte E sp\<rparr>) new_spte =
              Inr (k2, iter\<lparr>iter_old_spte := make_nonleaf_spte E sp\<rparr>, - EAGAIN)
          \<and> kvm_tdp_mmu_read_spte k2 (iter_sptep iter) = make_nonleaf_spte E sp
          \<and> (\<forall>j. j < SPTE_ENT_PER_PAGE E \<longrightarrow>
                 spte_mem k2 sp j =
                   make_huge_page_split_spte E (iter_old_spte iter) (role (sp_of k sp)) j)"
proof -
  have leaf: "\<not> is_shadow_present_pte E (iter_old_spte iter) \<or>
               is_last_spte E (iter_old_spte iter) (iter_level iter)"
    using huge by simp
  from inside obtain j0 where j0: "j0 < SPTE_ENT_PER_PAGE E"
    "base + of_nat j0 * KVM_PAGES_PER_HPAGE E (iter_level iter - 1) = fault_gfn fault"
    by blast
  have "\<not> (\<forall>j. j < SPTE_ENT_PER_PAGE E \<longrightarrow>
                       spte_to_pfn E (make_huge_page_split_spte E (iter_old_spte iter)
                                        (role (sp_of k sp)) j) = spte_to_pfn E new_spte + of_nat j
                       \<and> base + of_nat j * KVM_PAGES_PER_HPAGE E (iter_level iter - 1)
                           \<noteq> fault_gfn fault)"
  proof
    assume "\<forall>j. j < SPTE_ENT_PER_PAGE E \<longrightarrow>
                       spte_to_pfn E (make_huge_page_split_spte E (iter_old_spte iter)
                                        (role (sp_of k sp)) j) = spte_to_pfn E new_spte + of_nat j
                       \<and> base + of_nat j * KVM_PAGES_PER_HPAGE E (iter_level iter - 1)
                           \<noteq> fault_gfn fault"
    from this [rule_format, OF j0(1)] j0(2) show False by simp
  qed
  then have R: "- EAGAIN = (if (\<forall>j. j < SPTE_ENT_PER_PAGE E \<longrightarrow>
                       spte_to_pfn E (make_huge_page_split_spte E (iter_old_spte iter)
                                        (role (sp_of k sp)) j) = spte_to_pfn E new_spte + of_nat j
                       \<and> base + of_nat j * KVM_PAGES_PER_HPAGE E (iter_level iter - 1)
                           \<noteq> fault_gfn fault)
                 then 0 else - EAGAIN)"
    by (simp only: if_False)
  have ne: "- EAGAIN \<noteq> 0" by (simp add: EAGAIN_def)
  from split_then_merge [OF cur leaf table link base idx0 children R refl,
         where fuel = fuel and ?fuel1.0 = fuel1]
  obtain k1 where k1:
    "tdp_mmu_split_huge_page E fuel k iter sp False = Inr (k1, iter, 0)
     \<and> kvm_tdp_mmu_read_spte k1 (iter_sptep iter) = make_nonleaf_spte E sp
     \<and> (\<forall>j. spte_mem k1 sp j =
            (if j < SPTE_ENT_PER_PAGE E
             then make_huge_page_split_spte E (iter_old_spte iter) (role (sp_of k sp)) j
             else spte_mem k sp j))
     \<and> (- EAGAIN \<noteq> 0 \<longrightarrow>
          (\<exists>k2. tdp_mmu_merge_private_spt E fuel1 k1 fault
                   (iter\<lparr>iter_old_spte := make_nonleaf_spte E sp\<rparr>) new_spte =
                   Inr (k2, iter\<lparr>iter_old_spte := make_nonleaf_spte E sp\<rparr>, - EAGAIN)
              \<and> kvm_tdp_mmu_read_spte k2 (iter_sptep iter) = make_nonleaf_spte E sp
              \<and> spte_mem k2 sp = spte_mem k1 sp))
     \<and> (- EAGAIN = 0 \<and> (\<forall>h. srm E h (Zap_private_spte (iter_gfn iter) (iter_level iter)) = 0)
         \<and> (\<forall>h. srm E h (Merge_private_spt (iter_gfn iter) (iter_level iter)
                            (kvm_mmu_private_spt (sp_of k sp))) = 0) \<longrightarrow>
          (\<exists>k2. tdp_mmu_merge_private_spt E fuel1 k1 fault
                   (iter\<lparr>iter_old_spte := make_nonleaf_spte E sp\<rparr>) new_spte =
                   Inr (k2, iter\<lparr>iter_old_spte := new_spte\<rparr>, - EAGAIN)
              \<and> kvm_tdp_mmu_read_spte k2 (iter_sptep iter) = new_spte
              \<and> sp \<in> set (freed_sps k2)))" ..
  note s1 = k1 [THEN conjunct1]
  note s2 = k1 [THEN conjunct2, THEN conjunct1]
  note s3 = k1 [THEN conjunct2, THEN conjunct2, THEN conjunct1]
  from k1 [THEN conjunct2, THEN conjunct2, THEN conjunct2, THEN conjunct1, rule_format, OF ne]
  obtain k2 where k2:
    "tdp_mmu_merge_private_spt E fuel1 k1 fault
       (iter\<lparr>iter_old_spte := make_nonleaf_spte E sp\<rparr>) new_spte =
       Inr (k2, iter\<lparr>iter_old_spte := make_nonleaf_spte E sp\<rparr>, - EAGAIN)
     \<and> kvm_tdp_mmu_read_spte k2 (iter_sptep iter) = make_nonleaf_spte E sp
     \<and> spte_mem k2 sp = spte_mem k1 sp" ..
  note m1 = k2 [THEN conjunct1]
  note m2 = k2 [THEN conjunct2, THEN conjunct1]
  note m3 = k2 [THEN conjunct2, THEN conjunct2]
  have m4: "\<forall>j. j < SPTE_ENT_PER_PAGE E \<longrightarrow>
                 spte_mem k2 sp j =
                   make_huge_page_split_spte E (iter_old_spte iter) (role (sp_of k sp)) j"
    using s3 by (simp add: m3)
  show ?thesis
    by (rule exI [of _ k1], rule exI [of _ k2]) (intro conjI s1 s2 m1 m2 m4)
qed

lemma huge_child_kvm_facts:
  "kvm_tdp_mmu_read_spte huge_child_kvm (iter_sptep huge_iter) = iter_old_spte huge_iter"
  "is_shadow_present_pte ex_env (iter_old_spte huge_iter)"
  "is_last_spte ex_env (iter_old_spte huge_iter) (iter_level huge_iter)"
  "spt (sp_of huge_child_kvm 0x100000) = 0x100000"
  "(0x100000 :: 64 word) \<noteq> fst (iter_sptep huge_iter)"
  "is_private_sp (sp_of huge_child_kvm 0x100000)"
  "role (sp_of huge_child_kvm 0x100000) = ex_child_role"
  "spte_to_child_pt ex_env (make_nonleaf_spte ex_env 0x100000) (iter_level huge_iter) =
     Some 0x100000"
  "(0x200 :: 64 word) = gfn_round_for_level ex_env
       (next_last_level_gfn huge_iter AND - KVM_PAGES_PER_HPAGE ex_env (iter_level huge_iter))
       (iter_level huge_iter - 1)"
  "SPTE_INDEX ex_env 0x200 (iter_level huge_iter - 1) = 0"
  "make_nonleaf_spte ex_env 0x100000 = 0x100907"
  "iter_sptep huge_iter = (0x1000, 1)" "iter_old_spte huge_iter = 0x400881"
  "iter_level huge_iter = 2"
  "huge_iter\<lparr>iter_old_spte := 0x100907\<rparr> = link_iter"
  "huge_iter\<lparr>iter_old_spte := 0x400881\<rparr> = huge_iter"
  by (simp_all add: huge_child_kvm_def huge_kvm_def huge_iter_def ex_iter_def link_iter_def
        ex_child_sp_def ex_child_role_def is_private_sp_def kvm_tdp_mmu_read_spte_def
        spte_to_child_pt_def gfn_round_for_level_def SPTE_INDEX_def KVM_PAGES_PER_HPAGE_def
        ex_env_def)

theorem split_then_merge_keeps_link_witness:
  "kvm_tdp_mmu_read_spte huge_child_kvm (0x1000, 1) = 0x400881
   \<and> fault_gfn fault_in = 0x200 + of_nat 5
   \<and> (\<exists>k1 k2. tdp_mmu_split_huge_page ex_env 0 huge_child_kvm huge_iter 0x100000 False =
                 Inr (k1, huge_iter, 0)
           \<and> kvm_tdp_mmu_read_spte k1 (0x1000, 1) = 0x100907
           \<and> tdp_mmu_merge_private_spt ex_env 0 k1 fault_in link_iter 0x400883 =
                 Inr (k2, link_iter, - EAGAIN)
           \<and> kvm_tdp_mmu_read_spte k2 (0x1000, 1) = 0x100907
           \<and> spte_mem k2 0x100000 5 = 0x405801)"
proof -
  have E: "ex_env = ex_env\<lparr>srm := srm ex_env\<rparr>" by simp
  have n: "SPTE_ENT_PER_PAGE ex_env = 512" "KVM_PAGES_PER_HPAGE ex_env (Suc 0) = 1"
    "fault_gfn fault_in = 0x200 + of_nat 5"
    by (simp_all add: ex_env_def KVM_PAGES_PER_HPAGE_def fault_in_def)
  have c5: "make_huge_page_split_spte ex_env 0x400881 ex_child_role 5 = 0x405801"
    by (simp add: ex_env_def ex_child_role_def ex_role_def)
  have children: "\<forall>j. j < SPTE_ENT_PER_PAGE ex_env \<longrightarrow>
                     is_shadow_present_pte ex_env
                       (make_huge_page_split_spte ex_env (iter_old_spte huge_iter)
                          (role (sp_of huge_child_kvm 0x100000)) j)"
    using ex_child_facts(1) [OF E] by (simp add: huge_child_kvm_facts)
  have inside: "\<exists>j. j < SPTE_ENT_PER_PAGE ex_env
                     \<and> 0x200 + of_nat j * KVM_PAGES_PER_HPAGE ex_env (iter_level huge_iter - 1)
                         = fault_gfn fault_in"
    by (rule exI [of _ 5]) (simp add: n huge_child_kvm_facts)
  from split_then_merge_keeps_link [OF huge_child_kvm_facts(1-6,8-10) children inside,
         where fuel = 0 and ?fuel1.0 = 0 and new_spte = "0x400883",
         unfolded huge_child_kvm_facts]
  obtain k1 k2 where
    "tdp_mmu_split_huge_page ex_env 0 huge_child_kvm huge_iter 0x100000 False =
       Inr (k1, huge_iter, 0)"
    "kvm_tdp_mmu_read_spte k1 (0x1000, 1) = 0x100907"
    "tdp_mmu_merge_private_spt ex_env 0 k1 fault_in link_iter 0x400883 =
       Inr (k2, link_iter, - EAGAIN)"
    "kvm_tdp_mmu_read_spte k2 (0x1000, 1) = 0x100907"
    "\<forall>j. j < SPTE_ENT_PER_PAGE ex_env \<longrightarrow>
         spte_mem k2 0x100000 j = make_huge_page_split_spte ex_env 0x400881 ex_child_role j"
    by blast
  moreover from this have "spte_mem k2 0x100000 5 = 0x405801"
    by (simp add: n c5)
  ultimately show ?thesis
    using huge_child_kvm_facts(1) n(3) by (auto simp: huge_child_kvm_facts)
qed

text \<open>
  C5. The 2 MiB leaf \<open>0x400881\<close> of frame \<open>0x400\<close> is split; the 512 children are
  present and map the frames \<open>0x400 + i\<close>, matching the target \<open>0x400881\<close>. The merge,
  for a fault on frame \<open>0x205\<close> of the huge page, returns \<^verbatim>\<open>-EAGAIN\<close> and the parent
  entry keeps the link \<open>0x100907\<close> to the child table: it is not a leaf, and it differs
  from the entry before the split in more than the accessed and dirty bits.
\<close>

theorem split_then_merge_keeps_children_on_fault_inside:
  "kvm_tdp_mmu_read_spte huge_child_kvm (0x1000, 1) = 0x400881
   \<and> fault_gfn fault_in = 0x205
   \<and> (\<exists>k1 k2. tdp_mmu_split_huge_page ex_env 0 huge_child_kvm huge_iter 0x100000 False =
                 Inr (k1, huge_iter, 0)
           \<and> kvm_tdp_mmu_read_spte k1 (0x1000, 1) = 0x100907
           \<and> (\<forall>j<512. is_shadow_present_pte ex_env (spte_mem k1 0x100000 j)
                       \<and> spte_to_pfn ex_env (spte_mem k1 0x100000 j) = 0x400 + of_nat j)
           \<and> tdp_mmu_merge_private_spt ex_env 0 k1 fault_in link_iter 0x400881 =
                 Inr (k2, link_iter, - EAGAIN)
           \<and> kvm_tdp_mmu_read_spte k2 (0x1000, 1) = 0x100907)
   \<and> \<not> is_last_spte ex_env 0x100907 2
   \<and> (0x100907 :: u64) AND NOT 0x300 \<noteq> 0x400881 AND NOT 0x300"
proof -
  have E: "ex_env = ex_env\<lparr>srm := srm ex_env\<rparr>" by simp
  have n: "SPTE_ENT_PER_PAGE ex_env = 512" "KVM_PAGES_PER_HPAGE ex_env (Suc 0) = 1"
    "spte_to_pfn ex_env 0x400881 = 0x400" "fault_gfn fault_in = 0x205"
    "\<not> is_last_spte ex_env 0x100907 2"
    by (simp_all add: ex_env_def KVM_PAGES_PER_HPAGE_def fault_in_def)
  have ad: "(0x100907 :: u64) AND NOT 0x300 \<noteq> 0x400881 AND NOT 0x300"
    by simp
  have leaf: "\<not> is_shadow_present_pte ex_env (iter_old_spte huge_iter) \<or>
               is_last_spte ex_env (iter_old_spte huge_iter) (iter_level huge_iter)"
    using huge_child_kvm_facts(3) by simp
  have present: "\<forall>j. j < SPTE_ENT_PER_PAGE ex_env \<longrightarrow>
                    is_shadow_present_pte ex_env
                      (make_huge_page_split_spte ex_env (iter_old_spte huge_iter)
                         (role (sp_of huge_child_kvm 0x100000)) j)"
    using ex_child_facts(1) [OF E] by (simp add: huge_child_kvm_facts)
  have "\<not> (\<forall>j. j < SPTE_ENT_PER_PAGE ex_env \<longrightarrow>
                       spte_to_pfn ex_env (make_huge_page_split_spte ex_env (iter_old_spte huge_iter)
                                        (role (sp_of huge_child_kvm 0x100000)) j) =
                         spte_to_pfn ex_env 0x400881 + of_nat j
                       \<and> 0x200 + of_nat j * KVM_PAGES_PER_HPAGE ex_env (iter_level huge_iter - 1)
                           \<noteq> fault_gfn fault_in)"
  proof
    assume "\<forall>j. j < SPTE_ENT_PER_PAGE ex_env \<longrightarrow>
                       spte_to_pfn ex_env (make_huge_page_split_spte ex_env (iter_old_spte huge_iter)
                                        (role (sp_of huge_child_kvm 0x100000)) j) =
                         spte_to_pfn ex_env 0x400881 + of_nat j
                       \<and> 0x200 + of_nat j * KVM_PAGES_PER_HPAGE ex_env (iter_level huge_iter - 1)
                           \<noteq> fault_gfn fault_in"
    from this [rule_format, of 5] show False
      by (simp add: n huge_child_kvm_facts)
  qed
  then have R: "- EAGAIN = (if (\<forall>j. j < SPTE_ENT_PER_PAGE ex_env \<longrightarrow>
                       spte_to_pfn ex_env (make_huge_page_split_spte ex_env (iter_old_spte huge_iter)
                                        (role (sp_of huge_child_kvm 0x100000)) j) =
                         spte_to_pfn ex_env 0x400881 + of_nat j
                       \<and> 0x200 + of_nat j * KVM_PAGES_PER_HPAGE ex_env (iter_level huge_iter - 1)
                           \<noteq> fault_gfn fault_in)
                 then 0 else - EAGAIN)"
    by (simp only: if_False)
  have ne: "- EAGAIN \<noteq> 0" by (simp add: EAGAIN_def)
  from split_then_merge [OF huge_child_kvm_facts(1) leaf huge_child_kvm_facts(4-6,8-10)
         present R refl, where fuel = 0 and ?fuel1.0 = 0, unfolded huge_child_kvm_facts] ne
  obtain k1 k2 where r:
    "tdp_mmu_split_huge_page ex_env 0 huge_child_kvm huge_iter 0x100000 False =
       Inr (k1, huge_iter, 0)"
    "kvm_tdp_mmu_read_spte k1 (0x1000, 1) = 0x100907"
    "\<forall>j. spte_mem k1 0x100000 j =
           (if j < SPTE_ENT_PER_PAGE ex_env
            then make_huge_page_split_spte ex_env 0x400881 ex_child_role j
            else spte_mem huge_child_kvm 0x100000 j)"
    "tdp_mmu_merge_private_spt ex_env 0 k1 fault_in link_iter 0x400881 =
       Inr (k2, link_iter, - EAGAIN)"
    "kvm_tdp_mmu_read_spte k2 (0x1000, 1) = 0x100907"
    by blast
  have "\<forall>j<512. is_shadow_present_pte ex_env (spte_mem k1 0x100000 j)
                 \<and> spte_to_pfn ex_env (spte_mem k1 0x100000 j) = 0x400 + of_nat j"
    using ex_child_facts(1,4) [OF E] by (simp add: r(3) n)
  with r show ?thesis
    using huge_child_kvm_facts(1) n ad by (auto simp: huge_child_kvm_facts)
qed

section \<open>Theorems: reclaim-notifier operations\<close>

text \<open>
  The walker keeps a cursor that stands under a non-private root in non-private tables.
\<close>

lemma cursor_on_shared_cong:
  "sp_of k' = sp_of k \<Longrightarrow> cursor_on_shared k' it = cursor_on_shared k it"
  by (simp add: cursor_on_shared_def)

lemma cursor_on_shared_old_spte [simp]:
  "cursor_on_shared k (it\<lparr>iter_old_spte := v\<rparr>) = cursor_on_shared k it"
  by (simp add: cursor_on_shared_def)

lemma cursor_on_shared_valid [simp]:
  "cursor_on_shared k (it\<lparr>valid := v\<rparr>) = cursor_on_shared k it"
  by (simp add: cursor_on_shared_def)

lemma cursor_table:
  assumes "cursor_on_shared k it"
  shows "\<not> is_private_sp (sp_of k (fst (iter_sptep it)))"
    and "role_level (role (sp_of k (fst (iter_sptep it)))) = iter_level it"
proof -
  from assms have l: "1 \<le> iter_level it" "iter_level it \<le> root_level it"
    and p: "fst (iter_sptep it) = pt_path it (iter_level it - 1)"
    and a: "\<forall>l. iter_level it \<le> Suc l \<and> Suc l \<le> root_level it \<longrightarrow>
          \<not> is_private_sp (sp_of k (pt_path it l))
          \<and> role_level (role (sp_of k (pt_path it l))) = Suc l"
    by (simp_all add: cursor_on_shared_def)
  from l have "iter_level it \<le> Suc (iter_level it - 1) \<and> Suc (iter_level it - 1) \<le> root_level it"
    by simp
  with a have "\<not> is_private_sp (sp_of k (pt_path it (iter_level it - 1)))
          \<and> role_level (role (sp_of k (pt_path it (iter_level it - 1)))) = Suc (iter_level it - 1)"
    by blast
  with l p show "\<not> is_private_sp (sp_of k (fst (iter_sptep it)))"
    and "role_level (role (sp_of k (fst (iter_sptep it)))) = iter_level it"
    by simp_all
qed

lemma restart_cursor:
  "cursor_on_shared k it \<Longrightarrow> cursor_on_shared k (tdp_iter_restart E k it)"
  by (auto simp: cursor_on_shared_def tdp_iter_restart_def tdp_iter_refresh_sptep_def Let_def)

lemma start_cursor:
  assumes "\<not> is_private_sp (sp_of k root)" and "spt (sp_of k root) = root"
  shows "valid (tdp_iter_start E k root PG_LEVEL_4K g) \<longrightarrow>
         cursor_on_shared k (tdp_iter_start E k root PG_LEVEL_4K g)"
  using assms
  by (auto simp: cursor_on_shared_def tdp_iter_start_def tdp_iter_restart_def
        tdp_iter_refresh_sptep_def Let_def PG_LEVEL_4K_def)

lemma step_down_cursor:
  assumes c: "cursor_on_shared k it" and closed: "shared_side_closed E k"
    and s: "try_step_down E k it = (it', True)"
  shows "cursor_on_shared k it'"
proof -
  from s have ne: "iter_level it \<noteq> min_level it"
    by (auto simp: try_step_down_def split: if_splits)
  from s ne obtain child where
    ch: "spte_to_child_pt E (kvm_tdp_mmu_read_spte k (iter_sptep it)) (iter_level it) = Some child"
    and it': "it' = tdp_iter_step_down E k
                      (it\<lparr>iter_old_spte := kvm_tdp_mmu_read_spte k (iter_sptep it)\<rparr>) child"
    by (auto simp: try_step_down_def Let_def split: option.splits)
  from c have l: "1 \<le> min_level it" "min_level it \<le> iter_level it"
    "iter_level it \<le> root_level it"
    and a: "\<forall>l. iter_level it \<le> Suc l \<and> Suc l \<le> root_level it \<longrightarrow>
          \<not> is_private_sp (sp_of k (pt_path it l))
          \<and> role_level (role (sp_of k (pt_path it l))) = Suc l"
    by (simp_all add: cursor_on_shared_def)
  note t = cursor_table [OF c]
  from ch t closed
  have child: "\<not> is_private_sp (sp_of k child)"
    "Suc (role_level (role (sp_of k child))) = iter_level it"
    unfolding shared_side_closed_def kvm_tdp_mmu_read_spte_def by metis+
  from l ne have l2: "2 \<le> iter_level it" by simp
  show ?thesis
    unfolding it'
    using l l2 ne a child
    by (auto simp: cursor_on_shared_def tdp_iter_step_down_def tdp_iter_refresh_sptep_def Let_def)
qed

lemma step_side_cursor:
  "cursor_on_shared k it \<Longrightarrow> cursor_on_shared k (tdp_iter_step_side E k it)"
  by (simp add: cursor_on_shared_def tdp_iter_step_side_def Let_def)

lemma step_up_cursor:
  "cursor_on_shared k it \<Longrightarrow> cursor_on_shared k (fst (try_step_up E k it))"
  by (auto simp: cursor_on_shared_def try_step_up_def tdp_iter_refresh_sptep_def Let_def)

lemma next_up_cursor:
  "cursor_on_shared k it \<Longrightarrow> cursor_on_shared k (tdp_iter_next_up E k it)"
proof (induction E k it rule: tdp_iter_next_up.induct)
  case (1 E k it)
  show ?case
  proof (cases "SPTE_INDEX E (iter_gfn it) (iter_level it) = SPTE_ENT_PER_PAGE E - 1")
    case False
    then have "tdp_iter_next_up E k it = tdp_iter_step_side E k it"
      by (subst tdp_iter_next_up.simps) (simp add: try_step_side_def)
    with "1.prems" show ?thesis by (simp add: step_side_cursor)
  next
    case True
    then have ts: "try_step_side E k it = (it, False)" by (simp add: try_step_side_def)
    show ?thesis
    proof (cases "iter_level it \<ge> root_level it")
      case top: True
      with ts have "tdp_iter_next_up E k it = it\<lparr>valid := False\<rparr>"
        by (subst tdp_iter_next_up.simps) simp
      with "1.prems" show ?thesis by simp
    next
      case notop: False
      with ts have e: "tdp_iter_next_up E k it = tdp_iter_next_up E k (fst (try_step_up E k it))"
        by (subst tdp_iter_next_up.simps) simp
      have "cursor_on_shared k (tdp_iter_next_up E k (fst (try_step_up E k it)))"
        using "1.IH" [OF ts [symmetric] _ notop] "1.prems" step_up_cursor by simp
      with e show ?thesis by simp
    qed
  qed
qed

lemma next_cursor:
  assumes "cursor_on_shared k it" and "shared_side_closed E k"
  shows "cursor_on_shared k (tdp_iter_next E k it)"
proof (cases "yielded it")
  case True
  with assms show ?thesis by (simp add: tdp_iter_next_def restart_cursor)
next
  case False
  obtain i1 ok where s: "try_step_down E k it = (i1, ok)" by (cases "try_step_down E k it")
  show ?thesis
  proof (cases ok)
    case True
    with s False step_down_cursor [OF assms, of i1] show ?thesis
      by (simp add: tdp_iter_next_def)
  next
    case nd: False
    from s nd have "i1 = it \<or> i1 = it\<lparr>iter_old_spte := kvm_tdp_mmu_read_spte k (iter_sptep it)\<rparr>"
      by (auto simp: try_step_down_def Let_def split: if_splits option.splits)
    with assms(1) have "cursor_on_shared k i1" by auto
    then have "cursor_on_shared k (tdp_iter_next_up E k i1)" by (rule next_up_cursor)
    with s nd False show ?thesis by (simp add: tdp_iter_next_def)
  qed
qed

lemma closed_update:
  assumes closed: "shared_side_closed E k"
    and sp: "sp_of k' = sp_of k"
    and mem: "spte_mem k' = (spte_mem k)(a := (spte_mem k a)(i := v))"
    and v: "\<forall>c. spte_to_child_pt E v (role_level (role (sp_of k a))) = Some c \<longrightarrow>
               \<not> is_private_sp (sp_of k c)
               \<and> Suc (role_level (role (sp_of k c))) = role_level (role (sp_of k a))"
  shows "shared_side_closed E k'"
  unfolding shared_side_closed_def
proof (intro allI impI)
  fix b j c
  assume h: "\<not> is_private_sp (sp_of k' b) \<and>
             spte_to_child_pt E (spte_mem k' b j) (role_level (role (sp_of k' b))) = Some c"
  show "\<not> is_private_sp (sp_of k' c)
        \<and> Suc (role_level (role (sp_of k' c))) = role_level (role (sp_of k' b))"
  proof (cases "b = a \<and> j = i")
    case True
    with h v show ?thesis by (simp add: sp mem)
  next
    case False
    then have "spte_mem k' b j = spte_mem k b j" by (auto simp: mem)
    with h closed show ?thesis
      unfolding shared_side_closed_def sp by metis
  qed
qed

lemma private_frame_update:
  assumes "spte_mem k' = (spte_mem k)(a := (spte_mem k a)(i := v))"
    and "\<not> is_private_sp (sp_of k a)"
  shows "\<forall>b. is_private_sp (sp_of k b) \<longrightarrow> spte_mem k' b = spte_mem k b"
  using assms by auto

lemma write_spte_frame:
  "kvm_tdp_mmu_write_spte E k p old new l = (k', old1) \<Longrightarrow>
   spte_mem k' = (spte_mem k)(fst p := (spte_mem k (fst p))(snd p := new)) \<and> sp_of k' = sp_of k"
  by (auto simp: kvm_tdp_mmu_write_spte_def kvm_tdp_mmu_write_spte_atomic_def
        raw_kvm_tdp_mmu_write_spte_def split: if_splits)

lemma clear_spte_bits_frame:
  "tdp_mmu_clear_spte_bits E k p old bits l = (k', old1) \<Longrightarrow>
   sp_of k' = sp_of k \<and>
   (\<exists>v. (v = kvm_tdp_mmu_read_spte k p AND NOT bits \<or> v = old AND NOT bits)
        \<and> spte_mem k' = (spte_mem k)(fst p := (spte_mem k (fst p))(snd p := v)))"
  by (auto simp: tdp_mmu_clear_spte_bits_def raw_kvm_tdp_mmu_write_spte_def split: if_splits)

text \<open>
  Setting an entry of a table of the last level, where every value is a leaf: no child
  table is torn down, the entry holds the new value and nothing else changes.
\<close>

lemma set_spte_last_level_frame:
  assumes run: "tdp_mmu_set_spte E fuel k asid p old new g l = Inr (k', old1)"
    and last: "\<forall>x. is_last_spte E x l"
  shows "spte_mem k' = (spte_mem k)(fst p := (spte_mem k (fst p))(snd p := new))
         \<and> sp_of k' = sp_of k"
proof -
  define k0 where "k0 = KVM_BUG_ON (is_private_sptep k p \<noteq> kvm_is_private_gpa E k (gfn_to_gpa E g)) k"
  obtain k1 o1 where w: "kvm_tdp_mmu_write_spte E k0 p old new l = (k1, o1)"
    by (cases "kvm_tdp_mmu_write_spte E k0 p old new l")
  define k2 where "k2 = (if is_private_sptep k1 p \<and> \<not> is_removed_spte E new
                          \<and> is_shadow_present_pte E new
                       then (case raw_set_private_spte_present E k1 p g o1 new l of
                               (k1a, ret) \<Rightarrow> KVM_BUG_ON (ret \<noteq> 0) k1a)
                       else k1)"
  define r where "r = (role (sptep_to_sp k2 p))\<lparr>role_level := l\<rparr>"
  from write_spte_frame [OF w]
  have f1: "spte_mem k1 = (spte_mem k)(fst p := (spte_mem k (fst p))(snd p := new))"
    "sp_of k1 = sp_of k"
    by (simp_all add: k0_def)
  have f2: "spte_mem k2 = spte_mem k1 \<and> sp_of k2 = sp_of k1"
    unfolding k2_def
    by (auto split: prod.splits dest: raw_set_private_spte_present_frame)
  from run w have h: "handle_changed_spte E fuel k2 asid g o1 new r False = Inr k'"
    unfolding k0_def k2_def r_def
    by (auto simp: tdp_mmu_set_spte_def Let_def split: sum.splits)
  have "\<not> is_shadow_present_pte E o1 \<or> is_last_spte E o1 (role_level r)"
    using last by (simp add: r_def)
  from changed_spte_no_child_frame [OF this h] f1 f2 show ?thesis by simp
qed

lemma iter_set_spte_last_level_frame:
  assumes run: "tdp_mmu_iter_set_spte E fuel k it new = Inr (k', it')"
    and last: "\<forall>x. is_last_spte E x (iter_level it)"
  shows "spte_mem k' = (spte_mem k)(fst (iter_sptep it) :=
                          (spte_mem k (fst (iter_sptep it)))(snd (iter_sptep it) := new))
         \<and> sp_of k' = sp_of k \<and> it' = it\<lparr>iter_old_spte := iter_old_spte it'\<rparr>"
proof -
  from run obtain o1 where
    s: "tdp_mmu_set_spte E fuel k (iter_as_id it) (iter_sptep it) (iter_old_spte it) new
          (iter_gfn it) (iter_level it) = Inr (k', o1)"
    and i: "it' = it\<lparr>iter_old_spte := o1\<rparr>"
    by (auto simp: tdp_mmu_iter_set_spte_def split: sum.splits)
  from set_spte_last_level_frame [OF s last] i show ?thesis by simp
qed

text \<open>
  One call of a handler of \<^verbatim>\<open>kvm_tdp_mmu_handle_gfn\<close> on a leaf under a non-private
  root: the entries of private tables and the shadow pages are as before, and the tables
  under non-private roots are still closed under their links.
\<close>

lemma age_gfn_range_shared:
  assumes run: "age_gfn_range E k it rng = Inr (k', it', b)"
    and closed: "shared_side_closed E k" and cur: "cursor_on_shared k it"
    and leaf: "is_last_spte E (iter_old_spte it) (iter_level it)"
    and acc: "\<forall>x l. spte_to_child_pt E (x AND NOT (shadow_accessed_mask E)) l =
                       spte_to_child_pt E x l"
    and track: "\<forall>x l. spte_to_child_pt E (mark_spte_for_access_track E x) l =
                         spte_to_child_pt E x l"
  shows "sp_of k' = sp_of k
         \<and> (\<forall>a. is_private_sp (sp_of k a) \<longrightarrow> spte_mem k' a = spte_mem k a)
         \<and> shared_side_closed E k' \<and> cursor_on_shared k' it'"
proof -
  note t = cursor_table [OF cur]
  let ?a = "fst (iter_sptep it)" and ?i = "snd (iter_sptep it)"
  have none: "spte_to_child_pt E (iter_old_spte it) (iter_level it) = None"
    using leaf by (simp add: spte_to_child_pt_def)
  have old: "\<not> is_private_sp (sp_of k c) \<and> Suc (role_level (role (sp_of k c))) = iter_level it"
    if "spte_to_child_pt E (spte_mem k ?a ?i) (iter_level it) = Some c" for c
  proof -
    from that have "spte_to_child_pt E (spte_mem k ?a ?i) (role_level (role (sp_of k ?a))) = Some c"
      unfolding t(2) .
    with t(1) have "\<not> is_private_sp (sp_of k c)
        \<and> Suc (role_level (role (sp_of k c))) = role_level (role (sp_of k ?a))"
      using closed [unfolded shared_side_closed_def, rule_format, of ?a ?i c] by simp
    then show ?thesis unfolding t(2) .
  qed
  have fin: "sp_of k' = sp_of k
         \<and> (\<forall>a. is_private_sp (sp_of k a) \<longrightarrow> spte_mem k' a = spte_mem k a)
         \<and> shared_side_closed E k'"
    if sp: "sp_of k' = sp_of k"
      and mem: "spte_mem k' = (spte_mem k)(?a := (spte_mem k ?a)(?i := v))"
      and v: "spte_to_child_pt E v (iter_level it) = None
              \<or> spte_to_child_pt E v (iter_level it) =
                   spte_to_child_pt E (spte_mem k ?a ?i) (iter_level it)"
    for v
  proof -
    have "\<forall>c. spte_to_child_pt E v (role_level (role (sp_of k ?a))) = Some c \<longrightarrow>
               \<not> is_private_sp (sp_of k c)
               \<and> Suc (role_level (role (sp_of k c))) = role_level (role (sp_of k ?a))"
      unfolding t(2)
    proof (intro allI impI)
      fix c
      assume s: "spte_to_child_pt E v (iter_level it) = Some c"
      from v show "\<not> is_private_sp (sp_of k c)
                   \<and> Suc (role_level (role (sp_of k c))) = iter_level it"
      proof
        assume "spte_to_child_pt E v (iter_level it) = None"
        with s show ?thesis by simp
      next
        assume "spte_to_child_pt E v (iter_level it) =
                   spte_to_child_pt E (spte_mem k ?a ?i) (iter_level it)"
        with s have "spte_to_child_pt E (spte_mem k ?a ?i) (iter_level it) = Some c" by simp
        then show ?thesis by (rule old)
      qed
    qed
    from closed_update [OF closed sp mem this] private_frame_update [OF mem t(1)] sp
    show ?thesis by simp
  qed
  show ?thesis
  proof (cases "is_accessed_spte E (iter_old_spte it)")
    case False
    then have "age_gfn_range E k it rng = Inr (k, it, False)"
      by (simp add: age_gfn_range_def)
    with run have "k' = k" "it' = it" by simp_all
    with closed cur show ?thesis by simp
  next
    case a: True
    show ?thesis
    proof (cases "spte_ad_enabled E (iter_old_spte it)")
      case True
      obtain k1 o1 where
        c1: "tdp_mmu_clear_spte_bits E k (iter_sptep it) (iter_old_spte it)
              (shadow_accessed_mask E) (iter_level it) = (k1, o1)"
        by (cases "tdp_mmu_clear_spte_bits E k (iter_sptep it) (iter_old_spte it)
              (shadow_accessed_mask E) (iter_level it)")
      with a True have "age_gfn_range E k it rng = Inr (k1, it\<lparr>iter_old_spte := o1\<rparr>, True)"
        by (simp add: age_gfn_range_def)
      with run have e: "k1 = k'" and i: "it' = it\<lparr>iter_old_spte := o1\<rparr>" by simp_all
      note c = c1 [unfolded e]
      from clear_spte_bits_frame [OF c] obtain v where
        sp: "sp_of k' = sp_of k"
        and v: "v = kvm_tdp_mmu_read_spte k (iter_sptep it) AND NOT (shadow_accessed_mask E)
                \<or> v = iter_old_spte it AND NOT (shadow_accessed_mask E)"
        and mem: "spte_mem k' = (spte_mem k)(?a := (spte_mem k ?a)(?i := v))"
        by blast
      from v have "spte_to_child_pt E v (iter_level it) = None
              \<or> spte_to_child_pt E v (iter_level it) =
                   spte_to_child_pt E (spte_mem k ?a ?i) (iter_level it)"
      proof
        assume "v = kvm_tdp_mmu_read_spte k (iter_sptep it) AND NOT (shadow_accessed_mask E)"
        then have "spte_to_child_pt E v (iter_level it) =
                   spte_to_child_pt E (spte_mem k ?a ?i) (iter_level it)"
          using acc [rule_format, of "spte_mem k ?a ?i" "iter_level it"]
          by (simp add: kvm_tdp_mmu_read_spte_def)
        then show ?thesis ..
      next
        assume "v = iter_old_spte it AND NOT (shadow_accessed_mask E)"
        then have "spte_to_child_pt E v (iter_level it) = None"
          using acc [rule_format, of "iter_old_spte it" "iter_level it"] none by simp
        then show ?thesis ..
      qed
      from fin [OF sp mem this] cur i sp show ?thesis
        by (simp add: cursor_on_shared_cong [OF sp])
    next
      case False
      define k1 where "k1 = (if is_writable_pte E (iter_old_spte it)
                   then kvm_set_pfn_dirty (spte_to_pfn E (iter_old_spte it)) k else k)"
      have k1: "spte_mem k1 = spte_mem k" "sp_of k1 = sp_of k"
        by (simp_all add: k1_def)
      obtain k2 o1 where
        w1: "kvm_tdp_mmu_write_spte E k1 (iter_sptep it) (iter_old_spte it)
              (mark_spte_for_access_track E (iter_old_spte it)) (iter_level it) = (k2, o1)"
        by (cases "kvm_tdp_mmu_write_spte E k1 (iter_sptep it) (iter_old_spte it)
              (mark_spte_for_access_track E (iter_old_spte it)) (iter_level it)")
      with a False have "age_gfn_range E k it rng = Inr (k2, it\<lparr>iter_old_spte := o1\<rparr>, True)"
        by (simp add: age_gfn_range_def k1_def Let_def)
      with run have e: "k2 = k'" and i: "it' = it\<lparr>iter_old_spte := o1\<rparr>" by simp_all
      note w = w1 [unfolded e]
      from write_spte_frame [OF w] k1
      have sp: "sp_of k' = sp_of k"
        and mem: "spte_mem k' = (spte_mem k)(?a := (spte_mem k ?a)
                     (?i := mark_spte_for_access_track E (iter_old_spte it)))"
        by simp_all
      have "spte_to_child_pt E (mark_spte_for_access_track E (iter_old_spte it)) (iter_level it)
              = None
            \<or> spte_to_child_pt E (mark_spte_for_access_track E (iter_old_spte it)) (iter_level it)
              = spte_to_child_pt E (spte_mem k ?a ?i) (iter_level it)"
        using track [rule_format, of "iter_old_spte it" "iter_level it"] none by simp
      from fin [OF sp mem this] cur i sp show ?thesis
        by (simp add: cursor_on_shared_cong [OF sp])
    qed
  qed
qed

lemma test_age_gfn_shared:
  assumes run: "test_age_gfn E k it rng = Inr (k', it', b)"
    and closed: "shared_side_closed E k" and cur: "cursor_on_shared k it"
  shows "sp_of k' = sp_of k
         \<and> (\<forall>a. is_private_sp (sp_of k a) \<longrightarrow> spte_mem k' a = spte_mem k a)
         \<and> shared_side_closed E k' \<and> cursor_on_shared k' it'"
  using assms by (auto simp: test_age_gfn_def)

lemma set_spte_gfn_shared:
  assumes run: "set_spte_gfn E fuel k it rng = Inr (k', it', b)"
    and closed: "shared_side_closed E k" and cur: "cursor_on_shared k it"
    and last: "\<forall>x. is_last_spte E x PG_LEVEL_4K"
  shows "sp_of k' = sp_of k
         \<and> (\<forall>a. is_private_sp (sp_of k a) \<longrightarrow> spte_mem k' a = spte_mem k a)
         \<and> shared_side_closed E k' \<and> cursor_on_shared k' it'"
proof (cases "iter_level it \<noteq> PG_LEVEL_4K \<or> \<not> is_shadow_present_pte E (iter_old_spte it)")
  case True
  with run closed cur show ?thesis by (auto simp: set_spte_gfn_def)
next
  case False
  then have lv: "iter_level it = PG_LEVEL_4K" by simp
  note t = cursor_table [OF cur]
  let ?a = "fst (iter_sptep it)" and ?i = "snd (iter_sptep it)"
  have step: "sp_of kb = sp_of ka
         \<and> (\<forall>a. is_private_sp (sp_of ka a) \<longrightarrow> spte_mem kb a = spte_mem ka a)
         \<and> shared_side_closed E kb \<and> cursor_on_shared kb ib
         \<and> iter_sptep ib = iter_sptep it \<and> iter_level ib = iter_level it"
    if r: "tdp_mmu_iter_set_spte E fuel ka ia v = Inr (kb, ib)"
      and c: "shared_side_closed E ka" "cursor_on_shared ka ia"
      and s: "sp_of ka = sp_of k" "iter_sptep ia = iter_sptep it" "iter_level ia = iter_level it"
    for ka ia kb ib v
  proof -
    have l: "\<forall>x. is_last_spte E x (iter_level ia)" using last by (simp add: s lv)
    from iter_set_spte_last_level_frame [OF r l]
    have mem: "spte_mem kb = (spte_mem ka)(?a := (spte_mem ka ?a)(?i := v))"
      and sp: "sp_of kb = sp_of ka" and i: "ib = ia\<lparr>iter_old_spte := iter_old_spte ib\<rparr>"
      by (simp_all add: s)
    have "\<forall>c. spte_to_child_pt E v (role_level (role (sp_of ka ?a))) = Some c \<longrightarrow>
               \<not> is_private_sp (sp_of ka c)
               \<and> Suc (role_level (role (sp_of ka c))) = role_level (role (sp_of ka ?a))"
      using last by (simp add: s t(2) lv spte_to_child_pt_def)
    from closed_update [OF c(1) sp mem this]
    have "shared_side_closed E kb" .
    moreover have "\<forall>a. is_private_sp (sp_of ka a) \<longrightarrow> spte_mem kb a = spte_mem ka a"
      using t(1) by (auto simp: mem s)
    moreover have "cursor_on_shared kb ib"
      by (subst i) (simp add: cursor_on_shared_cong [OF sp] c(2))
    moreover have "iter_sptep ib = iter_sptep it \<and> iter_level ib = iter_level it"
      by (subst (1 2) i) (simp add: s)
    ultimately show ?thesis using sp by simp
  qed
  from False run obtain k1 i1 where
    r1: "tdp_mmu_iter_set_spte E fuel k it (private_zapped_spte E k it) = Inr (k1, i1)"
    by (auto simp: set_spte_gfn_def split: sum.splits)
  note s1 = step [OF r1 closed cur refl refl refl]
  show ?thesis
  proof (cases "range_pte_write rng")
    case True
    with False run r1 have "k' = k1" "it' = i1" by (auto simp: set_spte_gfn_def)
    with s1 show ?thesis by simp
  next
    case w: False
    with False run r1 obtain k2 i2 where
      r2: "tdp_mmu_iter_set_spte E fuel k1 i1
             (kvm_mmu_changed_pte_notifier_make_spte E (iter_old_spte i1) (range_pte_pfn rng))
             = Inr (k2, i2)"
      and e: "k' = k2" "it' = i2"
      by (auto simp: set_spte_gfn_def split: sum.splits)
    from s1 have c1: "shared_side_closed E k1" "cursor_on_shared k1 i1"
      and q1: "sp_of k1 = sp_of k" "iter_sptep i1 = iter_sptep it" "iter_level i1 = iter_level it"
      by simp_all
    note s2 = step [OF r2 c1 q1]
    from s1 s2 show ?thesis unfolding e by simp
  qed
qed

text \<open>
  The loop of the walk and the loop over the roots keep the entries of the private
  tables.
\<close>

lemma tdp_pte_loop_shared:
  assumes body: "\<And>acc k it c acc' k' it'.
     body acc k it = Inr (c, acc', k', it') \<Longrightarrow> shared_side_closed E k \<Longrightarrow>
     cursor_on_shared k it \<Longrightarrow>
     sp_of k' = sp_of k
     \<and> (\<forall>a. is_private_sp (sp_of k a) \<longrightarrow> spte_mem k' a = spte_mem k a)
     \<and> shared_side_closed E k' \<and> cursor_on_shared k' it'"
  shows "tdp_pte_loop E end_gfn body n acc k it = Inr (acc', k', it') \<Longrightarrow>
         shared_side_closed E k \<Longrightarrow> (valid it \<longrightarrow> cursor_on_shared k it) \<Longrightarrow>
         sp_of k' = sp_of k
         \<and> (\<forall>a. is_private_sp (sp_of k a) \<longrightarrow> spte_mem k' a = spte_mem k a)
         \<and> shared_side_closed E k'"
proof (induction n arbitrary: acc k it)
  case 0
  then show ?case by simp
next
  case (Suc n)
  show ?case
  proof (cases "valid it \<and> iter_gfn it < end_gfn")
    case False
    with Suc.prems(1) have "k' = k" by auto
    with Suc.prems(2) show ?thesis by simp
  next
    case True
    with Suc.prems(1) obtain c acc1 k1 it1 where
      b: "body acc k it = Inr (c, acc1, k1, it1)"
      by (auto split: sum.splits)
    from True Suc.prems(3) have cur: "cursor_on_shared k it" by simp
    from body [OF b Suc.prems(2) cur]
    have s1: "sp_of k1 = sp_of k"
      and f1: "\<forall>a. is_private_sp (sp_of k a) \<longrightarrow> spte_mem k1 a = spte_mem k a"
      and c1: "shared_side_closed E k1" and u1: "cursor_on_shared k1 it1"
      by simp_all
    have comp: "sp_of k' = sp_of k
         \<and> (\<forall>a. is_private_sp (sp_of k a) \<longrightarrow> spte_mem k' a = spte_mem k a)
         \<and> shared_side_closed E k'"
      if "sp_of k' = sp_of k1
         \<and> (\<forall>a. is_private_sp (sp_of k1 a) \<longrightarrow> spte_mem k' a = spte_mem k1 a)
         \<and> shared_side_closed E k'"
      using that s1 f1 by simp
    show ?thesis
    proof (cases c)
      case Continue
      with True b Suc.prems(1)
      have r: "tdp_pte_loop E end_gfn body n acc1 k1 (tdp_iter_next E k1 it1) = Inr (acc', k', it')"
        by simp
      have "cursor_on_shared k1 (tdp_iter_next E k1 it1)"
        using u1 c1 by (rule next_cursor)
      then have "valid (tdp_iter_next E k1 it1) \<longrightarrow> cursor_on_shared k1 (tdp_iter_next E k1 it1)"
        by simp
      from Suc.IH [OF r c1 this] show ?thesis by (rule comp)
    next
      case Retry
      with True b Suc.prems(1)
      have r: "tdp_pte_loop E end_gfn body n acc1 k1 it1 = Inr (acc', k', it')"
        by simp
      from u1 have "valid it1 \<longrightarrow> cursor_on_shared k1 it1" by simp
      from Suc.IH [OF r c1 this] show ?thesis by (rule comp)
    next
      case Break
      with True b Suc.prems(1) have "k' = k1" by simp
      with s1 f1 c1 show ?thesis by simp
    qed
  qed
qed

lemma handle_gfn_body_shared:
  assumes h: "\<And>k it k' it' b.
     handler k it rng = Inr (k', it', b) \<Longrightarrow> shared_side_closed E k \<Longrightarrow>
     cursor_on_shared k it \<Longrightarrow> is_last_spte E (iter_old_spte it) (iter_level it) \<Longrightarrow>
     sp_of k' = sp_of k
     \<and> (\<forall>a. is_private_sp (sp_of k a) \<longrightarrow> spte_mem k' a = spte_mem k a)
     \<and> shared_side_closed E k' \<and> cursor_on_shared k' it'"
    and run: "handle_gfn_body E handler rng ret k it = Inr (c, ret', k', it')"
    and closed: "shared_side_closed E k" and cur: "cursor_on_shared k it"
  shows "sp_of k' = sp_of k
     \<and> (\<forall>a. is_private_sp (sp_of k a) \<longrightarrow> spte_mem k' a = spte_mem k a)
     \<and> shared_side_closed E k' \<and> cursor_on_shared k' it'"
proof (cases "(\<not> is_shadow_present_pte E (iter_old_spte it) \<and>
          \<not> is_private_zapped_spte E (iter_old_spte it)) \<or>
         \<not> is_last_spte E (iter_old_spte it) (iter_level it)")
  case True
  then have "handle_gfn_body E handler rng ret k it = Inr (Continue, ret, k, it)"
    by (simp add: handle_gfn_body_def)
  with run have "k' = k" "it' = it" by simp_all
  with closed cur show ?thesis by simp
next
  case False
  then have leaf: "is_last_spte E (iter_old_spte it) (iter_level it)" by simp
  from False have u: "handle_gfn_body E handler rng ret k it =
     (case handler k it rng of
        Inl e \<Rightarrow> Inl e
      | Inr (k1, iter1, r) \<Rightarrow> Inr (Continue, (ret \<or> r), k1, iter1))"
    by (auto simp: handle_gfn_body_def)
  from run obtain b where "handler k it rng = Inr (k', it', b)"
    unfolding u by (auto split: sum.splits)
  from h [OF this closed cur leaf] show ?thesis .
qed

lemma handle_gfn_roots_shared:
  assumes h: "\<And>k it k' it' b.
     handler k it rng = Inr (k', it', b) \<Longrightarrow> shared_side_closed E k \<Longrightarrow>
     cursor_on_shared k it \<Longrightarrow> is_last_spte E (iter_old_spte it) (iter_level it) \<Longrightarrow>
     sp_of k' = sp_of k
     \<and> (\<forall>a. is_private_sp (sp_of k a) \<longrightarrow> spte_mem k' a = spte_mem k a)
     \<and> shared_side_closed E k' \<and> cursor_on_shared k' it'"
  shows "handle_gfn_roots E fuel handler rng roots k ret = Inr (k', b) \<Longrightarrow>
         shared_side_closed E k \<Longrightarrow> (\<forall>r\<in>set roots. spt (sp_of k r) = r) \<Longrightarrow>
         sp_of k' = sp_of k
         \<and> (\<forall>a. is_private_sp (sp_of k a) \<longrightarrow> spte_mem k' a = spte_mem k a)"
proof (induction roots arbitrary: k ret)
  case Nil
  then show ?case by simp
next
  case (Cons root rest)
  from Cons.prems(3) have hdr: "spt (sp_of k root) = root"
    and hdrs: "\<forall>r\<in>set rest. spt (sp_of k r) = r"
    by simp_all
  show ?case
  proof (cases "kvm_mmu_page_as_id (sp_of k root) \<noteq> range_as_id rng
                \<or> is_private_sp (sp_of k root)")
    case True
    with Cons.prems(1)
    have "handle_gfn_roots E fuel handler rng rest k ret = Inr (k', b)"
      by (auto split: if_splits)
    from Cons.IH [OF this Cons.prems(2) hdrs] show ?thesis .
  next
    case False
    then have np: "\<not> is_private_sp (sp_of k root)" by simp
    let ?s = "kvm_gfn_to_shared k (range_start rng)" and ?e = "kvm_gfn_to_shared k (range_end rng)"
    from False Cons.prems(1) obtain ret1 k1 it1 where
      w: "tdp_pte_loop E ?e (handle_gfn_body E handler rng) fuel ret k
            (tdp_iter_start E k root PG_LEVEL_4K ?s) = Inr (ret1, k1, it1)"
      and r: "handle_gfn_roots E fuel handler rng rest k1 ret1 = Inr (k', b)"
      by (auto simp: for_each_tdp_pte_min_level_def split: sum.splits)
    have "sp_of k1 = sp_of k
         \<and> (\<forall>a. is_private_sp (sp_of k a) \<longrightarrow> spte_mem k1 a = spte_mem k a)
         \<and> shared_side_closed E k1"
      using w Cons.prems(2) start_cursor [OF np hdr]
      by (rule tdp_pte_loop_shared [rotated])
         (rule handle_gfn_body_shared [OF h], assumption+)
    then have s1: "sp_of k1 = sp_of k"
      and f1: "\<forall>a. is_private_sp (sp_of k a) \<longrightarrow> spte_mem k1 a = spte_mem k a"
      and c1: "shared_side_closed E k1"
      by simp_all
    from hdrs have "\<forall>r\<in>set rest. spt (sp_of k1 r) = r" by (simp add: s1)
    from Cons.IH [OF r c1 this] s1 f1 show ?thesis by simp
  qed
qed

text \<open>
  C10. \<^verbatim>\<open>kvm_tdp_mmu_age_gfn_range\<close>, \<^verbatim>\<open>kvm_tdp_mmu_test_age_gfn\<close> and
  \<^verbatim>\<open>kvm_tdp_mmu_set_spte_gfn\<close> go through \<^verbatim>\<open>kvm_tdp_mmu_handle_gfn\<close>, which skips
  every private root. On a guest whose non-private tables link only non-private tables
  of the level below, and whose roots are found from their own pages, every call that
  returns leaves every entry of every private table as it was (private roots and the
  tables under them, also when the list has non-private roots that the call works on),
  and leaves the shadow pages as they were; the resulting state and the returned boolean
  are those of the loop run over the non-private roots of the list only. The codec is
  assumed to make every value a leaf at the 4K level and to keep the child pointer of a
  value when the accessed bit is cleared or the value is marked for access tracking.
\<close>

theorem handle_gfn_skips_private_roots:
  assumes closed: "shared_side_closed E k"
    and hdr: "\<forall>r\<in>set (tdp_mmu_roots k). spt (sp_of k r) = r"
    and last4k: "\<forall>x. is_last_spte E x PG_LEVEL_4K"
    and acc: "\<forall>x l. spte_to_child_pt E (x AND NOT (shadow_accessed_mask E)) l =
                       spte_to_child_pt E x l"
    and track: "\<forall>x l. spte_to_child_pt E (mark_spte_for_access_track E x) l =
                         spte_to_child_pt E x l"
    and run: "kvm_tdp_mmu_age_gfn_range E fuel k rng = Inr (k', b)
              \<or> kvm_tdp_mmu_test_age_gfn E fuel k rng = Inr (k', b)
              \<or> kvm_tdp_mmu_set_spte_gfn E fuel k rng = Inr (k', b)"
  shows "(\<forall>a. is_private_sp (sp_of k a) \<longrightarrow> spte_mem k' a = spte_mem k a)
       \<and> sp_of k' = sp_of k
       \<and> kvm_tdp_mmu_age_gfn_range E fuel k rng =
           handle_gfn_roots E fuel (age_gfn_range E) rng
             (filter (\<lambda>r. \<not> is_private_sp (sp_of k r)) (tdp_mmu_roots k)) k False
       \<and> kvm_tdp_mmu_test_age_gfn E fuel k rng =
           handle_gfn_roots E fuel (test_age_gfn E) rng
             (filter (\<lambda>r. \<not> is_private_sp (sp_of k r)) (tdp_mmu_roots k)) k False
       \<and> kvm_tdp_mmu_set_spte_gfn E fuel k rng =
           handle_gfn_roots E fuel (set_spte_gfn E fuel) rng
             (filter (\<lambda>r. \<not> is_private_sp (sp_of k r)) (tdp_mmu_roots k)) k False"
proof -
  have age: "kvm_tdp_mmu_age_gfn_range E fuel k rng =
     handle_gfn_roots E fuel (age_gfn_range E) rng
       (filter (\<lambda>r. \<not> is_private_sp (sp_of k r)) (tdp_mmu_roots k)) k False"
    unfolding kvm_tdp_mmu_age_gfn_range_def kvm_tdp_mmu_handle_gfn_def
    by (rule handle_gfn_roots_skip_private) (rule age_gfn_range_roles)
  have test: "kvm_tdp_mmu_test_age_gfn E fuel k rng =
     handle_gfn_roots E fuel (test_age_gfn E) rng
       (filter (\<lambda>r. \<not> is_private_sp (sp_of k r)) (tdp_mmu_roots k)) k False"
    unfolding kvm_tdp_mmu_test_age_gfn_def kvm_tdp_mmu_handle_gfn_def
    by (rule handle_gfn_roots_skip_private) (rule test_age_gfn_roles)
  have setg: "kvm_tdp_mmu_set_spte_gfn E fuel k rng =
     handle_gfn_roots E fuel (set_spte_gfn E fuel) rng
       (filter (\<lambda>r. \<not> is_private_sp (sp_of k r)) (tdp_mmu_roots k)) k False"
    unfolding kvm_tdp_mmu_set_spte_gfn_def kvm_tdp_mmu_handle_gfn_def
    by (rule handle_gfn_roots_skip_private) (rule set_spte_gfn_roles)
  from run have "sp_of k' = sp_of k
         \<and> (\<forall>a. is_private_sp (sp_of k a) \<longrightarrow> spte_mem k' a = spte_mem k a)"
  proof (elim disjE)
    assume "kvm_tdp_mmu_age_gfn_range E fuel k rng = Inr (k', b)"
    then have "handle_gfn_roots E fuel (age_gfn_range E) rng (tdp_mmu_roots k) k False =
                 Inr (k', b)"
      by (simp add: kvm_tdp_mmu_age_gfn_range_def kvm_tdp_mmu_handle_gfn_def)
    then show ?thesis
      using closed hdr
      by (rule handle_gfn_roots_shared [rotated])
         (rule age_gfn_range_shared [OF _ _ _ _ acc track], assumption+)
  next
    assume "kvm_tdp_mmu_test_age_gfn E fuel k rng = Inr (k', b)"
    then have "handle_gfn_roots E fuel (test_age_gfn E) rng (tdp_mmu_roots k) k False =
                 Inr (k', b)"
      by (simp add: kvm_tdp_mmu_test_age_gfn_def kvm_tdp_mmu_handle_gfn_def)
    then show ?thesis
      using closed hdr
      by (rule handle_gfn_roots_shared [rotated])
         (rule test_age_gfn_shared, assumption+)
  next
    assume "kvm_tdp_mmu_set_spte_gfn E fuel k rng = Inr (k', b)"
    then have "handle_gfn_roots E fuel (set_spte_gfn E fuel) rng (tdp_mmu_roots k) k False =
                 Inr (k', b)"
      by (simp add: kvm_tdp_mmu_set_spte_gfn_def kvm_tdp_mmu_handle_gfn_def)
    then show ?thesis
      using closed hdr
      by (rule handle_gfn_roots_shared [rotated])
         (rule set_spte_gfn_shared [OF _ _ _ last4k], assumption+)
  qed
  with age test setg show ?thesis by simp
qed


lemma ex_env_child_pt_accessed:
  "spte_to_child_pt ex_env (x AND NOT 0x100) l = spte_to_child_pt ex_env x l"
proof -
  have a: "(x AND - 257) AND 0x800 = x AND 0x800"
    "(x AND - 257) AND 0x80 = x AND 0x80"
    "(x AND - 257) AND 0xFFFFFFFFFF000 = x AND 0xFFFFFFFFFF000" for x :: "64 word"
    by (simp_all add: and.assoc)
  have c: "is_shadow_present_pte ex_env (x AND NOT 0x100) = is_shadow_present_pte ex_env x"
    "is_last_spte ex_env (x AND NOT 0x100) l = is_last_spte ex_env x l"
    "spte_to_pfn ex_env (x AND NOT 0x100) = spte_to_pfn ex_env x"
    by (simp_all add: ex_env_def a and.assoc)
  show ?thesis
    by (simp only: spte_to_child_pt_def c)
qed

lemma mixed_kvm_facts:
  "tdp_mmu_roots mixed_kvm = [0x3000, 0x1000]"
  "sp_of mixed_kvm = (\<lambda>a. if a = 0x1000
       then (ex_sp 0x1000)\<lparr>role := ex_role\<lparr>role_level := 1, role_is_private := True\<rparr>,
                             private_spt := Some 0x9000\<rparr>
       else if a = 0x3000 then (ex_sp 0x3000)\<lparr>role := ex_role\<lparr>role_level := 2\<rparr>\<rparr>
       else if a = 0x4000 then (ex_sp 0x4000)\<lparr>role := ex_role\<lparr>role_level := 1\<rparr>\<rparr>
       else ex_sp a)"
  "spte_mem mixed_kvm = (\<lambda>a i. if a = 0x1000 \<and> i = 1 then 0x5801
                            else if a = 0x3000 \<and> i = 0 then 0x4907
                            else if a = 0x4000 \<and> i = 0 then 0x7901 else 0)"
  "gfn_shared_mask mixed_kvm = 0x8000000000"
  by (simp_all add: mixed_kvm_def private_kvm_def ex_kvm_def fun_eq_iff)

lemma mixed_kvm_closed: "shared_side_closed ex_env mixed_kvm"
proof -
  have e: "spte_to_child_pt ex_env 0 l = None" "spte_to_child_pt ex_env x (Suc 0) = None"
    "spte_to_child_pt ex_env 0x4907 2 = Some 0x4000" for l x
    by (simp_all add: spte_to_child_pt_def ex_env_def)
  show ?thesis
    unfolding shared_side_closed_def
    by (auto simp: mixed_kvm_facts is_private_sp_def ex_sp_def ex_role_def e
             split: if_splits)
qed

lemma mixed_kvm_age_run:
  "kvm_tdp_mmu_age_gfn_range ex_env (Suc (Suc (Suc 0))) mixed_kvm one_frame_range =
     Inr (mixed_kvm\<lparr>spte_mem := (spte_mem mixed_kvm)
                                    (0x4000 := (spte_mem mixed_kvm 0x4000)(0 := 0x7801))\<rparr>, True)"
proof -
  define k1 where "k1 = mixed_kvm\<lparr>spte_mem := (spte_mem mixed_kvm)
                                    (0x4000 := (spte_mem mixed_kvm 0x4000)(0 := 0x7801))\<rparr>"
  define it0 where "it0 = tdp_iter_start ex_env mixed_kvm 0x3000 (Suc 0) 0x8000000000"
  have n: "SPTE_ENT_PER_PAGE ex_env = 512" "KVM_PAGES_PER_HPAGE ex_env (Suc 0) = 1"
    "KVM_PAGES_PER_HPAGE ex_env 2 = 0x200" "PAGE_SHIFT ex_env = 12"
    by (simp_all add: ex_env_def KVM_PAGES_PER_HPAGE_def)
  have g: "kvm_gfn_to_shared mixed_kvm (range_start one_frame_range) = 0x8000000000"
    "kvm_gfn_to_shared mixed_kvm (range_end one_frame_range) = 0x8000000001"
    "range_as_id one_frame_range = 0"
    by (simp_all add: kvm_gfn_to_shared_def kvm_gfn_shared_mask_def mixed_kvm_facts
          one_frame_range_def ex_range_def)
  have u: "unat (0x8000000000 :: 64 word) = 549755813888" by simp
  have it0: "iter_sptep it0 = (0x3000, 0)" "iter_old_spte it0 = 0x4907" "iter_level it0 = 2"
    "iter_gfn it0 = 0x8000000000" "valid it0" "\<not> yielded it0" "min_level it0 = Suc 0"
    "root_level it0 = 2" "next_last_level_gfn it0 = 0x8000000000"
    by (simp_all add: it0_def tdp_iter_start_def tdp_iter_restart_def tdp_iter_refresh_sptep_def
          gfn_round_for_level_def SPTE_INDEX_def PT64_ROOT_MAX_LEVEL_def
          kvm_tdp_mmu_read_spte_def kvm_mmu_page_as_id_def kvm_mmu_role_as_id_def
          mixed_kvm_facts n u ex_sp_def ex_role_def Let_def)
  have env: "\<not> is_last_spte ex_env 0x4907 2" "is_shadow_present_pte ex_env 0x7901"
    "is_last_spte ex_env 0x7901 (Suc 0)" "is_accessed_spte ex_env 0x7901"
    "spte_ad_enabled ex_env 0x7901" "\<not> spte_has_volatile_bits ex_env 0x7901"
    "shadow_accessed_mask ex_env = 0x100"
    "spte_to_child_pt ex_env 0x4907 2 = Some 0x4000"
    by (simp_all add: ex_env_def spte_to_child_pt_def)
  have b0: "handle_gfn_body ex_env (age_gfn_range ex_env) one_frame_range False mixed_kvm it0 =
              Inr (Continue, False, mixed_kvm, it0)"
    by (simp add: handle_gfn_body_def it0 env)
  define it1 where "it1 = tdp_iter_next ex_env mixed_kvm it0"
  have it1: "iter_sptep it1 = (0x4000, 0)" "iter_old_spte it1 = 0x7901" "iter_level it1 = Suc 0"
    "iter_gfn it1 = 0x8000000000" "valid it1" "\<not> yielded it1" "min_level it1 = Suc 0"
    by (simp_all add: it1_def tdp_iter_next_def try_step_down_def tdp_iter_step_down_def
          tdp_iter_refresh_sptep_def gfn_round_for_level_def SPTE_INDEX_def
          kvm_tdp_mmu_read_spte_def it0 env mixed_kvm_facts n u Let_def)
  have a1: "age_gfn_range ex_env mixed_kvm it1 one_frame_range = Inr (k1, it1, True)"
  proof -
    have "tdp_mmu_clear_spte_bits ex_env mixed_kvm (iter_sptep it1) (iter_old_spte it1)
            (shadow_accessed_mask ex_env) (iter_level it1) =
          (raw_kvm_tdp_mmu_write_spte (0x4000, 0) 0x7801 mixed_kvm, 0x7901)"
      by (simp add: tdp_mmu_clear_spte_bits_def kvm_tdp_mmu_spte_need_atomic_write_def it1 env)
    moreover have "raw_kvm_tdp_mmu_write_spte (0x4000, 0) 0x7801 mixed_kvm = k1"
      by (simp add: raw_kvm_tdp_mmu_write_spte_def k1_def)
    moreover have "it1\<lparr>iter_old_spte := 0x7901\<rparr> = it1"
      using it1(2) by simp
    ultimately show ?thesis
      by (simp add: age_gfn_range_def it1 env)
  qed
  have b1: "handle_gfn_body ex_env (age_gfn_range ex_env) one_frame_range False mixed_kvm it1 =
              Inr (Continue, True, k1, it1)"
    by (simp add: handle_gfn_body_def it1 env a1)
  define it2 where "it2 = tdp_iter_next ex_env k1 it1"
  have it2: "iter_gfn it2 = 0x8000000001" "valid it2"
    by (simp_all add: it2_def tdp_iter_next_def try_step_down_def try_step_side_def
          tdp_iter_step_side_def SPTE_INDEX_def it1 n u Let_def)
  have loop: "tdp_pte_loop ex_env 0x8000000001
                (handle_gfn_body ex_env (age_gfn_range ex_env) one_frame_range)
                (Suc (Suc (Suc 0))) False mixed_kvm it0 = Inr (True, k1, it2)"
    using it2
    by (simp add: b0 b1 it0 it1 it1_def [symmetric] it2_def [symmetric])
  have sp1: "sp_of k1 = sp_of mixed_kvm" by (simp add: k1_def)
  have r: "kvm_mmu_page_as_id (sp_of mixed_kvm 0x3000) = 0"
    "\<not> is_private_sp (sp_of mixed_kvm 0x3000)"
    "is_private_sp (sp_of mixed_kvm 0x1000)"
    by (simp_all add: mixed_kvm_facts kvm_mmu_page_as_id_def kvm_mmu_role_as_id_def
          is_private_sp_def ex_sp_def ex_role_def)
  have "handle_gfn_roots ex_env (Suc (Suc (Suc 0))) (age_gfn_range ex_env) one_frame_range
          [0x3000, 0x1000] mixed_kvm False = Inr (k1, True)"
    by (simp add: r g for_each_tdp_pte_min_level_def PG_LEVEL_4K_def it0_def [symmetric] loop
          sp1 del: tdp_pte_loop.simps)
  then show ?thesis
    by (simp add: kvm_tdp_mmu_age_gfn_range_def kvm_tdp_mmu_handle_gfn_def mixed_kvm_facts
          k1_def)
qed


theorem handle_gfn_skips_private_roots_witness:
  "tdp_mmu_roots mixed_kvm = [0x3000, 0x1000]
   \<and> \<not> is_private_sp (sp_of mixed_kvm 0x3000)
   \<and> is_private_sp (sp_of mixed_kvm 0x1000)
   \<and> spte_mem mixed_kvm 0x4000 0 = 0x7901
   \<and> (\<exists>k'. kvm_tdp_mmu_age_gfn_range ex_env 3 mixed_kvm one_frame_range = Inr (k', True)
          \<and> spte_mem k' 0x4000 0 = 0x7801
          \<and> spte_mem k' 0x1000 = spte_mem mixed_kvm 0x1000
          \<and> spte_mem k' 0x1000 1 = 0x5801)"
proof -
  define k1 where "k1 = mixed_kvm\<lparr>spte_mem := (spte_mem mixed_kvm)
                                    (0x4000 := (spte_mem mixed_kvm 0x4000)(0 := 0x7801))\<rparr>"
  have three: "(3 :: nat) = Suc (Suc (Suc 0))" by simp
  have run: "kvm_tdp_mmu_age_gfn_range ex_env 3 mixed_kvm one_frame_range = Inr (k1, True)"
    unfolding three k1_def by (rule mixed_kvm_age_run)
  have hdr: "\<forall>r\<in>set (tdp_mmu_roots mixed_kvm). spt (sp_of mixed_kvm r) = r"
    by (simp add: mixed_kvm_facts ex_sp_def)
  have last4k: "\<forall>x. is_last_spte ex_env x PG_LEVEL_4K"
    by (simp add: ex_env_def PG_LEVEL_4K_def)
  have acc: "\<forall>x l. spte_to_child_pt ex_env (x AND NOT (shadow_accessed_mask ex_env)) l =
                       spte_to_child_pt ex_env x l"
    using ex_env_child_pt_accessed by (simp add: ex_env_def)
  have track: "\<forall>x l. spte_to_child_pt ex_env (mark_spte_for_access_track ex_env x) l =
                         spte_to_child_pt ex_env x l"
    using ex_env_child_pt_accessed by (simp add: ex_env_def)
  have p: "\<not> is_private_sp (sp_of mixed_kvm 0x3000)" "is_private_sp (sp_of mixed_kvm 0x1000)"
    by (simp_all add: mixed_kvm_facts is_private_sp_def ex_sp_def ex_role_def)
  from handle_gfn_skips_private_roots [OF mixed_kvm_closed hdr last4k acc track disjI1, OF run]
  have "\<forall>a. is_private_sp (sp_of mixed_kvm a) \<longrightarrow> spte_mem k1 a = spte_mem mixed_kvm a"
    by (rule conjunct1)
  with p have fr: "spte_mem k1 0x1000 = spte_mem mixed_kvm 0x1000" by simp
  have "spte_mem k1 0x4000 0 = 0x7801" by (simp add: k1_def)
  moreover have "spte_mem k1 0x1000 1 = 0x5801"
    by (simp add: fr mixed_kvm_facts)
  moreover have "spte_mem mixed_kvm 0x4000 0 = 0x7901"
    "tdp_mmu_roots mixed_kvm = [0x3000, 0x1000]"
    by (simp_all add: mixed_kvm_facts)
  ultimately show ?thesis using run fr p by blast
qed

end
